theory Spec2Isabelle
  imports Main "HOL-Library.Char_ord" "HOL-Library.List_Lexorder" "HOL-Library.Sublist"
begin

section \<open>Python strings and values\<close>

text \<open>
  Strings are \<open>char list\<close>; a character is a code point below 256. \<open>str.lower\<close>
  works character by character there: it maps the letters \<open>A\<close> to \<open>Z\<close> and the
  capital letters of Latin-1 (code points 192 to 222 without the multiplication sign
  215) to the code point 32 above, and leaves every other character as it is.
\<close>

definition upper_letters :: string where
  "upper_letters =
     ''ABCDEFGHIJKLMNOPQRSTUVWXYZ'' @
     [CHR 0xC0, CHR 0xC1, CHR 0xC2, CHR 0xC3, CHR 0xC4, CHR 0xC5, CHR 0xC6, CHR 0xC7,
      CHR 0xC8, CHR 0xC9, CHR 0xCA, CHR 0xCB, CHR 0xCC, CHR 0xCD, CHR 0xCE, CHR 0xCF,
      CHR 0xD0, CHR 0xD1, CHR 0xD2, CHR 0xD3, CHR 0xD4, CHR 0xD5, CHR 0xD6, CHR 0xD8,
      CHR 0xD9, CHR 0xDA, CHR 0xDB, CHR 0xDC, CHR 0xDD, CHR 0xDE]"

definition lower_letters :: string where
  "lower_letters =
     ''abcdefghijklmnopqrstuvwxyz'' @
     [CHR 0xE0, CHR 0xE1, CHR 0xE2, CHR 0xE3, CHR 0xE4, CHR 0xE5, CHR 0xE6, CHR 0xE7,
      CHR 0xE8, CHR 0xE9, CHR 0xEA, CHR 0xEB, CHR 0xEC, CHR 0xED, CHR 0xEE, CHR 0xEF,
      CHR 0xF0, CHR 0xF1, CHR 0xF2, CHR 0xF3, CHR 0xF4, CHR 0xF5, CHR 0xF6, CHR 0xF8,
      CHR 0xF9, CHR 0xFA, CHR 0xFB, CHR 0xFC, CHR 0xFD, CHR 0xFE]"

definition py_lower_char :: "char \<Rightarrow> char" where
  "py_lower_char c =
     (case map_of (zip upper_letters lower_letters) c of Some d \<Rightarrow> d | None \<Rightarrow> c)"

definition py_lower :: "string \<Rightarrow> string" where
  "py_lower s = map py_lower_char s"

text \<open>\<open>sub in s\<close> on strings: \<open>sub\<close> occurs in \<open>s\<close> as a contiguous block.\<close>

fun py_in :: "string \<Rightarrow> string \<Rightarrow> bool" where
  "py_in sub [] = (sub = [])"
| "py_in sub (c # cs) = (prefix sub (c # cs) \<or> py_in sub cs)"

text \<open>\<open>s.find(sub)\<close>: the index of the first occurrence; \<open>None\<close> stands for \<open>-1\<close>.\<close>

fun py_find :: "string \<Rightarrow> string \<Rightarrow> nat option" where
  "py_find sub [] = (if sub = [] then Some 0 else None)"
| "py_find sub (c # cs) =
     (if prefix sub (c # cs) then Some 0 else map_option Suc (py_find sub cs))"

text \<open>
  \<open>str.strip()\<close> removes leading and trailing whitespace: the code points 9 to 13,
  28 to 32, 133 and 160.
\<close>

definition py_isspace :: "char \<Rightarrow> bool" where
  "py_isspace c =
     (let n = (of_char c :: nat)
      in (9 \<le> n \<and> n \<le> 13) \<or> (28 \<le> n \<and> n \<le> 32) \<or> n = 133 \<or> n = 160)"

definition py_strip :: "string \<Rightarrow> string" where
  "py_strip s = rev (dropWhile py_isspace (rev (dropWhile py_isspace s)))"

text \<open>\<open>sep.join(xs)\<close>.\<close>

fun py_join :: "string \<Rightarrow> string list \<Rightarrow> string" where
  "py_join sep [] = []"
| "py_join sep [x] = x"
| "py_join sep (x # y # ys) = x @ sep @ py_join sep (y # ys)"

text \<open>
  The exceptions that can leave the functions below. \<open>json.JSONDecodeError\<close> is not
  among them: \<open>json.loads\<close> is a parameter \<open>loads\<close> of type
  \<open>string \<Rightarrow> json option\<close> throughout, and \<open>None\<close> is the decode error.
  \<open>NotModelled\<close> is no exception of Python's: it marks the one place where the model
  stops short of the code, a table, column or measure name that is not a string in a
  sharing report. Python goes on with such a name as a dictionary key; the extraction
  script writes every name with \<open>str(...)\<close>, so no blob it produced holds one.
\<close>

datatype py_error = KeyError | TypeError | AttributeError | DatabaseError | NotModelled

text \<open>
  What \<open>json.loads\<close> returns. An object is the list of its items in insertion order
  (a \<open>dict\<close>, so keys are looked up with \<open>map_of\<close>). Numbers are never inspected by
  the operations modelled here.
\<close>

datatype json =
    JNull
  | JBool bool
  | JNum int
  | JStr string
  | JArr "json list"
  | JObj "(string \<times> json) list"

text \<open>\<open>v[k]\<close> with a string key.\<close>

fun py_getitem :: "json \<Rightarrow> string \<Rightarrow> py_error + json" where
  "py_getitem (JObj kvs) k = (case map_of kvs k of Some v \<Rightarrow> Inr v | None \<Rightarrow> Inl KeyError)"
| "py_getitem _ k = Inl TypeError"

text \<open>\<open>v.get(k, default)\<close>: only a \<open>dict\<close> has the method.\<close>

fun py_get :: "json \<Rightarrow> string \<Rightarrow> json \<Rightarrow> py_error + json" where
  "py_get (JObj kvs) k d = (case map_of kvs k of Some v \<Rightarrow> Inr v | None \<Rightarrow> Inr d)"
| "py_get _ k d = Inl AttributeError"

text \<open>\<open>for x in v\<close>: a list yields its elements, a dict its keys, a string its characters.\<close>

fun py_iter :: "json \<Rightarrow> py_error + json list" where
  "py_iter (JArr xs) = Inr xs"
| "py_iter (JObj kvs) = Inr (map (\<lambda>kv. JStr (fst kv)) kvs)"
| "py_iter (JStr s) = Inr (map (\<lambda>c. JStr [c]) s)"
| "py_iter _ = Inl TypeError"

text \<open>\<open>v.lower()\<close>: only a string has the method.\<close>

fun py_lower_of :: "json \<Rightarrow> py_error + string" where
  "py_lower_of (JStr s) = Inr (py_lower s)"
| "py_lower_of _ = Inl AttributeError"

section \<open>The denormalized store of \<open>mcp_analyzer.py\<close>\<close>

text \<open>
  One table \<open>projects\<close> with \<open>id INTEGER PRIMARY KEY AUTOINCREMENT\<close>, \<open>name TEXT UNIQUE\<close>
  and five JSON text columns, each of which may be \<open>NULL\<close>. Rows are kept in rowid
  order, which is the order of a full scan. \<open>mcp_seq\<close> is the table's entry in
  \<open>sqlite_sequence\<close>: the largest rowid ever given out.
\<close>

record project =
  p_id :: nat
  p_name :: string
  p_file_path :: string
  p_file_hash :: string
  p_last_analyzed :: nat
  p_model_size :: nat
  p_tables_data :: "string option"
  p_metadata_data :: "string option"
  p_schema_data :: "string option"
  p_measures_data :: "string option"
  p_relationships_data :: "string option"

record mcp_db =
  mcp_projects :: "project list"
  mcp_seq :: nat

text \<open>
  The rowid \<open>AUTOINCREMENT\<close> gives a new row: one more than the largest rowid the table
  holds or ever held.
\<close>

definition next_rowid :: "nat \<Rightarrow> nat list \<Rightarrow> nat" where
  "next_rowid seq ids = Suc (max seq (fold max ids 0))"

text \<open>
  What SQLite keeps true of an \<open>AUTOINCREMENT\<close> table: no row has a rowid above the
  table's \<open>sqlite_sequence\<close> entry.
\<close>

definition mcp_rowids_ok :: "mcp_db \<Rightarrow> bool" where
  "mcp_rowids_ok db = list_all (\<lambda>r. p_id r \<le> mcp_seq db) (mcp_projects db)"

text \<open>\<open>SELECT id, file_hash FROM projects WHERE name = ?\<close> with \<open>fetchone()\<close>.\<close>

definition mcp_existing :: "mcp_db \<Rightarrow> string \<Rightarrow> project option" where
  "mcp_existing db project_name = find (\<lambda>r. p_name r = project_name) (mcp_projects db)"

text \<open>\<open>DELETE FROM projects WHERE name = ?\<close>, committed.\<close>

definition mcp_delete_by_name :: "string \<Rightarrow> mcp_db \<Rightarrow> mcp_db" where
  "mcp_delete_by_name project_name db =
     db\<lparr>mcp_projects := filter (\<lambda>r. \<not> p_name r = project_name) (mcp_projects db)\<rparr>"

text \<open>
  \<open>INSERT OR REPLACE INTO projects (name, ...)\<close>: the new rowid is chosen, a row that
  holds the same \<open>name\<close> is deleted (the \<open>UNIQUE\<close> conflict), the new row is stored.
  The result is \<open>cursor.lastrowid\<close> and the store.
\<close>

definition mcp_insert_or_replace :: "project \<Rightarrow> mcp_db \<Rightarrow> nat \<times> mcp_db" where
  "mcp_insert_or_replace row db =
     (let new_id = next_rowid (mcp_seq db) (map p_id (mcp_projects db));
          kept = filter (\<lambda>r. \<not> p_name r = p_name row) (mcp_projects db)
      in (new_id, \<lparr>mcp_projects = kept @ [row\<lparr>p_id := new_id\<rparr>], mcp_seq = new_id\<rparr>))"

subsection \<open>The extraction subprocess\<close>

text \<open>
  What \<open>subprocess.run(..., capture_output=True, text=True, timeout=30)\<close> does:
  it raises (\<open>TimeoutExpired\<close> after 30 seconds, or an \<open>OSError\<close> when the temporary
  script or the interpreter cannot be used), or it returns the exit code with the
  captured standard output and standard error, two separate strings.
\<close>

datatype subprocess_result =
    RunRaised
  | Completed int string string

text \<open>
  What one call of \<open>analyze_pbix_file_with_mcp\<close> reads from outside the store:
  the digest \<open>get_file_hash\<close> returned, \<open>datetime.now()\<close>, \<open>os.path.getsize\<close> and the
  subprocess.
\<close>

record analysis_env =
  e_file_hash :: string
  e_now :: nat
  e_getsize :: nat
  e_run :: subprocess_result

text \<open>
  Lines 263 to 265: the text after the first \<open>SUCCESS:\<close> of the standard output,
  stripped, is given to \<open>json.loads\<close>.
\<close>

definition success_payload :: "string \<Rightarrow> string" where
  "success_payload out =
     (case py_find ''SUCCESS:'' out of
        Some i \<Rightarrow> py_strip (drop (i + 8) out)
      | None \<Rightarrow> py_strip (drop 7 out))"

text \<open>
  Lines 274 to 284: the values of the new row, evaluated left to right before the
  statement runs. \<open>data['tables']\<close>, \<open>data['metadata']\<close>, \<open>data['measures']\<close> and
  \<open>data['relationships']\<close> raise when the key is missing or \<open>data\<close> is no dict;
  \<open>data.get('schema', [])\<close> has a default.
\<close>

definition mcp_new_row ::
  "(json \<Rightarrow> string) \<Rightarrow> string \<Rightarrow> string \<Rightarrow> analysis_env \<Rightarrow> json \<Rightarrow> py_error + project" where
  "mcp_new_row dumps file_path project_name env data =
     (case py_getitem data ''tables'' of Inl e \<Rightarrow> Inl e | Inr tbls \<Rightarrow>
      case py_getitem data ''metadata'' of Inl e \<Rightarrow> Inl e | Inr meta \<Rightarrow>
      case py_get data ''schema'' (JArr []) of Inl e \<Rightarrow> Inl e | Inr schm \<Rightarrow>
      case py_getitem data ''measures'' of Inl e \<Rightarrow> Inl e | Inr msrs \<Rightarrow>
      case py_getitem data ''relationships'' of Inl e \<Rightarrow> Inl e | Inr rels \<Rightarrow>
        Inr \<lparr>p_id = 0, p_name = project_name, p_file_path = file_path,
             p_file_hash = e_file_hash env, p_last_analyzed = e_now env,
             p_model_size = e_getsize env,
             p_tables_data = Some (dumps tbls),
             p_metadata_data = Some (dumps meta),
             p_schema_data = Some (dumps schm),
             p_measures_data = Some (dumps msrs),
             p_relationships_data = Some (dumps rels)\<rparr>)"

text \<open>
  \<open>analyze_pbix_file_with_mcp(file_path, project_name)\<close>, from the lookup of the
  existing row on. \<open>project_name\<close> is the argument, or the stem of the path when the
  caller gave none. The result is the returned project id (\<open>None\<close> as in Python) and
  the store as committed. Every exception inside the \<open>try\<close> is caught and turned into
  \<open>None\<close>; the connection is then closed without a commit.
\<close>

definition analyze_pbix_file_with_mcp ::
  "(string \<Rightarrow> json option) \<Rightarrow> (json \<Rightarrow> string) \<Rightarrow> mcp_db \<Rightarrow> string \<Rightarrow> string \<Rightarrow>
   analysis_env \<Rightarrow> nat option \<times> mcp_db" where
  "analyze_pbix_file_with_mcp loads dumps db file_path project_name env =
     (let existing = mcp_existing db project_name in
      if (case existing of Some r \<Rightarrow> p_file_hash r = e_file_hash env | None \<Rightarrow> False)
      then (map_option p_id existing, db)
      else
        let db1 = (case existing of Some r \<Rightarrow> mcp_delete_by_name project_name db | None \<Rightarrow> db)
        in case e_run env of
             RunRaised \<Rightarrow> (None, db1)
           | Completed returncode out err \<Rightarrow>
               if returncode = 0 \<and> py_in ''SUCCESS:'' out then
                 (case loads (success_payload out) of
                    None \<Rightarrow> (None, db1)
                  | Some data \<Rightarrow>
                      (case mcp_new_row dumps file_path project_name env data of
                         Inl e \<Rightarrow> (None, db1)
                       | Inr row \<Rightarrow>
                           (let (lastrowid, db2) = mcp_insert_or_replace row db1
                            in (if lastrowid = 0 then map_option p_id existing
                                else Some lastrowid, db2))))
               else (None, db1))"

section \<open>The normalized store of \<open>powerbi_analyzer.py\<close>\<close>

text \<open>
  Six tables, each with \<open>id INTEGER PRIMARY KEY AUTOINCREMENT\<close>. The foreign keys are
  declared without an action and the connection never switches
  \<open>PRAGMA foreign_keys\<close> on, so SQLite does not enforce them: deleting a project row
  touches no other table. Each table is the list of its rows in rowid order, with its
  \<open>sqlite_sequence\<close> entry.
\<close>

record n_project =
  np_id :: nat
  np_name :: string
  np_file_path :: string
  np_file_hash :: string
  np_last_analyzed :: nat
  np_model_size :: nat
  np_table_count :: nat
  np_measure_count :: nat

record n_table =
  nt_id :: nat
  nt_project_id :: nat
  nt_table_name :: string
  nt_row_count :: nat
  nt_column_count :: nat

record n_column =
  nc_id :: nat
  nc_table_id :: nat
  nc_column_name :: string
  nc_data_type :: string
  nc_is_calculated :: bool

record n_measure =
  nm_id :: nat
  nm_project_id :: nat
  nm_table_name :: string
  nm_measure_name :: string
  nm_dax_expression :: string

record n_relationship =
  nr_id :: nat
  nr_project_id :: nat
  nr_from_table :: string
  nr_from_column :: string
  nr_to_table :: string
  nr_to_column :: string
  nr_cardinality :: string

record n_power_query =
  nq_id :: nat
  nq_project_id :: nat
  nq_query_name :: string
  nq_m_expression :: string

record n_db =
  n_projects :: "n_project list"
  n_tables :: "n_table list"
  n_columns :: "n_column list"
  n_measures :: "n_measure list"
  n_relationships :: "n_relationship list"
  n_power_queries :: "n_power_query list"
  n_projects_seq :: nat
  n_tables_seq :: nat
  n_columns_seq :: nat
  n_measures_seq :: nat
  n_relationships_seq :: nat
  n_power_queries_seq :: nat

subsection \<open>The model the library loads\<close>

text \<open>
  The object \<open>PbixModel(file_path)\<close> returns, as far as \<open>analyze_pbix_file\<close> reads it.
  An attribute read with \<open>getattr(x, name, default)\<close> is optional.
\<close>

record pbix_column =
  col_name :: string
  col_data_type :: "string option"
  col_is_calculated :: "bool option"

record pbix_measure =
  msr_name :: string
  msr_expression :: "string option"

record pbix_table =
  tbl_name :: string
  tbl_row_count :: "nat option"
  tbl_columns :: "pbix_column list"
  tbl_measures :: "pbix_measure list"

record pbix_relationship =
  rel_from_table :: string
  rel_from_column :: string
  rel_to_table :: string
  rel_to_column :: string
  rel_cardinality :: "string option"

record pbix_query =
  qry_name :: string
  qry_expression :: "string option"

record pbix_model =
  mdl_tables :: "pbix_table list"
  mdl_relationships :: "pbix_relationship list"
  mdl_queries :: "pbix_query list"

text \<open>
  What one call of \<open>analyze_pbix_file\<close> reads from outside the store: whether the
  import of the library succeeded, the loaded model (\<open>None\<close> when \<open>PbixModel\<close> raises),
  the digest, the clock and the file size.
\<close>

record n_env =
  ne_pbixray_available :: bool
  ne_model :: "pbix_model option"
  ne_file_hash :: string
  ne_now :: nat
  ne_getsize :: nat

subsection \<open>The statements of \<open>analyze_pbix_file\<close>\<close>

definition n_existing :: "n_db \<Rightarrow> string \<Rightarrow> n_project option" where
  "n_existing db project_name = find (\<lambda>r. np_name r = project_name) (n_projects db)"

text \<open>\<open>INSERT OR REPLACE INTO projects\<close>; the result is \<open>cursor.lastrowid\<close> and the store.\<close>

definition n_insert_or_replace_project :: "n_project \<Rightarrow> n_db \<Rightarrow> nat \<times> n_db" where
  "n_insert_or_replace_project row db =
     (let new_id = next_rowid (n_projects_seq db) (map np_id (n_projects db));
          kept = filter (\<lambda>r. \<not> np_name r = np_name row) (n_projects db)
      in (new_id, db\<lparr>n_projects := kept @ [row\<lparr>np_id := new_id\<rparr>], n_projects_seq := new_id\<rparr>))"

text \<open>
  Lines 166 to 170, in the order of the source: the rows of \<open>tables\<close> go first, so the
  subquery of the second statement selects from what is left of \<open>tables\<close>.
\<close>

definition n_clear_project :: "nat \<Rightarrow> n_db \<Rightarrow> n_db" where
  "n_clear_project project_id db =
     (let db1 = db\<lparr>n_tables := filter (\<lambda>t. \<not> nt_project_id t = project_id) (n_tables db)\<rparr>;
          ids = map nt_id (filter (\<lambda>t. nt_project_id t = project_id) (n_tables db1));
          db2 = db1\<lparr>n_columns := filter (\<lambda>c. \<not> nc_table_id c \<in> set ids) (n_columns db1)\<rparr>;
          db3 = db2\<lparr>n_measures := filter (\<lambda>m. \<not> nm_project_id m = project_id) (n_measures db2)\<rparr>;
          db4 = db3\<lparr>n_relationships :=
                       filter (\<lambda>r. \<not> nr_project_id r = project_id) (n_relationships db3)\<rparr>
      in db4\<lparr>n_power_queries :=
                filter (\<lambda>q. \<not> nq_project_id q = project_id) (n_power_queries db4)\<rparr>)"

definition n_insert_column :: "nat \<Rightarrow> pbix_column \<Rightarrow> n_db \<Rightarrow> n_db" where
  "n_insert_column table_id c db =
     (let new_id = next_rowid (n_columns_seq db) (map nc_id (n_columns db))
      in db\<lparr>n_columns := n_columns db @
                [\<lparr>nc_id = new_id, nc_table_id = table_id, nc_column_name = col_name c,
                  nc_data_type = (case col_data_type c of Some d \<Rightarrow> d | None \<Rightarrow> ''Unknown''),
                  nc_is_calculated = (case col_is_calculated c of Some b \<Rightarrow> b | None \<Rightarrow> False)\<rparr>],
            n_columns_seq := new_id\<rparr>)"

definition n_insert_measure :: "nat \<Rightarrow> string \<Rightarrow> pbix_measure \<Rightarrow> n_db \<Rightarrow> n_db" where
  "n_insert_measure project_id table_name m db =
     (let new_id = next_rowid (n_measures_seq db) (map nm_id (n_measures db))
      in db\<lparr>n_measures := n_measures db @
                [\<lparr>nm_id = new_id, nm_project_id = project_id, nm_table_name = table_name,
                  nm_measure_name = msr_name m,
                  nm_dax_expression = (case msr_expression m of Some x \<Rightarrow> x | None \<Rightarrow> [])\<rparr>],
            n_measures_seq := new_id\<rparr>)"

text \<open>One round of the loop over \<open>model.tables\<close>: the table row, its columns, its measures.\<close>

definition n_insert_table :: "nat \<Rightarrow> pbix_table \<Rightarrow> n_db \<Rightarrow> n_db" where
  "n_insert_table project_id t db =
     (let table_id = next_rowid (n_tables_seq db) (map nt_id (n_tables db));
          db1 = db\<lparr>n_tables := n_tables db @
                      [\<lparr>nt_id = table_id, nt_project_id = project_id, nt_table_name = tbl_name t,
                        nt_row_count = (case tbl_row_count t of Some n \<Rightarrow> n | None \<Rightarrow> 0),
                        nt_column_count = length (tbl_columns t)\<rparr>],
                    n_tables_seq := table_id\<rparr>;
          db2 = fold (n_insert_column table_id) (tbl_columns t) db1
      in fold (n_insert_measure project_id (tbl_name t)) (tbl_measures t) db2)"

definition n_insert_relationship :: "nat \<Rightarrow> pbix_relationship \<Rightarrow> n_db \<Rightarrow> n_db" where
  "n_insert_relationship project_id r db =
     (let new_id = next_rowid (n_relationships_seq db) (map nr_id (n_relationships db))
      in db\<lparr>n_relationships := n_relationships db @
                [\<lparr>nr_id = new_id, nr_project_id = project_id,
                  nr_from_table = rel_from_table r, nr_from_column = rel_from_column r,
                  nr_to_table = rel_to_table r, nr_to_column = rel_to_column r,
                  nr_cardinality =
                    (case rel_cardinality r of Some c \<Rightarrow> c | None \<Rightarrow> ''Unknown'')\<rparr>],
            n_relationships_seq := new_id\<rparr>)"

definition n_insert_query :: "nat \<Rightarrow> pbix_query \<Rightarrow> n_db \<Rightarrow> n_db" where
  "n_insert_query project_id q db =
     (let new_id = next_rowid (n_power_queries_seq db) (map nq_id (n_power_queries db))
      in db\<lparr>n_power_queries := n_power_queries db @
                [\<lparr>nq_id = new_id, nq_project_id = project_id, nq_query_name = qry_name q,
                  nq_m_expression = (case qry_expression q of Some x \<Rightarrow> x | None \<Rightarrow> [])\<rparr>],
            n_power_queries_seq := new_id\<rparr>)"

text \<open>
  \<open>analyze_pbix_file(file_path, project_name)\<close>. The model is loaded before the store is
  opened; an exception there returns \<open>None\<close> with nothing written.
\<close>

definition analyze_pbix_file ::
  "n_db \<Rightarrow> string \<Rightarrow> string \<Rightarrow> n_env \<Rightarrow> nat option \<times> n_db" where
  "analyze_pbix_file db file_path project_name env =
     (if \<not> ne_pbixray_available env then (None, db)
      else case ne_model env of
        None \<Rightarrow> (None, db)
      | Some model \<Rightarrow>
          (let existing = n_existing db project_name in
           if (case existing of Some r \<Rightarrow> np_file_hash r = ne_file_hash env | None \<Rightarrow> False)
           then (map_option np_id existing, db)
           else
             let (lastrowid, db1) =
                   n_insert_or_replace_project
                     \<lparr>np_id = 0, np_name = project_name, np_file_path = file_path,
                      np_file_hash = ne_file_hash env, np_last_analyzed = ne_now env,
                      np_model_size = ne_getsize env,
                      np_table_count = length (mdl_tables model),
                      np_measure_count = length (concat (map tbl_measures (mdl_tables model)))\<rparr>
                     db
             in case (if lastrowid = 0 then map_option np_id existing else Some lastrowid) of
                  None \<Rightarrow> (None, db)
                | Some project_id \<Rightarrow>
                    (let db2 = n_clear_project project_id db1;
                         db3 = fold (n_insert_table project_id) (mdl_tables model) db2;
                         db4 = fold (n_insert_relationship project_id) (mdl_relationships model) db3;
                         db5 = fold (n_insert_query project_id) (mdl_queries model) db4
                     in (Some project_id, db5))))"

section \<open>Sharing reports of the denormalized store\<close>

text \<open>
  \<open>table_usage\<close>, \<open>measure_usage\<close> and \<open>column_usage\<close>: a \<open>dict\<close> from a name to the
  \<open>set\<close> of project names, as the list of its items in insertion order, each set a
  list without repetition.
\<close>

type_synonym usage = "(string \<times> string list) list"

text \<open>
  \<open>if key not in usage: usage[key] = set()\<close> followed by \<open>usage[key].add(project_name)\<close>.
\<close>

fun usage_add :: "string \<Rightarrow> string \<Rightarrow> usage \<Rightarrow> usage" where
  "usage_add key project_name [] = [(key, [project_name])]"
| "usage_add key project_name ((k, ps) # u) =
     (if k = key then (k, List.insert project_name ps) # u
      else (k, ps) # usage_add key project_name u)"

text \<open>\<open>x['name']\<close>, used as (part of) a dictionary key.\<close>

definition name_key :: "json \<Rightarrow> py_error + string" where
  "name_key x =
     (case py_getitem x ''name'' of
        Inl e \<Rightarrow> Inl e
      | Inr v \<Rightarrow> (case v of JStr s \<Rightarrow> Inr s | _ \<Rightarrow> Inl NotModelled))"

text \<open>The loop \<open>for table in tables\<close> of \<open>get_shared_tables\<close> (and \<open>for measure in measures\<close>).\<close>

fun add_names :: "string \<Rightarrow> json list \<Rightarrow> usage \<Rightarrow> py_error + usage" where
  "add_names project_name [] u = Inr u"
| "add_names project_name (x # xs) u =
     (case name_key x of
        Inl e \<Rightarrow> Inl e
      | Inr n \<Rightarrow> add_names project_name xs (usage_add n project_name u))"

definition names_body :: "string \<Rightarrow> json \<Rightarrow> usage \<Rightarrow> py_error + usage" where
  "names_body project_name v u =
     (case py_iter v of Inl e \<Rightarrow> Inl e | Inr xs \<Rightarrow> add_names project_name xs u)"

text \<open>The two nested loops of \<open>get_shared_columns\<close>; the key is \<open>f"{table_name}.{column_name}"\<close>.\<close>

fun add_columns :: "string \<Rightarrow> string \<Rightarrow> json list \<Rightarrow> usage \<Rightarrow> py_error + usage" where
  "add_columns project_name table_name [] u = Inr u"
| "add_columns project_name table_name (c # cs) u =
     (case name_key c of
        Inl e \<Rightarrow> Inl e
      | Inr column_name \<Rightarrow>
          add_columns project_name table_name cs
            (usage_add (table_name @ ''.'' @ column_name) project_name u))"

fun add_table_columns :: "string \<Rightarrow> json list \<Rightarrow> usage \<Rightarrow> py_error + usage" where
  "add_table_columns project_name [] u = Inr u"
| "add_table_columns project_name (t # ts) u =
     (case name_key t of
        Inl e \<Rightarrow> Inl e
      | Inr table_name \<Rightarrow>
          (case py_get t ''columns'' (JArr []) of
             Inl e \<Rightarrow> Inl e
           | Inr cv \<Rightarrow>
               (case py_iter cv of
                  Inl e \<Rightarrow> Inl e
                | Inr cs \<Rightarrow>
                    (case add_columns project_name table_name cs u of
                       Inl e \<Rightarrow> Inl e
                     | Inr u' \<Rightarrow> add_table_columns project_name ts u'))))"

definition columns_body :: "string \<Rightarrow> json \<Rightarrow> usage \<Rightarrow> py_error + usage" where
  "columns_body project_name v u =
     (case py_iter v of Inl e \<Rightarrow> Inl e | Inr ts \<Rightarrow> add_table_columns project_name ts u)"

text \<open>
  The loop over the selected rows \<open>(name, blob)\<close>, the same in the three reports: an
  empty blob is skipped, a blob that \<open>json.loads\<close> rejects is skipped by
  \<open>except json.JSONDecodeError: continue\<close>, any other exception leaves the function.
\<close>

fun usage_loop ::
  "(string \<Rightarrow> json option) \<Rightarrow> (string \<Rightarrow> json \<Rightarrow> usage \<Rightarrow> py_error + usage) \<Rightarrow>
   (string \<times> string) list \<Rightarrow> usage \<Rightarrow> py_error + usage" where
  "usage_loop loads body [] u = Inr u"
| "usage_loop loads body ((project_name, blob) # rest) u =
     (if blob = [] then usage_loop loads body rest u
      else case loads blob of
             None \<Rightarrow> usage_loop loads body rest u
           | Some v \<Rightarrow>
               (case body project_name v u of
                  Inl e \<Rightarrow> Inl e
                | Inr u' \<Rightarrow> usage_loop loads body rest u'))"

text \<open>
  A row of a sharing report: the name, \<open>project_count\<close> and \<open>projects\<close>.
\<close>

record shared_row =
  sr_name :: string
  sr_project_count :: nat
  sr_projects :: string

text \<open>
  \<open>DataFrame.sort_values('project_count', ascending=False)\<close>. Rows with equal counts
  keep their order here; pandas does not promise one, and nothing below depends on it.
\<close>

definition sort_values_desc :: "shared_row list \<Rightarrow> shared_row list" where
  "sort_values_desc rows = rev (sort_key sr_project_count (rev rows))"

text \<open>
  The filter \<open>len(project_set) > 1\<close> with \<open>', '.join(sorted(project_set))\<close>, then the sort.
  An empty list stands for the empty \<open>DataFrame\<close>.
\<close>

definition shared_frame :: "usage \<Rightarrow> shared_row list" where
  "shared_frame u =
     sort_values_desc
       (map (\<lambda>kp. \<lparr>sr_name = fst kp, sr_project_count = length (snd kp),
                    sr_projects = py_join '', '' (sort (snd kp))\<rparr>)
          (filter (\<lambda>kp. 1 < length (snd kp)) u))"

text \<open>\<open>SELECT name, tables_data FROM projects WHERE tables_data IS NOT NULL\<close>.\<close>

definition select_tables_data :: "mcp_db \<Rightarrow> (string \<times> string) list" where
  "select_tables_data db =
     List.map_filter (\<lambda>r. map_option (\<lambda>s. (p_name r, s)) (p_tables_data r)) (mcp_projects db)"

text \<open>\<open>SELECT name, measures_data FROM projects WHERE measures_data IS NOT NULL\<close>.\<close>

definition select_measures_data :: "mcp_db \<Rightarrow> (string \<times> string) list" where
  "select_measures_data db =
     List.map_filter (\<lambda>r. map_option (\<lambda>s. (p_name r, s)) (p_measures_data r)) (mcp_projects db)"

definition mcp_get_shared_tables ::
  "(string \<Rightarrow> json option) \<Rightarrow> mcp_db \<Rightarrow> py_error + shared_row list" where
  "mcp_get_shared_tables loads db =
     (case usage_loop loads names_body (select_tables_data db) [] of
        Inl e \<Rightarrow> Inl e
      | Inr u \<Rightarrow> Inr (shared_frame u))"

definition mcp_get_shared_measures ::
  "(string \<Rightarrow> json option) \<Rightarrow> mcp_db \<Rightarrow> py_error + shared_row list" where
  "mcp_get_shared_measures loads db =
     (case usage_loop loads names_body (select_measures_data db) [] of
        Inl e \<Rightarrow> Inl e
      | Inr u \<Rightarrow> Inr (shared_frame u))"

definition get_shared_columns ::
  "(string \<Rightarrow> json option) \<Rightarrow> mcp_db \<Rightarrow> py_error + shared_row list" where
  "get_shared_columns loads db =
     (case usage_loop loads columns_body (select_tables_data db) [] of
        Inl e \<Rightarrow> Inl e
      | Inr u \<Rightarrow> Inr (shared_frame u))"

section \<open>Impact search of the denormalized store\<close>

text \<open>
  The four result lists of \<open>analyze_impact\<close>. An entry is the tuple of the values of
  its dictionary, without the constant \<open>match_type\<close>:
  \<open>projects_using_table\<close> holds \<open>(project_name, table_name)\<close>,
  \<open>measures_referencing_item\<close> holds \<open>(project_name, measure_name, dax_expression)\<close>,
  \<open>projects_with_measure\<close> holds \<open>(project_name, table_name, measure_name, dax_expression)\<close>,
  \<open>projects_using_column\<close> holds \<open>(project_name, table_name, column_name)\<close>.
\<close>

record impact =
  projects_using_table :: "(string \<times> string) list"
  measures_referencing_item :: "(string \<times> string \<times> json) list"
  projects_with_measure :: "(string \<times> json \<times> string \<times> json) list"
  projects_using_column :: "(string \<times> string \<times> string) list"

definition empty_impact :: impact where
  "empty_impact =
     \<lparr>projects_using_table = [], measures_referencing_item = [],
      projects_with_measure = [], projects_using_column = []\<rparr>"

text \<open>\<open>x[k].lower()\<close> is called on the value: it has to be a string.\<close>

definition str_item :: "json \<Rightarrow> string \<Rightarrow> py_error + string" where
  "str_item x k =
     (case py_getitem x k of
        Inl e \<Rightarrow> Inl e
      | Inr v \<Rightarrow> (case v of JStr s \<Rightarrow> Inr s | _ \<Rightarrow> Inl AttributeError))"

text \<open>Lines 461 to 468: the columns of one table.\<close>

fun check_columns ::
  "string \<Rightarrow> string \<Rightarrow> string \<Rightarrow> json list \<Rightarrow> impact \<Rightarrow> py_error + impact" where
  "check_columns search_term_lower project_name table_name [] res = Inr res"
| "check_columns search_term_lower project_name table_name (c # cs) res =
     (case str_item c ''name'' of
        Inl e \<Rightarrow> Inl e
      | Inr column_name \<Rightarrow>
          check_columns search_term_lower project_name table_name cs
            (if py_in search_term_lower (py_lower column_name)
             then res\<lparr>projects_using_column :=
                        projects_using_column res @ [(project_name, table_name, column_name)]\<rparr>
             else res))"

text \<open>Lines 451 to 468: the tables of one project.\<close>

fun check_tables :: "string \<Rightarrow> string \<Rightarrow> json list \<Rightarrow> impact \<Rightarrow> py_error + impact" where
  "check_tables search_term_lower project_name [] res = Inr res"
| "check_tables search_term_lower project_name (t # ts) res =
     (case str_item t ''name'' of
        Inl e \<Rightarrow> Inl e
      | Inr table_name \<Rightarrow>
          (case py_get t ''columns'' (JArr []) of
             Inl e \<Rightarrow> Inl e
           | Inr cv \<Rightarrow>
               (case py_iter cv of
                  Inl e \<Rightarrow> Inl e
                | Inr cs \<Rightarrow>
                    (case check_columns search_term_lower project_name table_name cs
                            (if py_in search_term_lower (py_lower table_name)
                             then res\<lparr>projects_using_table :=
                                        projects_using_table res @ [(project_name, table_name)]\<rparr>
                             else res) of
                       Inl e \<Rightarrow> Inl e
                     | Inr res' \<Rightarrow> check_tables search_term_lower project_name ts res'))))"

text \<open>Lines 476 to 495: the measures of one project.\<close>

fun check_measures :: "string \<Rightarrow> string \<Rightarrow> json list \<Rightarrow> impact \<Rightarrow> py_error + impact" where
  "check_measures search_term_lower project_name [] res = Inr res"
| "check_measures search_term_lower project_name (m # ms) res =
     (case str_item m ''name'' of
        Inl e \<Rightarrow> Inl e
      | Inr measure_name \<Rightarrow>
          (case py_get m ''table_name'' (JStr ''Unknown'') of
             Inl e \<Rightarrow> Inl e
           | Inr table_name \<Rightarrow>
               (case py_get m ''expression'' (JStr []) of
                  Inl e \<Rightarrow> Inl e
                | Inr expression \<Rightarrow>
                    (case py_lower_of expression of
                       Inl e \<Rightarrow> Inl e
                     | Inr expression_lower \<Rightarrow>
                         check_measures search_term_lower project_name ms
                           (let res1 =
                                  (if py_in search_term_lower (py_lower measure_name)
                                   then res\<lparr>projects_with_measure :=
                                              projects_with_measure res @
                                                [(project_name, table_name, measure_name, expression)]\<rparr>
                                   else res)
                            in if py_in search_term_lower expression_lower
                               then res1\<lparr>measures_referencing_item :=
                                           measures_referencing_item res1 @
                                             [(project_name, measure_name, expression)]\<rparr>
                               else res1)))))"

text \<open>\<open>if blob and search_type in [a, b]\<close>: the blob is neither \<open>NULL\<close> nor empty.\<close>

definition in_scope :: "string option \<Rightarrow> string \<Rightarrow> string \<Rightarrow> string \<Rightarrow> bool" where
  "in_scope blob search_type a b =
     ((case blob of None \<Rightarrow> False | Some s \<Rightarrow> \<not> s = []) \<and> (search_type = a \<or> search_type = b))"

text \<open>
  Lines 473 to 497: the measure part of one round of the loop over the projects. The
  \<open>continue\<close> of its handler ends the round, which ends there anyway.
\<close>

definition measures_part ::
  "(string \<Rightarrow> json option) \<Rightarrow> string \<Rightarrow> string \<Rightarrow> string \<Rightarrow> string option \<Rightarrow> impact \<Rightarrow>
   py_error + impact" where
  "measures_part loads search_term_lower search_type project_name measures_json res =
     (if in_scope measures_json search_type ''all'' ''measure'' then
        (case loads (the measures_json) of
           None \<Rightarrow> Inr res
         | Some v \<Rightarrow>
             (case py_iter v of
                Inl e \<Rightarrow> Inl e
              | Inr ms \<Rightarrow> check_measures search_term_lower project_name ms res))
      else Inr res)"

text \<open>
  Lines 446 to 497: one round of the loop over the projects. The \<open>continue\<close> of the
  first handler leaves the round before the measure part.
\<close>

definition impact_project ::
  "(string \<Rightarrow> json option) \<Rightarrow> string \<Rightarrow> string \<Rightarrow> string \<times> string option \<times> string option \<Rightarrow>
   impact \<Rightarrow> py_error + impact" where
  "impact_project loads search_term_lower search_type row res =
     (case row of (project_name, tables_json, measures_json) \<Rightarrow>
        if in_scope tables_json search_type ''all'' ''table'' then
          (case loads (the tables_json) of
             None \<Rightarrow> Inr res
           | Some v \<Rightarrow>
               (case py_iter v of
                  Inl e \<Rightarrow> Inl e
                | Inr ts \<Rightarrow>
                    (case check_tables search_term_lower project_name ts res of
                       Inl e \<Rightarrow> Inl e
                     | Inr res' \<Rightarrow>
                         measures_part loads search_term_lower search_type project_name
                           measures_json res')))
        else measures_part loads search_term_lower search_type project_name measures_json res)"

fun impact_loop ::
  "(string \<Rightarrow> json option) \<Rightarrow> string \<Rightarrow> string \<Rightarrow> (string \<times> string option \<times> string option) list \<Rightarrow>
   impact \<Rightarrow> py_error + impact" where
  "impact_loop loads search_term_lower search_type [] res = Inr res"
| "impact_loop loads search_term_lower search_type (row # rows) res =
     (case impact_project loads search_term_lower search_type row res of
        Inl e \<Rightarrow> Inl e
      | Inr res' \<Rightarrow> impact_loop loads search_term_lower search_type rows res')"

text \<open>
  \<open>SELECT name, tables_data, measures_data FROM projects
  WHERE tables_data IS NOT NULL OR measures_data IS NOT NULL\<close>.
\<close>

definition select_impact_rows :: "mcp_db \<Rightarrow> (string \<times> string option \<times> string option) list" where
  "select_impact_rows db =
     map (\<lambda>r. (p_name r, p_tables_data r, p_measures_data r))
       (filter (\<lambda>r. \<not> (p_tables_data r = None \<and> p_measures_data r = None)) (mcp_projects db))"

definition mcp_analyze_impact ::
  "(string \<Rightarrow> json option) \<Rightarrow> mcp_db \<Rightarrow> string \<Rightarrow> string \<Rightarrow> py_error + impact" where
  "mcp_analyze_impact loads db search_term search_type =
     impact_loop loads (py_lower search_term) search_type (select_impact_rows db) empty_impact"

section \<open>Reports of the normalized store\<close>

text \<open>
  The SQL of \<open>get_shared_tables\<close> and \<open>get_shared_measures\<close> over the rows of the join,
  each a pair of the grouped name and \<open>p.name\<close>: one group per name,
  \<open>COUNT(DISTINCT p.name)\<close>, \<open>GROUP_CONCAT(DISTINCT p.name)\<close> with its separator \<open>,\<close>,
  \<open>HAVING\<close> more than one, \<open>ORDER BY project_count DESC\<close>. SQLite fixes neither the
  order of the names inside \<open>projects\<close> nor the order of groups with equal counts;
  the model takes the order of the scan.
\<close>

definition sql_shared :: "(string \<times> string) list \<Rightarrow> shared_row list" where
  "sql_shared joined =
     sort_values_desc
       (filter (\<lambda>r. 1 < sr_project_count r)
          (map (\<lambda>k. let owners = remdups (map snd (filter (\<lambda>j. fst j = k) joined))
                     in \<lparr>sr_name = k, sr_project_count = length owners,
                         sr_projects = py_join '','' owners\<rparr>)
             (remdups (map fst joined))))"

text \<open>\<open>FROM tables t JOIN projects p ON t.project_id = p.id\<close>, as \<open>(t.table_name, p.name)\<close>.\<close>

definition join_tables_projects :: "n_db \<Rightarrow> (string \<times> string) list" where
  "join_tables_projects db =
     concat (map (\<lambda>t. map (\<lambda>p. (nt_table_name t, np_name p))
                           (filter (\<lambda>p. nt_project_id t = np_id p) (n_projects db)))
               (n_tables db))"

text \<open>\<open>FROM measures m JOIN projects p ON m.project_id = p.id\<close>, as \<open>(m.measure_name, p.name)\<close>.\<close>

definition join_measures_projects :: "n_db \<Rightarrow> (string \<times> string) list" where
  "join_measures_projects db =
     concat (map (\<lambda>m. map (\<lambda>p. (nm_measure_name m, np_name p))
                           (filter (\<lambda>p. nm_project_id m = np_id p) (n_projects db)))
               (n_measures db))"

definition pbi_get_shared_tables :: "n_db \<Rightarrow> shared_row list" where
  "pbi_get_shared_tables db = sql_shared (join_tables_projects db)"

definition pbi_get_shared_measures :: "n_db \<Rightarrow> shared_row list" where
  "pbi_get_shared_measures db = sql_shared (join_measures_projects db)"

text \<open>
  SQLite's \<open>LIKE\<close>: \<open>%\<close> matches any run of characters, \<open>_\<close> any one character, and
  the ASCII letters match without regard to case.
\<close>

definition like_fold :: "char \<Rightarrow> char" where
  "like_fold c =
     (case map_of (zip ''ABCDEFGHIJKLMNOPQRSTUVWXYZ'' ''abcdefghijklmnopqrstuvwxyz'') c of
        Some d \<Rightarrow> d
      | None \<Rightarrow> c)"

fun sql_like :: "string \<Rightarrow> string \<Rightarrow> bool" where
  "sql_like [] s = (s = [])"
| "sql_like (p # ps) [] = (p = CHR ''%'' \<and> sql_like ps [])"
| "sql_like (p # ps) (c # cs) =
     (if p = CHR ''%'' then sql_like ps (c # cs) \<or> sql_like (p # ps) cs
      else (p = CHR ''_'' \<or> like_fold p = like_fold c) \<and> sql_like ps cs)"

text \<open>
  The result dictionary of the normalized \<open>analyze_impact\<close>: a key is set only when its
  argument is given.
\<close>

record pbi_impact =
  pi_projects_using_table :: "string list option"
  pi_measures_referencing_table :: "(string \<times> string \<times> string) list option"
  pi_projects_with_measure :: "(string \<times> string \<times> string) list option"
  pi_projects_using_column :: "(string \<times> string) list option"

text \<open>\<open>if arg:\<close> on an argument that is \<open>None\<close> or a string.\<close>

definition given :: "string option \<Rightarrow> bool" where
  "given arg = (case arg of None \<Rightarrow> False | Some s \<Rightarrow> \<not> s = [])"

text \<open>
  \<open>analyze_impact(table_name, measure_name, column_name)\<close> of the normalized store.
  Names are compared with \<open>=\<close>, expressions with \<open>LIKE '%name%'\<close>, every query is
  \<open>SELECT DISTINCT\<close>. The column query selects \<open>t.table_name\<close> although its tables are
  aliased \<open>p\<close>, \<open>tb\<close> and \<open>c\<close>: SQLite rejects it, and the error leaves the function.
\<close>

definition pbi_analyze_impact ::
  "n_db \<Rightarrow> string option \<Rightarrow> string option \<Rightarrow> string option \<Rightarrow> py_error + pbi_impact" where
  "pbi_analyze_impact db table_name measure_name column_name =
     (let r0 = \<lparr>pi_projects_using_table = None, pi_measures_referencing_table = None,
                pi_projects_with_measure = None, pi_projects_using_column = None\<rparr>;
          r1 = (if given table_name then
                  r0\<lparr>pi_projects_using_table :=
                        Some (remdups
                          (concat (map (\<lambda>p. map (\<lambda>t. np_name p)
                              (filter (\<lambda>t. np_id p = nt_project_id t \<and>
                                            nt_table_name t = the table_name) (n_tables db)))
                            (n_projects db)))),
                     pi_measures_referencing_table :=
                        Some (remdups
                          (concat (map (\<lambda>p. map (\<lambda>m. (np_name p, nm_measure_name m, nm_dax_expression m))
                              (filter (\<lambda>m. np_id p = nm_project_id m \<and>
                                            sql_like (''%'' @ the table_name @ ''%'')
                                              (nm_dax_expression m)) (n_measures db)))
                            (n_projects db))))\<rparr>
                else r0);
          r2 = (if given measure_name then
                  r1\<lparr>pi_projects_with_measure :=
                        Some (remdups
                          (concat (map (\<lambda>p. map (\<lambda>m. (np_name p, nm_table_name m, nm_dax_expression m))
                              (filter (\<lambda>m. np_id p = nm_project_id m \<and>
                                            nm_measure_name m = the measure_name) (n_measures db)))
                            (n_projects db))))\<rparr>
                else r1)
      in if given column_name then Inl DatabaseError else Inr r2)"

section \<open>What a sharing report is to hold\<close>

text \<open>
  The names a blob holds, read off the decoded value alone: the \<open>name\<close> of every entry
  for the tables and the measures, \<open>table.column\<close> for the columns. A value the loops
  above cannot walk holds none (the report raises on it).
\<close>

fun names_of :: "json list \<Rightarrow> py_error + string list" where
  "names_of [] = Inr []"
| "names_of (x # xs) =
     (case name_key x of
        Inl e \<Rightarrow> Inl e
      | Inr n \<Rightarrow> (case names_of xs of Inl e \<Rightarrow> Inl e | Inr ns \<Rightarrow> Inr (n # ns)))"

definition blob_names :: "json \<Rightarrow> py_error + string list" where
  "blob_names v = (case py_iter v of Inl e \<Rightarrow> Inl e | Inr xs \<Rightarrow> names_of xs)"

fun column_keys_of :: "string \<Rightarrow> json list \<Rightarrow> py_error + string list" where
  "column_keys_of table_name [] = Inr []"
| "column_keys_of table_name (c # cs) =
     (case name_key c of
        Inl e \<Rightarrow> Inl e
      | Inr n \<Rightarrow>
          (case column_keys_of table_name cs of
             Inl e \<Rightarrow> Inl e
           | Inr ks \<Rightarrow> Inr ((table_name @ ''.'' @ n) # ks)))"

fun table_column_keys :: "json list \<Rightarrow> py_error + string list" where
  "table_column_keys [] = Inr []"
| "table_column_keys (t # ts) =
     (case name_key t of
        Inl e \<Rightarrow> Inl e
      | Inr table_name \<Rightarrow>
          (case py_get t ''columns'' (JArr []) of
             Inl e \<Rightarrow> Inl e
           | Inr cv \<Rightarrow>
               (case py_iter cv of
                  Inl e \<Rightarrow> Inl e
                | Inr cs \<Rightarrow>
                    (case column_keys_of table_name cs of
                       Inl e \<Rightarrow> Inl e
                     | Inr ks \<Rightarrow>
                         (case table_column_keys ts of
                            Inl e \<Rightarrow> Inl e
                          | Inr ks' \<Rightarrow> Inr (ks @ ks'))))))"

definition blob_column_keys :: "json \<Rightarrow> py_error + string list" where
  "blob_column_keys v = (case py_iter v of Inl e \<Rightarrow> Inl e | Inr ts \<Rightarrow> table_column_keys ts)"

text \<open>A stored blob holds a key: it is not empty, it decodes, and the key is among its keys.\<close>

definition holds_key ::
  "(string \<Rightarrow> json option) \<Rightarrow> (json \<Rightarrow> py_error + string list) \<Rightarrow> string \<Rightarrow> string \<Rightarrow> bool" where
  "holds_key loads keys blob k =
     (\<not> blob = [] \<and>
      (case loads blob of
         None \<Rightarrow> False
       | Some v \<Rightarrow> (case keys v of Inl e \<Rightarrow> False | Inr ks \<Rightarrow> k \<in> set ks)))"

text \<open>The projects that own a key, among the selected rows \<open>(name, blob)\<close>.\<close>

definition owning_projects ::
  "(string \<Rightarrow> json option) \<Rightarrow> (json \<Rightarrow> py_error + string list) \<Rightarrow> (string \<times> string) list \<Rightarrow>
   string \<Rightarrow> string set" where
  "owning_projects loads keys rows k =
     set (map fst (filter (\<lambda>pb. holds_key loads keys (snd pb) k) rows))"

text \<open>The projects that own a name, among the rows \<open>(name, project)\<close> of a join.\<close>

definition joined_owners :: "(string \<times> string) list \<Rightarrow> string \<Rightarrow> string set" where
  "joined_owners joined k = set (map snd (filter (\<lambda>j. fst j = k) joined))"

text \<open>
  A report over the owners of each name: no name twice, exactly the names with more
  than one owner, each with the number of its owners, in descending order of that
  number.
\<close>

definition sharing_rows :: "(string \<Rightarrow> string set) \<Rightarrow> shared_row list \<Rightarrow> bool" where
  "sharing_rows owners rows =
     (distinct (map sr_name rows) \<and>
      set (map sr_name rows) = {k. 1 < card (owners k)} \<and>
      list_all (\<lambda>r. sr_project_count r = card (owners (sr_name r))) rows \<and>
      sorted_wrt (\<lambda>a b. sr_project_count b \<le> sr_project_count a) rows)"

text \<open>\<open>projects\<close> is the sorted list of the owners, joined with a comma and a space.\<close>

definition projects_sorted_joined :: "(string \<Rightarrow> string set) \<Rightarrow> shared_row list \<Rightarrow> bool" where
  "projects_sorted_joined owners rows =
     list_all (\<lambda>r. sr_projects r = py_join '', '' (sorted_list_of_set (owners (sr_name r)))) rows"

text \<open>\<open>projects\<close> lists the owners once each, in some order, joined with a comma.\<close>

definition projects_comma_joined :: "(string \<Rightarrow> string set) \<Rightarrow> shared_row list \<Rightarrow> bool" where
  "projects_comma_joined owners rows =
     list_all (\<lambda>r. \<exists>ps. distinct ps \<and> set ps = owners (sr_name r) \<and>
                     sr_projects r = py_join '','' ps) rows"

text \<open>The usage dictionary as a function from keys to sets, and what the loops keep true of it.\<close>

definition usage_of :: "usage \<Rightarrow> string \<Rightarrow> string set" where
  "usage_of u k = (case map_of u k of None \<Rightarrow> {} | Some ps \<Rightarrow> set ps)"

definition usage_ok :: "usage \<Rightarrow> bool" where
  "usage_ok u = (distinct (map fst u) \<and> list_all (\<lambda>kp. distinct (snd kp)) u)"

section \<open>What the impact search is to find\<close>

text \<open>
  Matching as the search is to do it: the term occurs in the text as a contiguous
  block once both are put in lower case.
\<close>

definition ci_contains :: "string \<Rightarrow> string \<Rightarrow> bool" where
  "ci_contains search_term s = sublist (py_lower search_term) (py_lower s)"

text \<open>
  What an entry of a decoded blob holds, read off the value alone: its \<open>name\<close>, the
  columns of a table, the table and the expression of a measure with the defaults
  \<open>Unknown\<close> and the empty string, and the expression as text. An entry that lacks
  the part holds the empty name, no columns, \<open>null\<close> (the search raises on it).
\<close>

definition entry_name :: "json \<Rightarrow> string" where
  "entry_name x = (case str_item x ''name'' of Inr s \<Rightarrow> s | Inl e \<Rightarrow> [])"

definition entry_columns :: "json \<Rightarrow> json list" where
  "entry_columns x =
     (case py_get x ''columns'' (JArr []) of
        Inr cv \<Rightarrow> (case py_iter cv of Inr cs \<Rightarrow> cs | Inl e \<Rightarrow> [])
      | Inl e \<Rightarrow> [])"

definition entry_table :: "json \<Rightarrow> json" where
  "entry_table x = (case py_get x ''table_name'' (JStr ''Unknown'') of Inr v \<Rightarrow> v | Inl e \<Rightarrow> JNull)"

definition entry_expression :: "json \<Rightarrow> json" where
  "entry_expression x = (case py_get x ''expression'' (JStr []) of Inr v \<Rightarrow> v | Inl e \<Rightarrow> JNull)"

definition expression_text :: "json \<Rightarrow> string" where
  "expression_text x = (case entry_expression x of JStr s \<Rightarrow> s | _ \<Rightarrow> [])"

text \<open>The entries of a stored blob; a blob that does not decode has none.\<close>

definition blob_entries :: "(string \<Rightarrow> json option) \<Rightarrow> string \<Rightarrow> json list" where
  "blob_entries loads blob =
     (case loads blob of
        None \<Rightarrow> []
      | Some v \<Rightarrow> (case py_iter v of Inr xs \<Rightarrow> xs | Inl e \<Rightarrow> []))"

text \<open>
  The tables and the measures of a selected row \<open>(name, tables_data, measures_data)\<close>
  that a search with the given scope looks at. The tables are looked at under the
  scopes \<open>all\<close> and \<open>table\<close>, the measures under \<open>all\<close> and \<open>measure\<close>; the measures
  of a project are passed over when its tables are looked at and their blob does not
  decode.
\<close>

definition searched_tables ::
  "(string \<Rightarrow> json option) \<Rightarrow> string \<Rightarrow> string \<times> string option \<times> string option \<Rightarrow> json list" where
  "searched_tables loads search_type row =
     (case row of (project_name, tables_json, measures_json) \<Rightarrow>
        if in_scope tables_json search_type ''all'' ''table''
        then blob_entries loads (the tables_json) else [])"

definition searched_measures ::
  "(string \<Rightarrow> json option) \<Rightarrow> string \<Rightarrow> string \<times> string option \<times> string option \<Rightarrow> json list" where
  "searched_measures loads search_type row =
     (case row of (project_name, tables_json, measures_json) \<Rightarrow>
        if in_scope tables_json search_type ''all'' ''table'' \<and> loads (the tables_json) = None
        then []
        else if in_scope measures_json search_type ''all'' ''measure''
        then blob_entries loads (the measures_json) else [])"

text \<open>
  The matches of one project: the tables whose name contains the term, the columns
  whose name contains it, the measures whose name contains it, and the measures whose
  expression contains it.
\<close>

definition table_hits :: "string \<Rightarrow> string \<Rightarrow> json list \<Rightarrow> (string \<times> string) list" where
  "table_hits search_term project_name ts =
     map (\<lambda>t. (project_name, entry_name t))
       (filter (\<lambda>t. ci_contains search_term (entry_name t)) ts)"

definition column_hits :: "string \<Rightarrow> string \<Rightarrow> json list \<Rightarrow> (string \<times> string \<times> string) list" where
  "column_hits search_term project_name ts =
     concat (map (\<lambda>t. map (\<lambda>c. (project_name, entry_name t, entry_name c))
                         (filter (\<lambda>c. ci_contains search_term (entry_name c)) (entry_columns t)))
               ts)"

definition measure_hits ::
  "string \<Rightarrow> string \<Rightarrow> json list \<Rightarrow> (string \<times> json \<times> string \<times> json) list" where
  "measure_hits search_term project_name ms =
     map (\<lambda>m. (project_name, entry_table m, entry_name m, entry_expression m))
       (filter (\<lambda>m. ci_contains search_term (entry_name m)) ms)"

definition expression_hits ::
  "string \<Rightarrow> string \<Rightarrow> json list \<Rightarrow> (string \<times> string \<times> json) list" where
  "expression_hits search_term project_name ms =
     map (\<lambda>m. (project_name, entry_name m, entry_expression m))
       (filter (\<lambda>m. ci_contains search_term (expression_text m)) ms)"

text \<open>
  The result of a search: every list holds the matches of the selected projects, in
  the order of the scan.
\<close>

definition impact_holds_matches ::
  "(string \<Rightarrow> json option) \<Rightarrow> string \<Rightarrow> string \<Rightarrow> (string \<times> string option \<times> string option) list \<Rightarrow>
   impact \<Rightarrow> bool" where
  "impact_holds_matches loads search_term search_type rows res =
     (projects_using_table res =
        concat (map (\<lambda>row. table_hits search_term (fst row)
                              (searched_tables loads search_type row)) rows) \<and>
      projects_using_column res =
        concat (map (\<lambda>row. column_hits search_term (fst row)
                              (searched_tables loads search_type row)) rows) \<and>
      projects_with_measure res =
        concat (map (\<lambda>row. measure_hits search_term (fst row)
                              (searched_measures loads search_type row)) rows) \<and>
      measures_referencing_item res =
        concat (map (\<lambda>row. expression_hits search_term (fst row)
                              (searched_measures loads search_type row)) rows))"

text \<open>
  The lookups of the normalized store over the rows of its joins: the names of the
  projects with a table of exactly the given name, the measures of exactly the given
  name, and the measures whose expression contains the given text when the ASCII
  letters of both are folded.
\<close>

definition owns_table_named :: "n_db \<Rightarrow> string \<Rightarrow> string set" where
  "owns_table_named db table_name =
     set (map (\<lambda>pt. np_name (fst pt))
            (filter (\<lambda>pt. np_id (fst pt) = nt_project_id (snd pt) \<and>
                          nt_table_name (snd pt) = table_name)
               (List.product (n_projects db) (n_tables db))))"

definition measures_named :: "n_db \<Rightarrow> string \<Rightarrow> (string \<times> string \<times> string) set" where
  "measures_named db measure_name =
     set (map (\<lambda>pm. (np_name (fst pm), nm_table_name (snd pm), nm_dax_expression (snd pm)))
            (filter (\<lambda>pm. np_id (fst pm) = nm_project_id (snd pm) \<and>
                          nm_measure_name (snd pm) = measure_name)
               (List.product (n_projects db) (n_measures db))))"

definition measures_mentioning :: "n_db \<Rightarrow> string \<Rightarrow> (string \<times> string \<times> string) set" where
  "measures_mentioning db table_name =
     set (map (\<lambda>pm. (np_name (fst pm), nm_measure_name (snd pm), nm_dax_expression (snd pm)))
            (filter (\<lambda>pm. np_id (fst pm) = nm_project_id (snd pm) \<and>
                          sublist (map like_fold table_name)
                            (map like_fold (nm_dax_expression (snd pm))))
               (List.product (n_projects db) (n_measures db))))"

section \<open>Example data\<close>

text \<open>
  Blobs as \<open>json.dumps\<close> writes them, with the values \<open>json.loads\<close> gives back.
  \<open>loads_example\<close> and \<open>dumps_example\<close> are the two library functions on exactly these
  texts and values; the examples below apply them to nothing else, except that
  \<open>loads_example\<close> is also applied to \<open>broken_blob\<close>, which is no JSON text.
\<close>

definition sales_blob :: string where
  "sales_blob = ''[{\"name\": \"Sales\", \"columns\": [{\"name\": \"Amount\"}]}]''"

definition sales_json :: json where
  "sales_json =
     JArr [JObj [(''name'', JStr ''Sales''),
                 (''columns'', JArr [JObj [(''name'', JStr ''Amount'')]])]]"

definition sales_dates_blob :: string where
  "sales_dates_blob =
     ''[{\"name\": \"Sales\", \"columns\": [{\"name\": \"Amount\"}]}, {\"name\": \"Dates\", \"columns\": [{\"name\": \"Day\"}]}]''"

definition sales_dates_json :: json where
  "sales_dates_json =
     JArr [JObj [(''name'', JStr ''Sales''),
                 (''columns'', JArr [JObj [(''name'', JStr ''Amount'')]])],
           JObj [(''name'', JStr ''Dates''),
                 (''columns'', JArr [JObj [(''name'', JStr ''Day'')]])]]"

definition products_blob :: string where
  "products_blob = ''[{\"name\": \"Products\", \"columns\": []}]''"

definition products_json :: json where
  "products_json = JArr [JObj [(''name'', JStr ''Products''), (''columns'', JArr [])]]"

definition revenue_blob :: string where
  "revenue_blob =
     ''[{\"table_name\": \"Sales\", \"name\": \"Total Revenue\", \"expression\": \"SUM(Sales[Amount])\"}]''"

definition revenue_json :: json where
  "revenue_json =
     JArr [JObj [(''table_name'', JStr ''Sales''), (''name'', JStr ''Total Revenue''),
                 (''expression'', JStr ''SUM(Sales[Amount])'')]]"

definition broken_blob :: string where
  "broken_blob = ''[{\"name\": \"Sal''"

definition payload_blob :: string where
  "payload_blob =
     ''{\"tables\": [], \"metadata\": {}, \"schema\": [], \"measures\": [], \"relationships\": []}''"

definition payload_json :: json where
  "payload_json =
     JObj [(''tables'', JArr []), (''metadata'', JObj []), (''schema'', JArr []),
           (''measures'', JArr []), (''relationships'', JArr [])]"

definition payload_no_schema_blob :: string where
  "payload_no_schema_blob =
     ''{\"tables\": [], \"metadata\": {}, \"measures\": [], \"relationships\": []}''"

definition payload_no_schema_json :: json where
  "payload_no_schema_json =
     JObj [(''tables'', JArr []), (''metadata'', JObj []),
           (''measures'', JArr []), (''relationships'', JArr [])]"

definition loads_example :: "string \<Rightarrow> json option" where
  "loads_example =
     map_of [(sales_blob, sales_json), (sales_dates_blob, sales_dates_json),
             (products_blob, products_json), (revenue_blob, revenue_json),
             (payload_blob, payload_json), (payload_no_schema_blob, payload_no_schema_json),
             (''[]'', JArr []), (''{}'', JObj [])]"

definition dumps_example :: "json \<Rightarrow> string" where
  "dumps_example v = (case v of JObj kvs \<Rightarrow> ''{}'' | _ \<Rightarrow> ''[]'')"

text \<open>The output of a run of the extraction script on a model without tables.\<close>

definition stdout_ok :: string where
  "stdout_ok = ''TABLES_LIST_LENGTH: 0\<newline>SUCCESS:'' @ payload_blob @ ''\<newline>''"

definition stdout_no_schema :: string where
  "stdout_no_schema = ''SUCCESS:'' @ payload_no_schema_blob @ ''\<newline>''"

text \<open>A denormalized store with one project \<open>P\<close>, analyzed from a file with digest \<open>h1\<close>.\<close>

definition row_P :: project where
  "row_P =
     \<lparr>p_id = 1, p_name = ''P'', p_file_path = ''P.pbix'', p_file_hash = ''h1'',
      p_last_analyzed = 10, p_model_size = 100,
      p_tables_data = Some sales_blob, p_metadata_data = Some ''{}'',
      p_schema_data = Some ''[]'', p_measures_data = Some revenue_blob,
      p_relationships_data = Some ''[]''\<rparr>"

definition db_P :: mcp_db where
  "db_P = \<lparr>mcp_projects = [row_P], mcp_seq = 1\<rparr>"

definition env_same :: analysis_env where
  "env_same = \<lparr>e_file_hash = ''h1'', e_now = 20, e_getsize = 100, e_run = RunRaised\<rparr>"

definition env_changed_ok :: analysis_env where
  "env_changed_ok =
     \<lparr>e_file_hash = ''h2'', e_now = 20, e_getsize = 120, e_run = Completed 0 stdout_ok []\<rparr>"

definition env_changed_timeout :: analysis_env where
  "env_changed_timeout =
     \<lparr>e_file_hash = ''h2'', e_now = 20, e_getsize = 120, e_run = RunRaised\<rparr>"

text \<open>
  A normalized store with one project \<open>P\<close> (digest \<open>h1\<close>) that has one table, one
  column, one measure, one relationship and one query.
\<close>

definition nrow_P :: n_project where
  "nrow_P =
     \<lparr>np_id = 1, np_name = ''P'', np_file_path = ''P.pbix'', np_file_hash = ''h1'',
      np_last_analyzed = 10, np_model_size = 100, np_table_count = 1, np_measure_count = 1\<rparr>"

definition ntable_Sales :: n_table where
  "ntable_Sales =
     \<lparr>nt_id = 1, nt_project_id = 1, nt_table_name = ''Sales'', nt_row_count = 5,
      nt_column_count = 1\<rparr>"

definition ncolumn_Amount :: n_column where
  "ncolumn_Amount =
     \<lparr>nc_id = 1, nc_table_id = 1, nc_column_name = ''Amount'', nc_data_type = ''Unknown'',
      nc_is_calculated = False\<rparr>"

definition nmeasure_Revenue :: n_measure where
  "nmeasure_Revenue =
     \<lparr>nm_id = 1, nm_project_id = 1, nm_table_name = ''Sales'',
      nm_measure_name = ''Total Revenue'', nm_dax_expression = ''SUM(Sales[Amount])''\<rparr>"

definition nrel_one :: n_relationship where
  "nrel_one =
     \<lparr>nr_id = 1, nr_project_id = 1, nr_from_table = ''Sales'', nr_from_column = ''Day'',
      nr_to_table = ''Dates'', nr_to_column = ''Day'', nr_cardinality = ''Unknown''\<rparr>"

definition nquery_one :: n_power_query where
  "nquery_one = \<lparr>nq_id = 1, nq_project_id = 1, nq_query_name = ''Sales'', nq_m_expression = ''let''\<rparr>"

definition ndb_P :: n_db where
  "ndb_P =
     \<lparr>n_projects = [nrow_P], n_tables = [ntable_Sales], n_columns = [ncolumn_Amount],
      n_measures = [nmeasure_Revenue], n_relationships = [nrel_one],
      n_power_queries = [nquery_one],
      n_projects_seq = 1, n_tables_seq = 1, n_columns_seq = 1, n_measures_seq = 1,
      n_relationships_seq = 1, n_power_queries_seq = 1\<rparr>"

text \<open>The changed file holds a model with the one table \<open>Orders\<close> and nothing else.\<close>

definition model_Orders :: pbix_model where
  "model_Orders =
     \<lparr>mdl_tables = [\<lparr>tbl_name = ''Orders'', tbl_row_count = Some 7, tbl_columns = [],
                      tbl_measures = []\<rparr>],
      mdl_relationships = [], mdl_queries = []\<rparr>"

definition nenv_same :: n_env where
  "nenv_same =
     \<lparr>ne_pbixray_available = True, ne_model = Some model_Orders, ne_file_hash = ''h1'',
      ne_now = 20, ne_getsize = 100\<rparr>"

definition nenv_changed :: n_env where
  "nenv_changed =
     \<lparr>ne_pbixray_available = True, ne_model = Some model_Orders, ne_file_hash = ''h2'',
      ne_now = 20, ne_getsize = 120\<rparr>"

text \<open>
  Two more projects of the denormalized store: \<open>X\<close> with a \<open>tables_data\<close> that is no
  JSON text and a sound \<open>measures_data\<close>, \<open>Y\<close> the other way round.
\<close>

definition row_X :: project where
  "row_X =
     \<lparr>p_id = 2, p_name = ''X'', p_file_path = ''X.pbix'', p_file_hash = ''h3'',
      p_last_analyzed = 11, p_model_size = 100,
      p_tables_data = Some broken_blob, p_metadata_data = Some ''{}'',
      p_schema_data = Some ''[]'', p_measures_data = Some revenue_blob,
      p_relationships_data = Some ''[]''\<rparr>"

definition row_Y :: project where
  "row_Y =
     \<lparr>p_id = 3, p_name = ''Y'', p_file_path = ''Y.pbix'', p_file_hash = ''h4'',
      p_last_analyzed = 12, p_model_size = 100,
      p_tables_data = Some sales_blob, p_metadata_data = Some ''{}'',
      p_schema_data = Some ''[]'', p_measures_data = Some broken_blob,
      p_relationships_data = Some ''[]''\<rparr>"

definition db_PX :: mcp_db where
  "db_PX = \<lparr>mcp_projects = [row_P, row_X], mcp_seq = 2\<rparr>"

definition db_PY :: mcp_db where
  "db_PY = \<lparr>mcp_projects = [row_P, row_Y], mcp_seq = 3\<rparr>"

text \<open>
  Three sound projects: \<open>A\<close> and \<open>B\<close> both hold the table \<open>Sales\<close> with the column
  \<open>Amount\<close> and the measure \<open>Total Revenue\<close>, \<open>B\<close> also the table \<open>Dates\<close>, and \<open>C\<close> only
  the table \<open>Products\<close>.
\<close>

definition row_A :: project where
  "row_A =
     \<lparr>p_id = 1, p_name = ''A'', p_file_path = ''A.pbix'', p_file_hash = ''ha'',
      p_last_analyzed = 10, p_model_size = 100,
      p_tables_data = Some sales_blob, p_metadata_data = Some ''{}'',
      p_schema_data = Some ''[]'', p_measures_data = Some revenue_blob,
      p_relationships_data = Some ''[]''\<rparr>"

definition row_B :: project where
  "row_B =
     \<lparr>p_id = 4, p_name = ''B'', p_file_path = ''B.pbix'', p_file_hash = ''hb'',
      p_last_analyzed = 13, p_model_size = 100,
      p_tables_data = Some sales_dates_blob, p_metadata_data = Some ''{}'',
      p_schema_data = Some ''[]'', p_measures_data = Some revenue_blob,
      p_relationships_data = Some ''[]''\<rparr>"

definition row_C :: project where
  "row_C =
     \<lparr>p_id = 5, p_name = ''C'', p_file_path = ''C.pbix'', p_file_hash = ''hc'',
      p_last_analyzed = 14, p_model_size = 100,
      p_tables_data = Some products_blob, p_metadata_data = Some ''{}'',
      p_schema_data = Some ''[]'', p_measures_data = Some ''[]'',
      p_relationships_data = Some ''[]''\<rparr>"

definition db_ABC :: mcp_db where
  "db_ABC = \<lparr>mcp_projects = [row_A, row_B, row_C], mcp_seq = 5\<rparr>"

definition db_AXB :: mcp_db where
  "db_AXB = \<lparr>mcp_projects = [row_A, row_X, row_B], mcp_seq = 4\<rparr>"

definition db_AYB :: mcp_db where
  "db_AYB = \<lparr>mcp_projects = [row_A, row_Y, row_B], mcp_seq = 4\<rparr>"

text \<open>
  The same three projects in the normalized store: \<open>Sales\<close> in \<open>A\<close> and \<open>B\<close>, \<open>Dates\<close> in
  \<open>B\<close>, \<open>Products\<close> in \<open>C\<close>.
\<close>

definition ndb_ABC :: n_db where
  "ndb_ABC =
     \<lparr>n_projects =
        [\<lparr>np_id = 1, np_name = ''A'', np_file_path = ''A.pbix'', np_file_hash = ''ha'',
          np_last_analyzed = 10, np_model_size = 100, np_table_count = 1, np_measure_count = 0\<rparr>,
         \<lparr>np_id = 2, np_name = ''B'', np_file_path = ''B.pbix'', np_file_hash = ''hb'',
          np_last_analyzed = 11, np_model_size = 100, np_table_count = 2, np_measure_count = 0\<rparr>,
         \<lparr>np_id = 3, np_name = ''C'', np_file_path = ''C.pbix'', np_file_hash = ''hc'',
          np_last_analyzed = 12, np_model_size = 100, np_table_count = 1, np_measure_count = 0\<rparr>],
      n_tables =
        [\<lparr>nt_id = 1, nt_project_id = 1, nt_table_name = ''Sales'', nt_row_count = 5,
          nt_column_count = 0\<rparr>,
         \<lparr>nt_id = 2, nt_project_id = 2, nt_table_name = ''Sales'', nt_row_count = 6,
          nt_column_count = 0\<rparr>,
         \<lparr>nt_id = 3, nt_project_id = 2, nt_table_name = ''Dates'', nt_row_count = 7,
          nt_column_count = 0\<rparr>,
         \<lparr>nt_id = 4, nt_project_id = 3, nt_table_name = ''Products'', nt_row_count = 8,
          nt_column_count = 0\<rparr>],
      n_columns = [], n_measures = [], n_relationships = [], n_power_queries = [],
      n_projects_seq = 3, n_tables_seq = 4, n_columns_seq = 0, n_measures_seq = 0,
      n_relationships_seq = 0, n_power_queries_seq = 0\<rparr>"

text \<open>
  Two more runs of the subprocess on an empty store: one that prints the marker and
  the payload and ends with exit code 1, one that ends with exit code 0 and prints a
  payload without the key \<open>schema\<close>.
\<close>

definition db_empty :: mcp_db where
  "db_empty = \<lparr>mcp_projects = [], mcp_seq = 0\<rparr>"

definition env_exit_1 :: analysis_env where
  "env_exit_1 =
     \<lparr>e_file_hash = ''h2'', e_now = 20, e_getsize = 120, e_run = Completed 1 stdout_ok []\<rparr>"

definition env_no_schema :: analysis_env where
  "env_no_schema =
     \<lparr>e_file_hash = ''h2'', e_now = 20, e_getsize = 120,
      e_run = Completed 0 stdout_no_schema []\<rparr>"

text \<open>
  A run of the extraction script on a model whose one table has the name \<open>SUCCESS:x\<close>:
  the script prints the name in the line \<open>TABLE_0: ...\<close>, ahead of the line with the
  marker and the payload, and ends with exit code 0. \<open>loads_marker_table\<close> is
  \<open>json.loads\<close> on the payload of this run and on the text from the table name to the
  end of the output, which is no JSON text.
\<close>

definition marker_table_blob :: string where
  "marker_table_blob =
     ''{\"tables\": [{\"name\": \"SUCCESS:x\", \"row_count\": 0, \"column_count\": 0, \"columns\": []}], \"metadata\": {}, \"schema\": [], \"measures\": [], \"relationships\": []}''"

definition marker_table_json :: json where
  "marker_table_json =
     JObj [(''tables'', JArr [JObj [(''name'', JStr ''SUCCESS:x''), (''row_count'', JNum 0),
                                    (''column_count'', JNum 0), (''columns'', JArr [])]]),
           (''metadata'', JObj []), (''schema'', JArr []),
           (''measures'', JArr []), (''relationships'', JArr [])]"

definition loads_marker_table :: "string \<Rightarrow> json option" where
  "loads_marker_table = map_of [(marker_table_blob, marker_table_json)]"

definition stdout_marker_table :: string where
  "stdout_marker_table =
     ''TABLES_LIST_LENGTH: 1\<newline>TABLE_0: SUCCESS:x\<newline>SUCCESS:'' @ marker_table_blob @ ''\<newline>''"

definition env_marker_table :: analysis_env where
  "env_marker_table =
     \<lparr>e_file_hash = ''h2'', e_now = 20, e_getsize = 120,
      e_run = Completed 0 stdout_marker_table []\<rparr>"

section \<open>Row identifiers\<close>

lemma fold_max_ge: "(a::nat) \<le> fold max ids a"
  by (induction ids arbitrary: a) (auto intro: order_trans[OF max.cobounded2])

lemma fold_max_mem: "i \<in> set ids \<Longrightarrow> (i::nat) \<le> fold max ids a"
proof (induction ids arbitrary: a)
  case Nil
  then show ?case by simp
next
  case (Cons x xs)
  show ?case
  proof (cases "i = x")
    case True
    have "x \<le> max x a" by simp
    also have "\<dots> \<le> fold max xs (max x a)" by (rule fold_max_ge)
    finally show ?thesis using True by simp
  next
    case False
    with Cons.prems have "i \<in> set xs" by simp
    then show ?thesis using Cons.IH by simp
  qed
qed

lemma next_rowid_gt_member: "i \<in> set ids \<Longrightarrow> i < next_rowid seq ids"
  unfolding next_rowid_def using fold_max_mem[of i ids 0] by simp

lemma next_rowid_gt_seq: "seq < next_rowid seq ids"
  by (simp add: next_rowid_def)

lemma mcp_existing_SomeD:
  "mcp_existing db name = Some r \<Longrightarrow> r \<in> set (mcp_projects db) \<and> p_name r = name"
  unfolding mcp_existing_def by (auto simp: find_Some_iff)

lemma n_existing_SomeD:
  "n_existing db name = Some r \<Longrightarrow> r \<in> set (n_projects db) \<and> np_name r = name"
  unfolding n_existing_def by (auto simp: find_Some_iff)

section \<open>Analysis of an unchanged file\<close>

text \<open>
  Claim C5. When the name is stored with the digest of the file, the analysis changes
  nothing and returns the stored project id. In the denormalized variant this holds
  as it stands. In the normalized variant the model is loaded before the digest is
  compared: the store is unchanged in every case, and the stored id is returned once
  the library is available and the model has loaded.
\<close>

theorem analyze_unchanged_file_is_noop:
  "(mcp_existing db name = Some r \<and> p_file_hash r = e_file_hash env \<longrightarrow>
      analyze_pbix_file_with_mcp loads dumps db path name env = (Some (p_id r), db)) \<and>
   (n_existing ndb name = Some nr \<and> np_file_hash nr = ne_file_hash nenv \<longrightarrow>
      snd (analyze_pbix_file ndb path name nenv) = ndb \<and>
      (ne_pbixray_available nenv \<and> ne_model nenv = Some m \<longrightarrow>
         fst (analyze_pbix_file ndb path name nenv) = Some (np_id nr)))"
  by (simp add: analyze_pbix_file_with_mcp_def analyze_pbix_file_def split: option.splits)

theorem analyze_unchanged_file_is_noop_witness:
  "mcp_existing db_P ''P'' = Some row_P \<and> p_file_hash row_P = e_file_hash env_same \<and>
   analyze_pbix_file_with_mcp loads_example dumps_example db_P ''P.pbix'' ''P'' env_same
     = (Some 1, db_P) \<and>
   n_existing ndb_P ''P'' = Some nrow_P \<and> np_file_hash nrow_P = ne_file_hash nenv_same \<and>
   ne_pbixray_available nenv_same \<and> ne_model nenv_same = Some model_Orders \<and>
   analyze_pbix_file ndb_P ''P.pbix'' ''P'' nenv_same = (Some 1, ndb_P)"
proof -
  have a: "mcp_existing db_P ''P'' = Some row_P \<and> p_file_hash row_P = e_file_hash env_same"
    by (simp add: mcp_existing_def db_P_def row_P_def env_same_def)
  have b: "n_existing ndb_P ''P'' = Some nrow_P \<and> np_file_hash nrow_P = ne_file_hash nenv_same"
    by (simp add: n_existing_def ndb_P_def nrow_P_def nenv_same_def)
  have c: "ne_pbixray_available nenv_same \<and> ne_model nenv_same = Some model_Orders"
    by (simp add: nenv_same_def)
  have i: "p_id row_P = 1" "np_id nrow_P = 1"
    by (simp_all add: row_P_def nrow_P_def)
  from analyze_unchanged_file_is_noop
         [of db_P "''P''" row_P env_same loads_example dumps_example "''P.pbix''"
             ndb_P nrow_P nenv_same model_Orders]
       a b c i
  show ?thesis by (simp add: prod_eq_iff)
qed

section \<open>The outcomes of the denormalized analysis\<close>


lemma mcp_analyze_success:
  assumes "\<not> (case mcp_existing db name of Some r \<Rightarrow> p_file_hash r = e_file_hash env | None \<Rightarrow> False)"
    and "e_run env = Completed 0 out err" and "py_in ''SUCCESS:'' out"
    and "loads (success_payload out) = Some data"
    and "mcp_new_row dumps path name env data = Inr row"
  shows "analyze_pbix_file_with_mcp loads dumps db path name env =
           (Some (next_rowid (mcp_seq db)
                    (map p_id (filter (\<lambda>x. \<not> p_name x = name) (mcp_projects db)))),
            snd (mcp_insert_or_replace row (mcp_delete_by_name name db)))"
proof -
  have same: "(case mcp_existing db name of Some r \<Rightarrow> mcp_delete_by_name name db | None \<Rightarrow> db)
                = mcp_delete_by_name name db"
  proof (cases "mcp_existing db name")
    case None
    then have "\<forall>x \<in> set (mcp_projects db). \<not> p_name x = name"
      by (auto simp: mcp_existing_def find_None_iff)
    then have "filter (\<lambda>x. \<not> p_name x = name) (mcp_projects db) = mcp_projects db"
      by (simp add: filter_id_conv)
    with None show ?thesis by (simp add: mcp_delete_by_name_def)
  next
    case (Some a)
    then show ?thesis by simp
  qed
  have pos: "(next_rowid s ids = 0) = False" for s ids by (simp add: next_rowid_def)
  show ?thesis
    using assms same
    by (simp add: analyze_pbix_file_with_mcp_def Let_def mcp_insert_or_replace_def
                  mcp_delete_by_name_def pos split: prod.splits)
qed

lemma mcp_analyze_failure:
  assumes "\<not> (case mcp_existing db name of Some r \<Rightarrow> p_file_hash r = e_file_hash env | None \<Rightarrow> False)"
    and "e_run env = RunRaised \<or>
         (\<exists>rc out err. e_run env = Completed rc out err \<and>
            (rc \<noteq> 0 \<or> \<not> py_in ''SUCCESS:'' out \<or> loads (success_payload out) = None \<or>
             (\<exists>data e. loads (success_payload out) = Some data \<and>
                       mcp_new_row dumps path name env data = Inl e)))"
  shows "analyze_pbix_file_with_mcp loads dumps db path name env = (None, mcp_delete_by_name name db)"
proof -
  have same: "(case mcp_existing db name of Some r \<Rightarrow> mcp_delete_by_name name db | None \<Rightarrow> db)
                = mcp_delete_by_name name db"
  proof (cases "mcp_existing db name")
    case None
    then have "\<forall>x \<in> set (mcp_projects db). \<not> p_name x = name"
      by (auto simp: mcp_existing_def find_None_iff)
    then have "filter (\<lambda>x. \<not> p_name x = name) (mcp_projects db) = mcp_projects db"
      by (simp add: filter_id_conv)
    with None show ?thesis by (simp add: mcp_delete_by_name_def)
  next
    case (Some a)
    then show ?thesis by simp
  qed
  from assms(2) show ?thesis
  proof
    assume "e_run env = RunRaised"
    then show ?thesis using assms(1) same by (simp add: analyze_pbix_file_with_mcp_def Let_def)
  next
    assume "\<exists>rc out err. e_run env = Completed rc out err \<and>
            (rc \<noteq> 0 \<or> \<not> py_in ''SUCCESS:'' out \<or> loads (success_payload out) = None \<or>
             (\<exists>data e. loads (success_payload out) = Some data \<and>
                       mcp_new_row dumps path name env data = Inl e))"
    then obtain rc out err where r: "e_run env = Completed rc out err"
      and c: "rc \<noteq> 0 \<or> \<not> py_in ''SUCCESS:'' out \<or> loads (success_payload out) = None \<or>
             (\<exists>data e. loads (success_payload out) = Some data \<and>
                       mcp_new_row dumps path name env data = Inl e)" by blast
    show ?thesis using assms(1) same r c
      by (auto simp add: analyze_pbix_file_with_mcp_def Let_def)
  qed
qed


lemma mcp_rowids_okD: "mcp_rowids_ok db \<Longrightarrow> r \<in> set (mcp_projects db) \<Longrightarrow> p_id r \<le> mcp_seq db"
  by (simp add: mcp_rowids_ok_def list_all_iff)

lemma mcp_analyze_cases:
  assumes "\<not> (case mcp_existing db name of Some r \<Rightarrow> p_file_hash r = e_file_hash env | None \<Rightarrow> False)"
  shows "fst (analyze_pbix_file_with_mcp loads dumps db path name env) = None \<or>
         fst (analyze_pbix_file_with_mcp loads dumps db path name env) =
           Some (next_rowid (mcp_seq db)
                    (map p_id (filter (\<lambda>x. \<not> p_name x = name) (mcp_projects db))))"
proof (cases "e_run env")
  case RunRaised
  then show ?thesis using mcp_analyze_failure[OF assms, of loads dumps path] by simp
next
  case (Completed rc out err)
  show ?thesis
  proof (cases "rc = 0 \<and> py_in ''SUCCESS:'' out")
    case False
    then show ?thesis using mcp_analyze_failure[OF assms, of loads dumps path] Completed by auto
  next
    case True
    show ?thesis
    proof (cases "loads (success_payload out)")
      case None
      then show ?thesis using mcp_analyze_failure[OF assms, of loads dumps path] Completed by auto
    next
      case (Some data)
      show ?thesis
      proof (cases "mcp_new_row dumps path name env data")
        case (Inl e)
        then show ?thesis
          using mcp_analyze_failure[OF assms, of loads dumps path] Completed Some by auto
      next
        case (Inr row)
        then show ?thesis
          using mcp_analyze_success[OF assms, of out err loads data dumps path row] Completed True Some
          by simp
      qed
    qed
  qed
qed

lemma n_analyze_changed:
  assumes "\<not> (case n_existing db name of Some r \<Rightarrow> np_file_hash r = ne_file_hash env | None \<Rightarrow> False)"
    and "ne_pbixray_available env" and "ne_model env = Some m"
  shows "fst (analyze_pbix_file db path name env) =
           Some (next_rowid (n_projects_seq db) (map np_id (n_projects db)))"
proof -
  have pos: "(next_rowid s ids = 0) = False" for s ids by (simp add: next_rowid_def)
  show ?thesis using assms
    by (simp add: analyze_pbix_file_def Let_def n_insert_or_replace_project_def pos
             split: prod.splits)
qed

text \<open>
  \<open>mcp_rowids_ok\<close> holds of the empty store and is kept by every analysis.
\<close>

lemma mcp_rowids_ok_empty: "mcp_rowids_ok \<lparr>mcp_projects = [], mcp_seq = 0\<rparr>"
  by (simp add: mcp_rowids_ok_def)

lemma mcp_rowids_ok_delete: "mcp_rowids_ok db \<Longrightarrow> mcp_rowids_ok (mcp_delete_by_name name db)"
  by (simp add: mcp_rowids_ok_def mcp_delete_by_name_def list_all_iff)

lemma mcp_rowids_ok_insert:
  "mcp_rowids_ok db \<Longrightarrow> mcp_rowids_ok (snd (mcp_insert_or_replace row db))"
proof -
  assume a: "mcp_rowids_ok db"
  let ?new = "next_rowid (mcp_seq db) (map p_id (mcp_projects db))"
  have "p_id r \<le> ?new" if "r \<in> set (mcp_projects db)" for r
    using a that next_rowid_gt_seq[of "mcp_seq db" "map p_id (mcp_projects db)"]
          mcp_rowids_okD[OF a that] by simp
  then show ?thesis
    by (simp add: mcp_rowids_ok_def mcp_insert_or_replace_def Let_def list_all_iff)
qed

lemma mcp_analyze_store:
  assumes "\<not> (case mcp_existing db name of Some r \<Rightarrow> p_file_hash r = e_file_hash env | None \<Rightarrow> False)"
  shows "snd (analyze_pbix_file_with_mcp loads dumps db path name env) = mcp_delete_by_name name db
          \<or> (\<exists>row. snd (analyze_pbix_file_with_mcp loads dumps db path name env) =
                snd (mcp_insert_or_replace row (mcp_delete_by_name name db)))"
proof (cases "e_run env = RunRaised \<or>
         (\<exists>rc out err. e_run env = Completed rc out err \<and>
            (rc \<noteq> 0 \<or> \<not> py_in ''SUCCESS:'' out \<or> loads (success_payload out) = None \<or>
             (\<exists>data e. loads (success_payload out) = Some data \<and>
                       mcp_new_row dumps path name env data = Inl e)))")
  case True
  from mcp_analyze_failure[OF assms True] show ?thesis by simp
next
  case nf: False
  then obtain out err where r: "e_run env = Completed 0 out err"
    by (cases "e_run env") auto
  from nf r have m: "py_in ''SUCCESS:'' out" by auto
  from nf r obtain data where d: "loads (success_payload out) = Some data" by auto
  from nf r d obtain row where n: "mcp_new_row dumps path name env data = Inr row"
    by (cases "mcp_new_row dumps path name env data") auto
  from mcp_analyze_success[where loads = loads, OF assms r m d n] show ?thesis by auto
qed

lemma mcp_rowids_ok_analyze:
  assumes "mcp_rowids_ok db"
  shows "mcp_rowids_ok (snd (analyze_pbix_file_with_mcp loads dumps db path name env))"
proof (cases "case mcp_existing db name of Some r \<Rightarrow> p_file_hash r = e_file_hash env | None \<Rightarrow> False")
  case True
  then show ?thesis using assms by (simp add: analyze_pbix_file_with_mcp_def)
next
  case False
  from mcp_analyze_store[OF False, of loads dumps path]
  show ?thesis using assms mcp_rowids_ok_delete mcp_rowids_ok_insert by metis
qed

section \<open>Analysis with a failed extraction\<close>

text \<open>
  Claim C2 says that an analysis whose extraction fails leaves the store as it was.
  The denormalized analysis deletes the row stored under the name and commits before
  the subprocess starts: with \<open>P\<close> stored under digest \<open>h1\<close>, an analysis of a changed
  file that times out returns \<open>None\<close> and leaves a store without \<open>P\<close>.
\<close>

theorem failed_extraction_loses_stored_project:
  "mcp_existing db_P ''P'' = Some row_P \<and>
   analyze_pbix_file_with_mcp loads_example dumps_example db_P ''P.pbix'' ''P'' env_changed_timeout
     = (None, \<lparr>mcp_projects = [], mcp_seq = 1\<rparr>)"
  by (simp add: analyze_pbix_file_with_mcp_def Let_def mcp_existing_def mcp_delete_by_name_def
        db_P_def row_P_def env_changed_timeout_def)

lemma mcp_existing_delete_same: "mcp_existing (mcp_delete_by_name name db) name = None"
  by (simp add: mcp_existing_def mcp_delete_by_name_def find_None_iff)

lemma find_filter_other:
  "\<not> n = name \<Longrightarrow> find (\<lambda>r. p_name r = n) (filter (\<lambda>r. \<not> p_name r = name) xs)
     = find (\<lambda>r. p_name r = n) xs"
  by (induction xs) auto

lemma mcp_existing_delete_other:
  "\<not> n = name \<Longrightarrow> mcp_existing (mcp_delete_by_name name db) n = mcp_existing db n"
  by (simp add: mcp_existing_def mcp_delete_by_name_def find_filter_other)

text \<open>
  Claim C2 as amended. When no row with the file's digest is stored under the name and
  the extraction fails (the subprocess raises, as on a timeout; the exit code is not
  0; the marker is missing; the payload does not parse; a key is missing), the analysis
  returns \<open>None\<close>, no row is stored under the name afterwards, and the rows under
  every other name and the sequence are as before: nothing new or partial is
  committed, and the only change is the deletion of the row the name had.
\<close>

theorem failed_extraction_commits_only_the_delete:
  assumes "\<not> (case mcp_existing db name of Some r \<Rightarrow> p_file_hash r = e_file_hash env | None \<Rightarrow> False)"
    and "e_run env = RunRaised \<or>
         (\<exists>rc out err. e_run env = Completed rc out err \<and>
            (rc \<noteq> 0 \<or> \<not> py_in ''SUCCESS:'' out \<or> loads (success_payload out) = None \<or>
             (\<exists>data e. loads (success_payload out) = Some data \<and>
                       mcp_new_row dumps path name env data = Inl e)))"
  shows "fst (analyze_pbix_file_with_mcp loads dumps db path name env) = None \<and>
         mcp_projects (snd (analyze_pbix_file_with_mcp loads dumps db path name env)) =
           filter (\<lambda>r. \<not> p_name r = name) (mcp_projects db) \<and>
         mcp_seq (snd (analyze_pbix_file_with_mcp loads dumps db path name env)) = mcp_seq db \<and>
         mcp_existing (snd (analyze_pbix_file_with_mcp loads dumps db path name env)) name = None \<and>
         (\<forall>n. \<not> n = name \<longrightarrow>
            mcp_existing (snd (analyze_pbix_file_with_mcp loads dumps db path name env)) n =
            mcp_existing db n)"
  using mcp_analyze_failure[OF assms] mcp_existing_delete_same[of name db]
        mcp_existing_delete_other[of _ name db]
  by (simp add: mcp_delete_by_name_def)

theorem failed_extraction_commits_only_the_delete_witness:
  "\<not> (case mcp_existing db_P ''P'' of Some r \<Rightarrow> p_file_hash r = e_file_hash env_changed_timeout
       | None \<Rightarrow> False) \<and>
   e_run env_changed_timeout = RunRaised \<and>
   fst (analyze_pbix_file_with_mcp loads_example dumps_example db_P ''P.pbix'' ''P''
          env_changed_timeout) = None \<and>
   mcp_projects (snd (analyze_pbix_file_with_mcp loads_example dumps_example db_P ''P.pbix'' ''P''
          env_changed_timeout)) = []"
proof -
  have a: "\<not> (case mcp_existing db_P ''P'' of Some r \<Rightarrow> p_file_hash r = e_file_hash env_changed_timeout
       | None \<Rightarrow> False)"
    by (simp add: mcp_existing_def db_P_def row_P_def env_changed_timeout_def)
  have b: "e_run env_changed_timeout = RunRaised" by (simp add: env_changed_timeout_def)
  have c: "filter (\<lambda>r. \<not> p_name r = ''P'') (mcp_projects db_P) = []"
    by (simp add: db_P_def row_P_def)
  from failed_extraction_commits_only_the_delete
         [where db = db_P and name = "''P''" and env = env_changed_timeout
            and loads = loads_example and dumps = dumps_example and path = "''P.pbix''"] a b c
  show ?thesis by simp
qed

section \<open>Analysis of a changed file: the child rows\<close>

text \<open>
  Claim C1 says that after the analysis of a changed file no child row of the earlier
  analysis is left. In the normalized variant \<open>INSERT OR REPLACE\<close> gives the project a
  new id, and the statements under the comment "Clear existing data for this project"
  delete by that new id: with \<open>P\<close> stored as project 1, the analysis of a changed file
  returns 2 and keeps the table, column, measure, relationship and query rows of
  project 1, which no project row owns any more.
\<close>

theorem reanalysis_orphans_old_child_rows:
  "n_existing ndb_P ''P'' = Some nrow_P \<and> \<not> np_file_hash nrow_P = ne_file_hash nenv_changed \<and>
   fst (analyze_pbix_file ndb_P ''P.pbix'' ''P'' nenv_changed) = Some 2 \<and>
   map np_id (n_projects (snd (analyze_pbix_file ndb_P ''P.pbix'' ''P'' nenv_changed))) = [2] \<and>
   n_tables (snd (analyze_pbix_file ndb_P ''P.pbix'' ''P'' nenv_changed)) =
     [ntable_Sales,
      \<lparr>nt_id = 2, nt_project_id = 2, nt_table_name = ''Orders'', nt_row_count = 7,
       nt_column_count = 0\<rparr>] \<and>
   n_columns (snd (analyze_pbix_file ndb_P ''P.pbix'' ''P'' nenv_changed)) = [ncolumn_Amount] \<and>
   n_measures (snd (analyze_pbix_file ndb_P ''P.pbix'' ''P'' nenv_changed)) = [nmeasure_Revenue] \<and>
   n_relationships (snd (analyze_pbix_file ndb_P ''P.pbix'' ''P'' nenv_changed)) = [nrel_one] \<and>
   n_power_queries (snd (analyze_pbix_file ndb_P ''P.pbix'' ''P'' nenv_changed)) = [nquery_one] \<and>
   nt_project_id ntable_Sales = 1 \<and> nc_table_id ncolumn_Amount = 1 \<and>
   nm_project_id nmeasure_Revenue = 1 \<and> nr_project_id nrel_one = 1 \<and>
   nq_project_id nquery_one = 1"
  by (simp add: analyze_pbix_file_def Let_def n_existing_def n_insert_or_replace_project_def
        n_clear_project_def n_insert_table_def next_rowid_def ndb_P_def nrow_P_def
        nenv_changed_def model_Orders_def ntable_Sales_def ncolumn_Amount_def
        nmeasure_Revenue_def nrel_one_def nquery_one_def)

section \<open>Impact search: rounds that change nothing\<close>

lemma impact_project_column_scope:
  "impact_project loads t ''column'' row res = Inr res"
  by (cases row) (simp add: impact_project_def measures_part_def in_scope_def)

lemma impact_loop_column_scope:
  "impact_loop loads t ''column'' rows res = Inr res"
  by (induction rows) (simp_all add: impact_project_column_scope)

lemma column_scope_finds_nothing:
  "mcp_analyze_impact loads db search_term ''column'' = Inr empty_impact"
  by (simp add: mcp_analyze_impact_def impact_loop_column_scope)

lemma impact_loop_skip:
  assumes "\<And>res. impact_project loads t ty (f p) res = Inr res"
  shows "impact_loop loads t ty (map f (filter g ps)) res =
         impact_loop loads t ty (map f (filter g (removeAll p ps))) res"
proof (induction ps arbitrary: res)
  case Nil
  then show ?case by simp
next
  case (Cons x xs)
  show ?case
  proof (cases "x = p")
    case True
    then show ?thesis using Cons.IH assms by simp
  next
    case False
    then show ?thesis using Cons.IH by (simp split: sum.splits)
  qed
qed

lemma impact_project_broken_tables:
  assumes "tj = Some b" "\<not> b = []" "loads b = None" "ty = ''all'' \<or> ty = ''table''"
  shows "impact_project loads t ty (n, tj, mj) res = Inr res"
  using assms by (auto simp add: impact_project_def in_scope_def)

lemma measures_part_broken:
  assumes "loads b = None"
  shows "measures_part loads t ty n (Some b) res = Inr res"
  using assms by (simp add: measures_part_def)

lemma measures_part_null: "measures_part loads t ty n None res = Inr res"
  by (simp add: measures_part_def in_scope_def)

lemma impact_project_broken_measures:
  assumes "loads b = None"
  shows "impact_project loads t ty (n, tj, Some b) res = impact_project loads t ty (n, tj, None) res"
  using assms
  by (simp add: impact_project_def measures_part_broken measures_part_null split: sum.splits option.splits)

lemma impact_project_only_broken_measures:
  assumes "loads b = None"
  shows "impact_project loads t ty (n, None, Some b) res = Inr res"
  using assms
  by (simp add: impact_project_def measures_part_broken in_scope_def)

lemma impact_loop_null_measures:
  assumes "p_measures_data p = Some b" "loads b = None"
  shows "impact_loop loads t ty
           (map (\<lambda>r. (p_name r, p_tables_data r, p_measures_data r))
              (filter (\<lambda>r. \<not> (p_tables_data r = None \<and> p_measures_data r = None)) ps)) res =
         impact_loop loads t ty
           (map (\<lambda>r. (p_name r, p_tables_data r, p_measures_data r))
              (filter (\<lambda>r. \<not> (p_tables_data r = None \<and> p_measures_data r = None))
                 (map (\<lambda>r. if r = p then r\<lparr>p_measures_data := None\<rparr> else r) ps))) res"
proof (induction ps arbitrary: res)
  case Nil
  then show ?case by simp
next
  case (Cons x xs)
  show ?case
  proof (cases "x = p")
    case False
    then show ?thesis using Cons.IH by (simp split: sum.splits)
  next
    case True
    show ?thesis
    proof (cases "p_tables_data p")
      case None
      then show ?thesis
        using True assms Cons.IH impact_project_only_broken_measures[of loads b, OF assms(2)] by simp
    next
      case (Some tb)
      then show ?thesis
        using True assms Cons.IH impact_project_broken_measures[of loads b, OF assms(2)]
        by (simp split: sum.splits)
    qed
  qed
qed


lemma usage_loop_skip:
  assumes "case h p of None \<Rightarrow> True | Some nb \<Rightarrow> snd nb = [] \<or> loads (snd nb) = None"
  shows "usage_loop loads body (List.map_filter h ps) u =
         usage_loop loads body (List.map_filter h (removeAll p ps)) u"
proof (induction ps arbitrary: u)
  case Nil
  then show ?case by simp
next
  case (Cons x xs)
  show ?case
  proof (cases "x = p")
    case True
    then show ?thesis using Cons.IH assms
      by (cases "h p") (auto simp add: List.map_filter_simps)
  next
    case False
    then show ?thesis using Cons.IH
      by (cases "h x") (auto simp add: List.map_filter_simps split: sum.splits option.splits)
  qed
qed

lemma check_columns_measures_kept:
  "check_columns t n tn cs res = Inr res' \<Longrightarrow>
   projects_with_measure res' = projects_with_measure res \<and>
   measures_referencing_item res' = measures_referencing_item res"
proof (induction cs arbitrary: res)
  case Nil
  then show ?case by simp
next
  case (Cons c cs)
  then show ?case by (fastforce split: sum.splits if_splits)
qed

lemma check_tables_measures_kept:
  "check_tables t n ts res = Inr res' \<Longrightarrow>
   projects_with_measure res' = projects_with_measure res \<and>
   measures_referencing_item res' = measures_referencing_item res"
proof (induction ts arbitrary: res)
  case Nil
  then show ?case by simp
next
  case (Cons x xs)
  from Cons.prems obtain tn cv cs r1 where
    "check_columns t n tn cs
       (if py_in t (py_lower tn)
        then res\<lparr>projects_using_table := projects_using_table res @ [(n, tn)]\<rparr> else res) = Inr r1"
    and "check_tables t n xs r1 = Inr res'"
    by (auto split: sum.splits)
  then show ?case
    using Cons.IH[of r1] check_columns_measures_kept[of t n tn cs _ r1]
    by (auto split: if_splits)
qed

lemma check_measures_names:
  "check_measures t n ms res = Inr res' \<Longrightarrow> n \<in> S \<Longrightarrow>
   fst ` set (projects_with_measure res) \<subseteq> S \<Longrightarrow>
   fst ` set (measures_referencing_item res) \<subseteq> S \<Longrightarrow>
   fst ` set (projects_with_measure res') \<subseteq> S \<and>
   fst ` set (measures_referencing_item res') \<subseteq> S"
proof (induction ms arbitrary: res)
  case Nil
  then show ?case by auto
next
  case (Cons m ms)
  from Cons.prems(1) obtain mn tn ex exl where
    step: "check_measures t n ms
             (let res1 = (if py_in t (py_lower mn)
                          then res\<lparr>projects_with_measure :=
                                     projects_with_measure res @ [(n, tn, mn, ex)]\<rparr>
                          else res)
              in if py_in t exl
                 then res1\<lparr>measures_referencing_item :=
                             measures_referencing_item res1 @ [(n, mn, ex)]\<rparr>
                 else res1) = Inr res'"
    by (auto split: sum.splits)
  define r1 where "r1 =
             (let res1 = (if py_in t (py_lower mn)
                          then res\<lparr>projects_with_measure :=
                                     projects_with_measure res @ [(n, tn, mn, ex)]\<rparr>
                          else res)
              in if py_in t exl
                 then res1\<lparr>measures_referencing_item :=
                             measures_referencing_item res1 @ [(n, mn, ex)]\<rparr>
                 else res1)"
  have a: "fst ` set (projects_with_measure r1) \<subseteq> S"
    using Cons.prems(2,3) by (auto simp add: r1_def Let_def)
  have b: "fst ` set (measures_referencing_item r1) \<subseteq> S"
    using Cons.prems(2,4) by (auto simp add: r1_def Let_def)
  from step have "check_measures t n ms r1 = Inr res'" by (simp only: r1_def)
  from Cons.IH[OF this Cons.prems(2) a b] show ?case .
qed

lemma measures_part_names:
  "measures_part loads t ty n mj res = Inr res' \<Longrightarrow> n \<in> S \<Longrightarrow>
   fst ` set (projects_with_measure res) \<subseteq> S \<Longrightarrow>
   fst ` set (measures_referencing_item res) \<subseteq> S \<Longrightarrow>
   fst ` set (projects_with_measure res') \<subseteq> S \<and>
   fst ` set (measures_referencing_item res') \<subseteq> S"
  unfolding measures_part_def
  using check_measures_names[of t n _ res res' S]
  by (auto split: if_splits option.splits sum.splits)

lemma impact_project_names:
  assumes a: "impact_project loads t ty (n, tj, mj) res = Inr res'" and n: "n \<in> S"
    and s1: "fst ` set (projects_with_measure res) \<subseteq> S"
    and s2: "fst ` set (measures_referencing_item res) \<subseteq> S"
  shows "fst ` set (projects_with_measure res') \<subseteq> S \<and>
         fst ` set (measures_referencing_item res') \<subseteq> S"
proof (cases "in_scope tj ty ''all'' ''table''")
  case False
  then show ?thesis using a measures_part_names[of loads t ty n mj res res' S] n s1 s2
    by (simp add: impact_project_def)
next
  case True
  show ?thesis
  proof (cases "loads (the tj)")
    case None
    then show ?thesis using a True s1 s2 by (auto simp add: impact_project_def)
  next
    case (Some v)
    with a True obtain ts r1 where c: "check_tables t n ts res = Inr r1"
      and m: "measures_part loads t ty n mj r1 = Inr res'"
      by (auto simp add: impact_project_def split: sum.splits)
    from check_tables_measures_kept[OF c] s1 s2
    have "fst ` set (projects_with_measure r1) \<subseteq> S"
         "fst ` set (measures_referencing_item r1) \<subseteq> S" by simp_all
    then show ?thesis using measures_part_names[OF m n] by simp
  qed
qed

lemma impact_loop_names:
  "impact_loop loads t ty rows res = Inr res' \<Longrightarrow> fst ` set rows \<subseteq> S \<Longrightarrow>
   fst ` set (projects_with_measure res) \<subseteq> S \<Longrightarrow>
   fst ` set (measures_referencing_item res) \<subseteq> S \<Longrightarrow>
   fst ` set (projects_with_measure res') \<subseteq> S \<and>
   fst ` set (measures_referencing_item res') \<subseteq> S"
proof (induction rows arbitrary: res)
  case Nil
  then show ?case by simp
next
  case (Cons row rows)
  obtain n tj mj where row: "row = (n, tj, mj)" by (cases row) auto
  from Cons.prems(1) obtain r1 where s1: "impact_project loads t ty (n, tj, mj) res = Inr r1"
    and s2: "impact_loop loads t ty rows r1 = Inr res'"
    by (auto simp add: row split: sum.splits)
  have n: "n \<in> S" using Cons.prems(2) row by simp
  from impact_project_names[OF s1 n Cons.prems(3) Cons.prems(4)]
  have "fst ` set (projects_with_measure r1) \<subseteq> S"
       "fst ` set (measures_referencing_item r1) \<subseteq> S" by simp_all
  then show ?case using Cons.IH[OF s2] Cons.prems(2) by simp
qed


lemma loads_example_broken: "loads_example broken_blob = None"
  by (simp add: loads_example_def broken_blob_def sales_blob_def sales_dates_blob_def
        products_blob_def revenue_blob_def payload_blob_def payload_no_schema_blob_def)

section \<open>Impact search with the scope \<open>column\<close>\<close>

text \<open>
  Claim C3 says that \<open>search(term, scope="column")\<close> returns every column whose name
  contains the term. The selectbox of the page offers the scope \<open>column\<close> ("Columns
  only"), but \<open>analyze_impact\<close> reads the columns only under
  \<open>search_type in ["all", "table"]\<close>: with the scope \<open>column\<close> every round of the loop
  skips both parts and the four lists stay empty, whatever is stored (lemma
  \<open>column_scope_finds_nothing\<close>). For the project \<open>P\<close> with the column \<open>Amount\<close> of the table
  \<open>Sales\<close>, the term \<open>amount\<close> finds nothing under the scope \<open>column\<close> and finds the
  column under the scope \<open>all\<close>.
\<close>

theorem column_scope_misses_matching_column:
  "mcp_analyze_impact loads_example db_P ''amount'' ''column'' =
     Inr \<lparr>projects_using_table = [], measures_referencing_item = [],
          projects_with_measure = [], projects_using_column = []\<rparr> \<and>
   mcp_analyze_impact loads_example db_P ''amount'' ''all'' =
     Inr \<lparr>projects_using_table = [],
          measures_referencing_item = [(''P'', ''Total Revenue'', JStr ''SUM(Sales[Amount])'')],
          projects_with_measure = [],
          projects_using_column = [(''P'', ''Sales'', ''Amount'')]\<rparr>"
  by code_simp

section \<open>Impact search over a project whose table blob does not parse\<close>

text \<open>
  Claim C9. When \<open>tables_data\<close> of a project is a non-empty text that \<open>json.loads\<close>
  rejects and the scope is \<open>all\<close> or \<open>table\<close>, the round of that project changes no
  result list: the handler's \<open>continue\<close> leaves the round before the measures are
  read. The search returns what it returns on the store without the project, and when
  no other project has its name, no measure match and no DAX match carries the name,
  whatever \<open>measures_data\<close> holds.
\<close>

theorem broken_tables_blob_hides_measures:
  "p_tables_data p = Some b \<and> \<not> b = [] \<and> loads b = None \<and> (ty = ''all'' \<or> ty = ''table'') \<longrightarrow>
     impact_project loads (py_lower t) ty (p_name p, p_tables_data p, p_measures_data p) res
       = Inr res \<and>
     mcp_analyze_impact loads db t ty =
       mcp_analyze_impact loads (db\<lparr>mcp_projects := removeAll p (mcp_projects db)\<rparr>) t ty \<and>
     (mcp_analyze_impact loads db t ty = Inr r \<and>
      p_name p \<notin> p_name ` set (removeAll p (mcp_projects db)) \<longrightarrow>
        p_name p \<notin> fst ` set (projects_with_measure r) \<and>
        p_name p \<notin> fst ` set (measures_referencing_item r))"
proof (intro impI)
  assume h: "p_tables_data p = Some b \<and> \<not> b = [] \<and> loads b = None \<and> (ty = ''all'' \<or> ty = ''table'')"
  have skip: "impact_project loads (py_lower t) ty (p_name p, p_tables_data p, p_measures_data p) res'
                = Inr res'" for res'
    using h impact_project_broken_tables[of "p_tables_data p" b loads ty] by blast
  have eq: "mcp_analyze_impact loads db t ty =
       mcp_analyze_impact loads (db\<lparr>mcp_projects := removeAll p (mcp_projects db)\<rparr>) t ty"
    unfolding mcp_analyze_impact_def select_impact_rows_def
    using impact_loop_skip[of loads "py_lower t" ty
            "\<lambda>r. (p_name r, p_tables_data r, p_measures_data r)" p, OF skip]
    by simp
  have names: "p_name p \<notin> fst ` set (projects_with_measure r) \<and>
               p_name p \<notin> fst ` set (measures_referencing_item r)"
    if r: "mcp_analyze_impact loads db t ty = Inr r"
      and u: "p_name p \<notin> p_name ` set (removeAll p (mcp_projects db))"
  proof -
    let ?rows = "select_impact_rows (db\<lparr>mcp_projects := removeAll p (mcp_projects db)\<rparr>)"
    from r eq have "impact_loop loads (py_lower t) ty ?rows empty_impact = Inr r"
      by (simp add: mcp_analyze_impact_def)
    moreover have "fst ` set ?rows \<subseteq> p_name ` set (removeAll p (mcp_projects db))"
      by (auto simp add: select_impact_rows_def)
    ultimately have "fst ` set (projects_with_measure r) \<subseteq> p_name ` set (removeAll p (mcp_projects db)) \<and>
       fst ` set (measures_referencing_item r) \<subseteq> p_name ` set (removeAll p (mcp_projects db))"
      using impact_loop_names[of loads "py_lower t" ty ?rows empty_impact r
              "p_name ` set (removeAll p (mcp_projects db))"]
      by (simp add: empty_impact_def)
    with u show ?thesis by blast
  qed
  from skip[of res] eq names
  show "impact_project loads (py_lower t) ty (p_name p, p_tables_data p, p_measures_data p) res
       = Inr res \<and>
     mcp_analyze_impact loads db t ty =
       mcp_analyze_impact loads (db\<lparr>mcp_projects := removeAll p (mcp_projects db)\<rparr>) t ty \<and>
     (mcp_analyze_impact loads db t ty = Inr r \<and>
      p_name p \<notin> p_name ` set (removeAll p (mcp_projects db)) \<longrightarrow>
        p_name p \<notin> fst ` set (projects_with_measure r) \<and>
        p_name p \<notin> fst ` set (measures_referencing_item r))"
    by blast
qed

lemma search_PX_all:
  "mcp_analyze_impact loads_example db_PX ''revenue'' ''all'' =
     Inr \<lparr>projects_using_table = [], measures_referencing_item = [],
          projects_with_measure =
            [(''P'', JStr ''Sales'', ''Total Revenue'', JStr ''SUM(Sales[Amount])'')],
          projects_using_column = []\<rparr>"
  by code_simp

lemma search_PX_measure:
  "mcp_analyze_impact loads_example db_PX ''revenue'' ''measure'' =
     Inr \<lparr>projects_using_table = [], measures_referencing_item = [],
          projects_with_measure =
            [(''P'', JStr ''Sales'', ''Total Revenue'', JStr ''SUM(Sales[Amount])''),
             (''X'', JStr ''Sales'', ''Total Revenue'', JStr ''SUM(Sales[Amount])'')],
          projects_using_column = []\<rparr>"
  by code_simp

theorem broken_tables_blob_hides_measures_witness:
  "p_tables_data row_X = Some broken_blob \<and> \<not> broken_blob = [] \<and>
   loads_example broken_blob = None \<and>
   p_measures_data row_X = Some revenue_blob \<and> loads_example revenue_blob = Some revenue_json \<and>
   mcp_analyze_impact loads_example db_PX ''revenue'' ''all'' =
     mcp_analyze_impact loads_example (db_PX\<lparr>mcp_projects := [row_P]\<rparr>) ''revenue'' ''all'' \<and>
   mcp_analyze_impact loads_example db_PX ''revenue'' ''all'' =
     Inr \<lparr>projects_using_table = [], measures_referencing_item = [],
          projects_with_measure =
            [(''P'', JStr ''Sales'', ''Total Revenue'', JStr ''SUM(Sales[Amount])'')],
          projects_using_column = []\<rparr> \<and>
   mcp_analyze_impact loads_example db_PX ''revenue'' ''measure'' =
     Inr \<lparr>projects_using_table = [], measures_referencing_item = [],
          projects_with_measure =
            [(''P'', JStr ''Sales'', ''Total Revenue'', JStr ''SUM(Sales[Amount])''),
             (''X'', JStr ''Sales'', ''Total Revenue'', JStr ''SUM(Sales[Amount])'')],
          projects_using_column = []\<rparr>"
proof -
  have a: "p_tables_data row_X = Some broken_blob \<and> \<not> broken_blob = [] \<and>
           loads_example broken_blob = None \<and> p_measures_data row_X = Some revenue_blob"
    by (simp add: row_X_def loads_example_broken) (simp add: broken_blob_def)
  have b: "loads_example revenue_blob = Some revenue_json"
    by (simp add: loads_example_def sales_blob_def sales_dates_blob_def
        products_blob_def revenue_blob_def)
  have c: "removeAll row_X (mcp_projects db_PX) = [row_P]"
    by (simp add: db_PX_def row_X_def row_P_def)
  from broken_tables_blob_hides_measures
         [of row_X broken_blob loads_example "''all''" "''revenue''" empty_impact db_PX]
       a b c search_PX_all search_PX_measure
  show ?thesis by simp
qed

section \<open>Blobs that do not parse\<close>

text \<open>
  Claim C8 says that a project with a blob that is no JSON is left out of the reports
  and of the search. The search reads two blobs of a project, each under its own
  handler: the project \<open>Y\<close>, whose \<open>measures_data\<close> does not parse, is still reported
  with its table \<open>Sales\<close>.
\<close>

theorem malformed_measures_project_still_reported:
  "p_measures_data row_Y = Some broken_blob \<and> loads_example broken_blob = None \<and>
   mcp_analyze_impact loads_example db_PY ''sales'' ''all'' =
     Inr \<lparr>projects_using_table = [(''P'', ''Sales''), (''Y'', ''Sales'')],
          measures_referencing_item = [(''P'', ''Total Revenue'', JStr ''SUM(Sales[Amount])'')],
          projects_with_measure = [], projects_using_column = []\<rparr>"
proof -
  have "mcp_analyze_impact loads_example db_PY ''sales'' ''all'' =
     Inr \<lparr>projects_using_table = [(''P'', ''Sales''), (''Y'', ''Sales'')],
          measures_referencing_item = [(''P'', ''Total Revenue'', JStr ''SUM(Sales[Amount])'')],
          projects_with_measure = [], projects_using_column = []\<rparr>"
    by code_simp
  then show ?thesis by (simp add: row_Y_def loads_example_broken)
qed

lemma select_tables_skip:
  assumes "p_tables_data p = Some b" "loads b = None"
  shows "usage_loop loads body (select_tables_data db) u =
         usage_loop loads body
           (select_tables_data (db\<lparr>mcp_projects := removeAll p (mcp_projects db)\<rparr>)) u"
  unfolding select_tables_data_def
  using usage_loop_skip[where h = "\<lambda>r. map_option (\<lambda>s. (p_name r, s)) (p_tables_data r)"
          and p = p and loads = loads and body = body and ps = "mcp_projects db" and u = u] assms
  by simp

lemma select_measures_skip:
  assumes "p_measures_data p = Some b" "loads b = None"
  shows "usage_loop loads body (select_measures_data db) u =
         usage_loop loads body
           (select_measures_data (db\<lparr>mcp_projects := removeAll p (mcp_projects db)\<rparr>)) u"
  unfolding select_measures_data_def
  using usage_loop_skip[where h = "\<lambda>r. map_option (\<lambda>s. (p_name r, s)) (p_measures_data r)"
          and p = p and loads = loads and body = body and ps = "mcp_projects db" and u = u] assms
  by simp

text \<open>
  Claim C8 as amended. A blob that \<open>json.loads\<close> rejects raises nothing and
  contributes nothing. With such a \<open>tables_data\<close>, the shared tables and the shared
  columns are those of the store without the project (and of a store with only that
  project, the empty report), and under the scope \<open>all\<close> or \<open>table\<close> a non-empty one
  makes the search that of the store without the project. With such a
  \<open>measures_data\<close>, the shared measures are those of the store without the project, and
  the search is that of the store in which this one blob is \<open>NULL\<close>: the tables and
  columns of the project are still searched.
\<close>

theorem malformed_blob_is_skipped:
  "(p_tables_data p = Some b \<and> loads b = None \<longrightarrow>
      mcp_get_shared_tables loads db =
        mcp_get_shared_tables loads (db\<lparr>mcp_projects := removeAll p (mcp_projects db)\<rparr>) \<and>
      get_shared_columns loads db =
        get_shared_columns loads (db\<lparr>mcp_projects := removeAll p (mcp_projects db)\<rparr>) \<and>
      mcp_get_shared_tables loads (db\<lparr>mcp_projects := [p]\<rparr>) = Inr [] \<and>
      get_shared_columns loads (db\<lparr>mcp_projects := [p]\<rparr>) = Inr [] \<and>
      (\<not> b = [] \<and> (ty = ''all'' \<or> ty = ''table'') \<longrightarrow>
         mcp_analyze_impact loads db t ty =
           mcp_analyze_impact loads (db\<lparr>mcp_projects := removeAll p (mcp_projects db)\<rparr>) t ty)) \<and>
   (p_measures_data p = Some b \<and> loads b = None \<longrightarrow>
      mcp_get_shared_measures loads db =
        mcp_get_shared_measures loads (db\<lparr>mcp_projects := removeAll p (mcp_projects db)\<rparr>) \<and>
      mcp_get_shared_measures loads (db\<lparr>mcp_projects := [p]\<rparr>) = Inr [] \<and>
      mcp_analyze_impact loads db t ty =
        mcp_analyze_impact loads
          (db\<lparr>mcp_projects :=
                map (\<lambda>r. if r = p then r\<lparr>p_measures_data := None\<rparr> else r) (mcp_projects db)\<rparr>)
          t ty)"
proof (intro conjI impI)
  assume h: "p_tables_data p = Some b \<and> loads b = None"
  then have a: "p_tables_data p = Some b" and l: "loads b = None" by simp_all
  show "mcp_get_shared_tables loads db =
        mcp_get_shared_tables loads (db\<lparr>mcp_projects := removeAll p (mcp_projects db)\<rparr>)"
    unfolding mcp_get_shared_tables_def
    by (rule arg_cong[OF select_tables_skip[where loads = loads, OF a l]])
  show "get_shared_columns loads db =
        get_shared_columns loads (db\<lparr>mcp_projects := removeAll p (mcp_projects db)\<rparr>)"
    unfolding get_shared_columns_def
    by (rule arg_cong[OF select_tables_skip[where loads = loads, OF a l]])
  show "mcp_get_shared_tables loads (db\<lparr>mcp_projects := [p]\<rparr>) = Inr []"
    using a l
    by (simp add: mcp_get_shared_tables_def select_tables_data_def List.map_filter_simps
          shared_frame_def sort_values_desc_def)
  show "get_shared_columns loads (db\<lparr>mcp_projects := [p]\<rparr>) = Inr []"
    using a l
    by (simp add: get_shared_columns_def select_tables_data_def List.map_filter_simps
          shared_frame_def sort_values_desc_def)
  {
    assume s: "\<not> b = [] \<and> (ty = ''all'' \<or> ty = ''table'')"
    have skip: "impact_project loads (py_lower t) ty (p_name p, p_tables_data p, p_measures_data p) res'
                  = Inr res'" for res'
      using a l s impact_project_broken_tables[of "p_tables_data p" b loads ty] by blast
    show "mcp_analyze_impact loads db t ty =
           mcp_analyze_impact loads (db\<lparr>mcp_projects := removeAll p (mcp_projects db)\<rparr>) t ty"
      unfolding mcp_analyze_impact_def select_impact_rows_def
      using impact_loop_skip[of loads "py_lower t" ty
              "\<lambda>r. (p_name r, p_tables_data r, p_measures_data r)" p, OF skip]
      by simp
  }
next
  assume h: "p_measures_data p = Some b \<and> loads b = None"
  then have a: "p_measures_data p = Some b" and l: "loads b = None" by simp_all
  show "mcp_get_shared_measures loads db =
        mcp_get_shared_measures loads (db\<lparr>mcp_projects := removeAll p (mcp_projects db)\<rparr>)"
    unfolding mcp_get_shared_measures_def
    by (rule arg_cong[OF select_measures_skip[where loads = loads, OF a l]])
  show "mcp_get_shared_measures loads (db\<lparr>mcp_projects := [p]\<rparr>) = Inr []"
    using a l
    by (simp add: mcp_get_shared_measures_def select_measures_data_def List.map_filter_simps
          shared_frame_def sort_values_desc_def)
  show "mcp_analyze_impact loads db t ty =
        mcp_analyze_impact loads
          (db\<lparr>mcp_projects :=
                map (\<lambda>r. if r = p then r\<lparr>p_measures_data := None\<rparr> else r) (mcp_projects db)\<rparr>)
          t ty"
    unfolding mcp_analyze_impact_def select_impact_rows_def
    using impact_loop_null_measures[where loads = loads, OF a l, of "py_lower t" ty "mcp_projects db" empty_impact]
    by simp
qed

lemma shared_AXB:
  "mcp_get_shared_tables loads_example db_AXB =
     Inr [\<lparr>sr_name = ''Sales'', sr_project_count = 2, sr_projects = ''A, B''\<rparr>]"
  "get_shared_columns loads_example db_AXB =
     Inr [\<lparr>sr_name = ''Sales.Amount'', sr_project_count = 2, sr_projects = ''A, B''\<rparr>]"
  by code_simp+

lemma shared_AYB:
  "mcp_get_shared_measures loads_example db_AYB =
     Inr [\<lparr>sr_name = ''Total Revenue'', sr_project_count = 2, sr_projects = ''A, B''\<rparr>]"
  by code_simp

lemma search_AXB:
  "mcp_analyze_impact loads_example db_AXB ''sales'' ''all'' =
     Inr \<lparr>projects_using_table = [(''A'', ''Sales''), (''B'', ''Sales'')],
          measures_referencing_item =
            [(''A'', ''Total Revenue'', JStr ''SUM(Sales[Amount])''),
             (''B'', ''Total Revenue'', JStr ''SUM(Sales[Amount])'')],
          projects_with_measure = [], projects_using_column = []\<rparr>"
  by code_simp

lemma search_AYB:
  "mcp_analyze_impact loads_example db_AYB ''sales'' ''all'' =
     Inr \<lparr>projects_using_table = [(''A'', ''Sales''), (''Y'', ''Sales''), (''B'', ''Sales'')],
          measures_referencing_item =
            [(''A'', ''Total Revenue'', JStr ''SUM(Sales[Amount])''),
             (''B'', ''Total Revenue'', JStr ''SUM(Sales[Amount])'')],
          projects_with_measure = [], projects_using_column = []\<rparr>"
  by code_simp

theorem malformed_blob_is_skipped_witness:
  "p_tables_data row_X = Some broken_blob \<and> loads_example broken_blob = None \<and>
   \<not> broken_blob = [] \<and>
   mcp_get_shared_tables loads_example db_AXB =
     mcp_get_shared_tables loads_example (db_AXB\<lparr>mcp_projects := [row_A, row_B]\<rparr>) \<and>
   mcp_get_shared_tables loads_example db_AXB =
     Inr [\<lparr>sr_name = ''Sales'', sr_project_count = 2, sr_projects = ''A, B''\<rparr>] \<and>
   get_shared_columns loads_example db_AXB =
     Inr [\<lparr>sr_name = ''Sales.Amount'', sr_project_count = 2, sr_projects = ''A, B''\<rparr>] \<and>
   mcp_analyze_impact loads_example db_AXB ''sales'' ''all'' =
     mcp_analyze_impact loads_example (db_AXB\<lparr>mcp_projects := [row_A, row_B]\<rparr>) ''sales'' ''all'' \<and>
   p_measures_data row_Y = Some broken_blob \<and>
   mcp_get_shared_measures loads_example db_AYB =
     mcp_get_shared_measures loads_example (db_AYB\<lparr>mcp_projects := [row_A, row_B]\<rparr>) \<and>
   mcp_get_shared_measures loads_example db_AYB =
     Inr [\<lparr>sr_name = ''Total Revenue'', sr_project_count = 2, sr_projects = ''A, B''\<rparr>] \<and>
   mcp_analyze_impact loads_example db_AYB ''sales'' ''all'' =
     mcp_analyze_impact loads_example
       (db_AYB\<lparr>mcp_projects := [row_A, row_Y\<lparr>p_measures_data := None\<rparr>, row_B]\<rparr>) ''sales'' ''all''"
proof -
  have a: "p_tables_data row_X = Some broken_blob \<and> loads_example broken_blob = None \<and>
           p_measures_data row_Y = Some broken_blob"
    by (simp add: row_X_def row_Y_def loads_example_broken)
  have n: "\<not> broken_blob = []" by (simp add: broken_blob_def)
  have c: "removeAll row_X (mcp_projects db_AXB) = [row_A, row_B]"
          "removeAll row_Y (mcp_projects db_AYB) = [row_A, row_B]"
          "map (\<lambda>r. if r = row_Y then r\<lparr>p_measures_data := None\<rparr> else r) (mcp_projects db_AYB)
             = [row_A, row_Y\<lparr>p_measures_data := None\<rparr>, row_B]"
    by (simp_all add: db_AXB_def db_AYB_def row_X_def row_Y_def row_A_def row_B_def)
  from malformed_blob_is_skipped
         [of row_X broken_blob loads_example db_AXB "''all''" "''sales''"]
       a n c
  have 1: "mcp_get_shared_tables loads_example db_AXB =
             mcp_get_shared_tables loads_example (db_AXB\<lparr>mcp_projects := [row_A, row_B]\<rparr>) \<and>
           mcp_analyze_impact loads_example db_AXB ''sales'' ''all'' =
             mcp_analyze_impact loads_example (db_AXB\<lparr>mcp_projects := [row_A, row_B]\<rparr>)
               ''sales'' ''all''"
    by simp
  from malformed_blob_is_skipped
         [of row_Y broken_blob loads_example db_AYB "''all''" "''sales''"]
       a c
  have 2: "mcp_get_shared_measures loads_example db_AYB =
             mcp_get_shared_measures loads_example (db_AYB\<lparr>mcp_projects := [row_A, row_B]\<rparr>) \<and>
           mcp_analyze_impact loads_example db_AYB ''sales'' ''all'' =
             mcp_analyze_impact loads_example
               (db_AYB\<lparr>mcp_projects := [row_A, row_Y\<lparr>p_measures_data := None\<rparr>, row_B]\<rparr>)
               ''sales'' ''all''"
    by simp
  show ?thesis
    using a n 1 2 shared_AXB shared_AYB by blast
qed

section \<open>The usage dictionary\<close>

lemma usage_of_add:
  "usage_of (usage_add k p u) k' = (if k' = k then insert p (usage_of u k) else usage_of u k')"
  by (induction u) (auto simp add: usage_of_def)

lemma usage_add_keys:
  "set (map fst (usage_add k p u)) = insert k (set (map fst u))"
proof (induction u)
  case Nil
  then show ?case by simp
next
  case (Cons a u)
  obtain k' ps where a: "a = (k', ps)" by (cases a) auto
  show ?case
  proof (cases "k' = k")
    case True
    then show ?thesis using a by auto
  next
    case False
    then show ?thesis using a Cons.IH by auto
  qed
qed

lemma usage_add_distinct_keys:
  "distinct (map fst u) \<Longrightarrow> distinct (map fst (usage_add k p u))"
proof (induction u)
  case Nil
  then show ?case by simp
next
  case (Cons a u)
  obtain k' ps where a: "a = (k', ps)" by (cases a) auto
  show ?case
  proof (cases "k' = k")
    case True
    then show ?thesis using Cons.prems a by simp
  next
    case False
    have "k' \<notin> set (map fst (usage_add k p u))"
      using Cons.prems a False usage_add_keys[of k p u] by auto
    then show ?thesis using Cons a False by simp
  qed
qed

lemma usage_add_ok: "usage_ok u \<Longrightarrow> usage_ok (usage_add k p u)"
proof -
  have "list_all (\<lambda>kp. distinct (snd kp)) u \<Longrightarrow> list_all (\<lambda>kp. distinct (snd kp)) (usage_add k p u)"
    by (induction u) auto
  then show "usage_ok u \<Longrightarrow> usage_ok (usage_add k p u)"
    by (simp add: usage_ok_def usage_add_distinct_keys)
qed

lemma add_names_sound:
  "add_names p xs u = Inr u' \<Longrightarrow>
   \<exists>ks. names_of xs = Inr ks \<and> (usage_ok u \<longrightarrow> usage_ok u') \<and>
        (\<forall>k. usage_of u' k = usage_of u k \<union> (if k \<in> set ks then {p} else {}))"
proof (induction xs arbitrary: u)
  case Nil
  then show ?case by simp
next
  case (Cons x xs)
  from Cons.prems obtain n where n: "name_key x = Inr n"
    and r: "add_names p xs (usage_add n p u) = Inr u'"
    by (auto split: sum.splits)
  from Cons.IH[OF r] obtain ks where ks: "names_of xs = Inr ks"
    and ok: "usage_ok (usage_add n p u) \<longrightarrow> usage_ok u'"
    and eq: "\<forall>k. usage_of u' k = usage_of (usage_add n p u) k \<union> (if k \<in> set ks then {p} else {})"
    by blast
  have "names_of (x # xs) = Inr (n # ks)" using n ks by simp
  moreover have "usage_ok u \<longrightarrow> usage_ok u'" using ok usage_add_ok by blast
  moreover have "\<forall>k. usage_of u' k = usage_of u k \<union> (if k \<in> set (n # ks) then {p} else {})"
    using eq by (auto simp add: usage_of_add)
  ultimately show ?case by blast
qed

lemma add_columns_sound:
  "add_columns p tn cs u = Inr u' \<Longrightarrow>
   \<exists>ks. column_keys_of tn cs = Inr ks \<and> (usage_ok u \<longrightarrow> usage_ok u') \<and>
        (\<forall>k. usage_of u' k = usage_of u k \<union> (if k \<in> set ks then {p} else {}))"
proof (induction cs arbitrary: u)
  case Nil
  then show ?case by simp
next
  case (Cons c cs)
  from Cons.prems obtain n where n: "name_key c = Inr n"
    and r: "add_columns p tn cs (usage_add (tn @ ''.'' @ n) p u) = Inr u'"
    by (auto split: sum.splits)
  from Cons.IH[OF r] obtain ks where ks: "column_keys_of tn cs = Inr ks"
    and ok: "usage_ok (usage_add (tn @ ''.'' @ n) p u) \<longrightarrow> usage_ok u'"
    and eq: "\<forall>k. usage_of u' k =
                 usage_of (usage_add (tn @ ''.'' @ n) p u) k \<union> (if k \<in> set ks then {p} else {})"
    by blast
  have "column_keys_of tn (c # cs) = Inr ((tn @ ''.'' @ n) # ks)" using n ks by simp
  moreover have "usage_ok u \<longrightarrow> usage_ok u'" using ok usage_add_ok by blast
  moreover have "\<forall>k. usage_of u' k =
                    usage_of u k \<union> (if k \<in> set ((tn @ ''.'' @ n) # ks) then {p} else {})"
    using eq by (auto simp add: usage_of_add)
  ultimately show ?case by blast
qed

lemma add_table_columns_sound:
  "add_table_columns p ts u = Inr u' \<Longrightarrow>
   \<exists>ks. table_column_keys ts = Inr ks \<and> (usage_ok u \<longrightarrow> usage_ok u') \<and>
        (\<forall>k. usage_of u' k = usage_of u k \<union> (if k \<in> set ks then {p} else {}))"
proof (induction ts arbitrary: u)
  case Nil
  then show ?case by simp
next
  case (Cons t ts)
  from Cons.prems obtain tn cv cs u1 where tn: "name_key t = Inr tn"
    and cv: "py_get t ''columns'' (JArr []) = Inr cv" and cs: "py_iter cv = Inr cs"
    and a: "add_columns p tn cs u = Inr u1" and r: "add_table_columns p ts u1 = Inr u'"
    by (auto split: sum.splits)
  from add_columns_sound[OF a] obtain ks1 where k1: "column_keys_of tn cs = Inr ks1"
    and ok1: "usage_ok u \<longrightarrow> usage_ok u1"
    and eq1: "\<forall>k. usage_of u1 k = usage_of u k \<union> (if k \<in> set ks1 then {p} else {})"
    by blast
  from Cons.IH[OF r] obtain ks2 where k2: "table_column_keys ts = Inr ks2"
    and ok2: "usage_ok u1 \<longrightarrow> usage_ok u'"
    and eq2: "\<forall>k. usage_of u' k = usage_of u1 k \<union> (if k \<in> set ks2 then {p} else {})"
    by blast
  have "table_column_keys (t # ts) = Inr (ks1 @ ks2)" using tn cv cs k1 k2 by simp
  moreover have "usage_ok u \<longrightarrow> usage_ok u'" using ok1 ok2 by blast
  moreover have "\<forall>k. usage_of u' k = usage_of u k \<union> (if k \<in> set (ks1 @ ks2) then {p} else {})"
    using eq1 eq2 by auto
  ultimately show ?case by blast
qed

lemma names_body_sound:
  "names_body p v u = Inr u' \<Longrightarrow>
   \<exists>ks. blob_names v = Inr ks \<and> (usage_ok u \<longrightarrow> usage_ok u') \<and>
        (\<forall>k. usage_of u' k = usage_of u k \<union> (if k \<in> set ks then {p} else {}))"
proof -
  assume a: "names_body p v u = Inr u'"
  then obtain xs where i: "py_iter v = Inr xs" and r: "add_names p xs u = Inr u'"
    by (auto simp add: names_body_def split: sum.splits)
  from add_names_sound[OF r] i show ?thesis by (simp add: blob_names_def)
qed

lemma columns_body_sound:
  "columns_body p v u = Inr u' \<Longrightarrow>
   \<exists>ks. blob_column_keys v = Inr ks \<and> (usage_ok u \<longrightarrow> usage_ok u') \<and>
        (\<forall>k. usage_of u' k = usage_of u k \<union> (if k \<in> set ks then {p} else {}))"
proof -
  assume a: "columns_body p v u = Inr u'"
  then obtain ts where i: "py_iter v = Inr ts" and r: "add_table_columns p ts u = Inr u'"
    by (auto simp add: columns_body_def split: sum.splits)
  from add_table_columns_sound[OF r] i show ?thesis by (simp add: blob_column_keys_def)
qed

lemma usage_loop_sound:
  assumes body: "\<And>p v u u'. body p v u = Inr u' \<Longrightarrow>
     \<exists>ks. keys v = Inr ks \<and> (usage_ok u \<longrightarrow> usage_ok u') \<and>
          (\<forall>k. usage_of u' k = usage_of u k \<union> (if k \<in> set ks then {p} else {}))"
  shows "usage_loop loads body rows u = Inr u' \<Longrightarrow>
     (usage_ok u \<longrightarrow> usage_ok u') \<and>
     (\<forall>k. usage_of u' k = usage_of u k \<union> owning_projects loads keys rows k)"
proof (induction rows arbitrary: u)
  case Nil
  then show ?case by (simp add: owning_projects_def)
next
  case (Cons row rows)
  obtain p blob where row: "row = (p, blob)" by (cases row) auto
  show ?case
  proof (cases "blob = [] \<or> loads blob = None")
    case True
    then have "usage_loop loads body rows u = Inr u'" using Cons.prems row
      by (cases "blob = []") auto
    from Cons.IH[OF this] have ok: "usage_ok u \<longrightarrow> usage_ok u'"
      and eq: "\<forall>k. usage_of u' k = usage_of u k \<union> owning_projects loads keys rows k" by simp_all
    have "owning_projects loads keys (row # rows) k = owning_projects loads keys rows k" for k
      using True row by (auto simp add: owning_projects_def holds_key_def)
    then show ?thesis using ok eq by simp
  next
    case False
    then obtain v where v: "loads blob = Some v" and ne: "\<not> blob = []" by auto
    from Cons.prems row v ne obtain u1 where b: "body p v u = Inr u1"
      and r: "usage_loop loads body rows u1 = Inr u'"
      by (auto split: sum.splits)
    from body[OF b] obtain ks where ks: "keys v = Inr ks" and ok1: "usage_ok u \<longrightarrow> usage_ok u1"
      and eq1: "\<forall>k. usage_of u1 k = usage_of u k \<union> (if k \<in> set ks then {p} else {})" by blast
    from Cons.IH[OF r] have ok2: "usage_ok u1 \<longrightarrow> usage_ok u'"
      and eq2: "\<forall>k. usage_of u' k = usage_of u1 k \<union> owning_projects loads keys rows k" by simp_all
    have "owning_projects loads keys (row # rows) k =
            (if k \<in> set ks then {p} else {}) \<union> owning_projects loads keys rows k" for k
      using row v ne ks by (auto simp add: owning_projects_def holds_key_def)
    then show ?thesis using ok1 ok2 eq1 eq2 by auto
  qed
qed

section \<open>From the usage dictionary to the report\<close>

lemma sort_values_desc_set: "set (sort_values_desc rows) = set rows"
  by (simp add: sort_values_desc_def)

lemma sort_values_desc_distinct:
  "distinct (map f (sort_values_desc rows)) = distinct (map f rows)"
  by (simp add: distinct_map sort_values_desc_def)

lemma sort_values_desc_sorted:
  "sorted_wrt (\<lambda>a b. sr_project_count b \<le> sr_project_count a) (sort_values_desc rows)"
proof -
  have "sorted (map sr_project_count (sort_key sr_project_count (rev rows)))"
    by (rule sorted_sort_key)
  then have "sorted_wrt (\<lambda>a b. sr_project_count a \<le> sr_project_count b)
               (sort_key sr_project_count (rev rows))"
    by (simp add: sorted_map)
  then show ?thesis
    by (simp add: sort_values_desc_def sorted_wrt_rev)
qed

lemma sharing_rows_sort:
  assumes "distinct (map sr_name rows)"
    and "set (map sr_name rows) = {k. 1 < card (owners k)}"
    and "list_all (\<lambda>r. sr_project_count r = card (owners (sr_name r))) rows"
  shows "sharing_rows owners (sort_values_desc rows)"
  using assms
  by (simp add: sharing_rows_def sort_values_desc_distinct sort_values_desc_sorted
        sort_values_desc_set list_all_iff)

lemma usage_of_member:
  "distinct (map fst u) \<Longrightarrow> (k, ps) \<in> set u \<Longrightarrow> usage_of u k = set ps"
  by (simp add: usage_of_def)

lemma usage_of_nonempty:
  "usage_of u k \<noteq> {} \<Longrightarrow> \<exists>ps. (k, ps) \<in> set u"
  by (auto simp add: usage_of_def split: option.splits dest: map_of_SomeD)

lemma shared_frame_sound:
  assumes ok: "usage_ok u"
  shows "sharing_rows (usage_of u) (shared_frame u) \<and>
         projects_sorted_joined (usage_of u) (shared_frame u)"
proof -
  let ?mk = "\<lambda>kp. \<lparr>sr_name = fst kp, sr_project_count = length (snd kp),
                    sr_projects = py_join '', '' (sort (snd kp))\<rparr>"
  let ?sel = "filter (\<lambda>kp. 1 < length (snd kp)) u"
  let ?rows = "map ?mk ?sel"
  from ok have dk: "distinct (map fst u)" and dp: "\<And>k ps. (k, ps) \<in> set u \<Longrightarrow> distinct ps"
    by (auto simp add: usage_ok_def list_all_iff)
  have own: "usage_of u k = set ps" and crd: "card (usage_of u k) = length ps"
    if "(k, ps) \<in> set u" for k ps
    using that dk dp usage_of_member[of u k ps] by (simp_all add: distinct_card)
  have names: "map sr_name ?rows = map fst ?sel" by simp
  have d: "distinct (map sr_name ?rows)"
    unfolding names using dk by (simp add: distinct_map_filter)
  have s: "set (map sr_name ?rows) = {k. 1 < card (usage_of u k)}"
  proof (intro set_eqI iffI)
    fix k
    assume "k \<in> set (map sr_name ?rows)"
    then obtain ps where "(k, ps) \<in> set u" "1 < length ps" unfolding names by auto
    then show "k \<in> {k. 1 < card (usage_of u k)}" using crd by simp
  next
    fix k
    assume "k \<in> {k. 1 < card (usage_of u k)}"
    then have c: "1 < card (usage_of u k)" by simp
    then have "usage_of u k \<noteq> {}" by auto
    then obtain ps where m: "(k, ps) \<in> set u" using usage_of_nonempty by blast
    with c crd have "1 < length ps" by simp
    with m have "(k, ps) \<in> set ?sel" by simp
    then show "k \<in> set (map sr_name ?rows)" unfolding names by force
  qed
  have c: "list_all (\<lambda>r. sr_project_count r = card (usage_of u (sr_name r))) ?rows"
    using crd by (auto simp add: list_all_iff)
  have j: "list_all (\<lambda>r. sr_projects r =
             py_join '', '' (sorted_list_of_set (usage_of u (sr_name r)))) ?rows"
  proof -
    have "sort ps = sorted_list_of_set (usage_of u k)" if "(k, ps) \<in> set u" for k ps
      using own[OF that] dp[OF that]
      by (simp add: sorted_list_of_set_sort_remdups distinct_remdups_id)
    then show ?thesis by (auto simp add: list_all_iff)
  qed
  have "sharing_rows (usage_of u) (sort_values_desc ?rows)"
    by (rule sharing_rows_sort[OF d s c])
  moreover have "projects_sorted_joined (usage_of u) (sort_values_desc ?rows)"
    using j by (simp add: projects_sorted_joined_def list_all_iff sort_values_desc_set)
  ultimately show ?thesis by (simp add: shared_frame_def)
qed

lemma usage_nil: "usage_ok [] \<and> usage_of [] = (\<lambda>k. {})"
  by (simp add: usage_ok_def usage_of_def fun_eq_iff)

lemma report_sound:
  assumes body: "\<And>p v u u'. body p v u = Inr u' \<Longrightarrow>
     \<exists>ks. keys v = Inr ks \<and> (usage_ok u \<longrightarrow> usage_ok u') \<and>
          (\<forall>k. usage_of u' k = usage_of u k \<union> (if k \<in> set ks then {p} else {}))"
    and run: "(case usage_loop loads body sel [] of Inl e \<Rightarrow> Inl e | Inr u \<Rightarrow> Inr (shared_frame u))
                = Inr rows"
  shows "sharing_rows (owning_projects loads keys sel) rows \<and>
         projects_sorted_joined (owning_projects loads keys sel) rows"
proof -
  from run obtain u where u: "usage_loop loads body sel [] = Inr u" and r: "rows = shared_frame u"
    by (auto split: sum.splits)
  from usage_loop_sound[of body keys loads sel "[]" u, OF body u] usage_nil
  have ok: "usage_ok u" and eq: "usage_of u = owning_projects loads keys sel"
    by (simp_all add: fun_eq_iff)
  from shared_frame_sound[OF ok] eq r show ?thesis by simp
qed

lemma sql_shared_sound:
  "sharing_rows (joined_owners joined) (sql_shared joined) \<and>
   projects_comma_joined (joined_owners joined) (sql_shared joined)"
proof -
  let ?own = "\<lambda>k. remdups (map snd (filter (\<lambda>j. fst j = k) joined))"
  let ?mk = "\<lambda>k. \<lparr>sr_name = k, sr_project_count = length (?own k),
                   sr_projects = py_join '','' (?own k)\<rparr>"
  let ?rows = "filter (\<lambda>r. 1 < sr_project_count r) (map ?mk (remdups (map fst joined)))"
  have crd: "card (joined_owners joined k) = length (?own k)" for k
    by (simp add: joined_owners_def length_remdups_card_conv)
  have names: "map sr_name ?rows = filter (\<lambda>k. 1 < length (?own k)) (remdups (map fst joined))"
    by (induction "remdups (map fst joined)") (auto simp add: filter_map comp_def)
  have d: "distinct (map sr_name ?rows)" unfolding names by simp
  have s: "set (map sr_name ?rows) = {k. 1 < card (joined_owners joined k)}"
  proof (intro set_eqI iffI)
    fix k
    assume "k \<in> set (map sr_name ?rows)"
    then show "k \<in> {k. 1 < card (joined_owners joined k)}" unfolding names using crd by simp
  next
    fix k
    assume "k \<in> {k. 1 < card (joined_owners joined k)}"
    then have c: "1 < length (?own k)" using crd by simp
    then have "?own k \<noteq> []" by auto
    then have "k \<in> set (map fst joined)" by (auto simp add: filter_empty_conv)
    with c show "k \<in> set (map sr_name ?rows)" unfolding names by simp
  qed
  have c: "list_all (\<lambda>r. sr_project_count r = card (joined_owners joined (sr_name r))) ?rows"
    using crd by (auto simp add: list_all_iff)
  have j: "list_all (\<lambda>r. \<exists>ps. distinct ps \<and> set ps = joined_owners joined (sr_name r) \<and>
                     sr_projects r = py_join '','' ps) ?rows"
  proof -
    have "\<exists>ps. distinct ps \<and> set ps = joined_owners joined k \<and>
               py_join '','' (?own k) = py_join '','' ps" for k
      by (rule exI[of _ "?own k"]) (simp add: joined_owners_def)
    then show ?thesis unfolding list_all_iff by auto
  qed
  have "sharing_rows (joined_owners joined) (sort_values_desc ?rows)"
    by (rule sharing_rows_sort[OF d s c])
  moreover have "projects_comma_joined (joined_owners joined) (sort_values_desc ?rows)"
    using j by (simp add: projects_comma_joined_def list_all_iff sort_values_desc_set)
  ultimately show ?thesis by (simp add: sql_shared_def Let_def)
qed

lemma join_AB: "py_join '', '' (sorted_list_of_set {''A'', ''B''}) = ''A, B''"
proof -
  have "{''A'', ''B''} = set [''A'', ''B'']" by simp
  then have "sorted_list_of_set {''A'', ''B''} = sort (remdups [''A'', ''B''])"
    by (simp only: sorted_list_of_set_sort_remdups)
  also have "\<dots> = [''A'', ''B'']" by code_simp
  finally show ?thesis by simp
qed

lemma only_Sales_shared:
  assumes r: "sharing_rows owners rows" and j: "projects_sorted_joined owners rows"
    and ab: "owners ''Sales'' = {''A'', ''B''}"
    and one: "\<forall>k. \<not> k = ''Sales'' \<longrightarrow> card (owners k) \<le> 1"
  shows "rows = [\<lparr>sr_name = ''Sales'', sr_project_count = 2, sr_projects = ''A, B''\<rparr>]"
proof -
  have c2: "card (owners ''Sales'') = 2" using ab by simp
  have "{k. 1 < card (owners k)} = {''Sales''}"
  proof (intro set_eqI iffI)
    fix k assume "k \<in> {k. 1 < card (owners k)}"
    then show "k \<in> {''Sales''}" using one by (metis mem_Collect_eq not_less singletonI)
  next
    fix k assume "k \<in> {''Sales''}"
    then show "k \<in> {k. 1 < card (owners k)}" using c2 by simp
  qed
  with r have d: "distinct (map sr_name rows)" and s: "set (map sr_name rows) = {''Sales''}"
    by (simp_all add: sharing_rows_def)
  have "map sr_name rows = [''Sales'']"
  proof (cases rows)
    case Nil
    with s show ?thesis by simp
  next
    case (Cons a as)
    have a: "sr_name a = ''Sales''" using s Cons by auto
    have "as = []"
    proof (cases as)
      case Nil then show ?thesis .
    next
      case (Cons b bs)
      then have "sr_name b = ''Sales''" using s \<open>rows = a # as\<close> by auto
      with a d \<open>rows = a # as\<close> Cons show ?thesis by simp
    qed
    with a Cons show ?thesis by simp
  qed
  then obtain x where x: "rows = [x]" and n: "sr_name x = ''Sales''" by auto
  from r x n c2 have c: "sr_project_count x = 2" by (simp add: sharing_rows_def)
  from j x n ab have p: "sr_projects x = ''A, B''"
    by (simp add: projects_sorted_joined_def join_AB)
  from n c p have "x = \<lparr>sr_name = ''Sales'', sr_project_count = 2, sr_projects = ''A, B''\<rparr>"
    by (cases x) simp
  with x show ?thesis by simp
qed

section \<open>Sharing reports\<close>

lemma loads_example_values:
  "loads_example sales_blob = Some sales_json"
  "loads_example sales_dates_blob = Some sales_dates_json"
  "loads_example products_blob = Some products_json"
  "loads_example revenue_blob = Some revenue_json"
  by (simp_all add: loads_example_def sales_blob_def sales_dates_blob_def
        products_blob_def revenue_blob_def)

lemma blob_names_examples:
  "blob_names sales_json = Inr [''Sales'']"
  "blob_names sales_dates_json = Inr [''Sales'', ''Dates'']"
  "blob_names products_json = Inr [''Products'']"
  by (simp_all add: blob_names_def sales_json_def sales_dates_json_def products_json_def
        name_key_def)

lemma blobs_not_empty:
  "\<not> sales_blob = []" "\<not> sales_dates_blob = []" "\<not> products_blob = []"
  by (simp_all add: sales_blob_def sales_dates_blob_def products_blob_def)

lemma table_owners_ABC:
  "owning_projects loads_example blob_names (select_tables_data db_ABC) k =
     (if k = ''Sales'' then {''A'', ''B''}
      else if k = ''Dates'' then {''B''}
      else if k = ''Products'' then {''C''} else {})"
  by (auto simp add: owning_projects_def holds_key_def select_tables_data_def db_ABC_def
        row_A_def row_B_def row_C_def List.map_filter_simps loads_example_values
        blob_names_examples blobs_not_empty)

text \<open>
  Claim C4 says that \<open>projects\<close> is the sorted list of the owners joined with a comma
  and a space, \<open>A, B\<close> for the table \<open>Sales\<close> of the projects \<open>A\<close> and \<open>B\<close>. The normalized
  \<open>get_shared_tables\<close> builds it with \<open>GROUP_CONCAT(DISTINCT p.name)\<close>, whose separator
  is a comma alone: with \<open>Sales\<close> in \<open>A\<close> and \<open>B\<close>, \<open>Dates\<close> in \<open>B\<close> and \<open>Products\<close> in
  \<open>C\<close> the report is the one row of \<open>Sales\<close> with \<open>A,B\<close>.
\<close>

theorem normalized_report_joins_without_space:
  "joined_owners (join_tables_projects ndb_ABC) ''Sales'' = {''A'', ''B''} \<and>
   joined_owners (join_tables_projects ndb_ABC) ''Dates'' = {''B''} \<and>
   joined_owners (join_tables_projects ndb_ABC) ''Products'' = {''C''} \<and>
   pbi_get_shared_tables ndb_ABC =
     [\<lparr>sr_name = ''Sales'', sr_project_count = 2, sr_projects = ''A,B''\<rparr>] \<and>
   \<not> pbi_get_shared_tables ndb_ABC =
     [\<lparr>sr_name = ''Sales'', sr_project_count = 2, sr_projects = ''A, B''\<rparr>]"
  by code_simp

text \<open>
  Claim C4 as amended. Whenever a sharing report of the denormalized store returns,
  its rows are exactly the names (for columns, the keys \<open>table.column\<close>) that more than
  one project owns, each once, with the number of its owners, in descending order of
  that number, and \<open>projects\<close> is the sorted list of the owners joined with a comma and a
  space; when \<open>Sales\<close> is owned by \<open>A\<close> and \<open>B\<close> and no other table by more than one
  project, the report of the tables is the one row \<open>Sales\<close>, 2, \<open>A, B\<close>. The two reports
  of the normalized store hold the same names and numbers in the same order, with
  \<open>projects\<close> listing each owner once, joined with a comma. An owner of a name is a
  project whose blob is not empty, decodes and holds the name, or, in the normalized
  store, a project joined to a row with that name.
\<close>

theorem shared_reports_hold_shared_names:
  "(mcp_get_shared_tables loads db = Inr rows \<longrightarrow>
      sharing_rows (owning_projects loads blob_names (select_tables_data db)) rows \<and>
      projects_sorted_joined (owning_projects loads blob_names (select_tables_data db)) rows \<and>
      (owning_projects loads blob_names (select_tables_data db) ''Sales'' = {''A'', ''B''} \<and>
       (\<forall>k. \<not> k = ''Sales'' \<longrightarrow>
            card (owning_projects loads blob_names (select_tables_data db) k) \<le> 1) \<longrightarrow>
         rows = [\<lparr>sr_name = ''Sales'', sr_project_count = 2, sr_projects = ''A, B''\<rparr>])) \<and>
   (mcp_get_shared_measures loads db = Inr rows \<longrightarrow>
      sharing_rows (owning_projects loads blob_names (select_measures_data db)) rows \<and>
      projects_sorted_joined (owning_projects loads blob_names (select_measures_data db)) rows) \<and>
   (get_shared_columns loads db = Inr rows \<longrightarrow>
      sharing_rows (owning_projects loads blob_column_keys (select_tables_data db)) rows \<and>
      projects_sorted_joined (owning_projects loads blob_column_keys (select_tables_data db)) rows) \<and>
   sharing_rows (joined_owners (join_tables_projects ndb)) (pbi_get_shared_tables ndb) \<and>
   projects_comma_joined (joined_owners (join_tables_projects ndb)) (pbi_get_shared_tables ndb) \<and>
   sharing_rows (joined_owners (join_measures_projects ndb)) (pbi_get_shared_measures ndb) \<and>
   projects_comma_joined (joined_owners (join_measures_projects ndb)) (pbi_get_shared_measures ndb)"
proof -
  have t: "sharing_rows (owning_projects loads blob_names (select_tables_data db)) rows \<and>
           projects_sorted_joined (owning_projects loads blob_names (select_tables_data db)) rows"
    if "mcp_get_shared_tables loads db = Inr rows"
    using that
      report_sound[where body = names_body and keys = blob_names and loads = loads
                     and sel = "select_tables_data db" and rows = rows, OF names_body_sound]
    by (simp add: mcp_get_shared_tables_def)
  have m: "sharing_rows (owning_projects loads blob_names (select_measures_data db)) rows \<and>
           projects_sorted_joined (owning_projects loads blob_names (select_measures_data db)) rows"
    if "mcp_get_shared_measures loads db = Inr rows"
    using that
      report_sound[where body = names_body and keys = blob_names and loads = loads
                     and sel = "select_measures_data db" and rows = rows, OF names_body_sound]
    by (simp add: mcp_get_shared_measures_def)
  have c: "sharing_rows (owning_projects loads blob_column_keys (select_tables_data db)) rows \<and>
           projects_sorted_joined (owning_projects loads blob_column_keys (select_tables_data db)) rows"
    if "get_shared_columns loads db = Inr rows"
    using that
      report_sound[where body = columns_body and keys = blob_column_keys and loads = loads
                     and sel = "select_tables_data db" and rows = rows, OF columns_body_sound]
    by (simp add: get_shared_columns_def)
  have f: "rows = [\<lparr>sr_name = ''Sales'', sr_project_count = 2, sr_projects = ''A, B''\<rparr>]"
    if "mcp_get_shared_tables loads db = Inr rows"
      and "owning_projects loads blob_names (select_tables_data db) ''Sales'' = {''A'', ''B''} \<and>
       (\<forall>k. \<not> k = ''Sales'' \<longrightarrow>
            card (owning_projects loads blob_names (select_tables_data db) k) \<le> 1)"
    using t[OF that(1)] that(2)
      only_Sales_shared[of "owning_projects loads blob_names (select_tables_data db)" rows]
    by blast
  have n1: "sharing_rows (joined_owners (join_tables_projects ndb)) (pbi_get_shared_tables ndb) \<and>
   projects_comma_joined (joined_owners (join_tables_projects ndb)) (pbi_get_shared_tables ndb)"
    unfolding pbi_get_shared_tables_def by (rule sql_shared_sound)
  have n2: "sharing_rows (joined_owners (join_measures_projects ndb)) (pbi_get_shared_measures ndb) \<and>
   projects_comma_joined (joined_owners (join_measures_projects ndb)) (pbi_get_shared_measures ndb)"
    unfolding pbi_get_shared_measures_def by (rule sql_shared_sound)
  from t m c f n1 n2 show ?thesis by blast
qed

lemma reports_ABC:
  "mcp_get_shared_tables loads_example db_ABC =
     Inr [\<lparr>sr_name = ''Sales'', sr_project_count = 2, sr_projects = ''A, B''\<rparr>]"
  "mcp_get_shared_measures loads_example db_ABC =
     Inr [\<lparr>sr_name = ''Total Revenue'', sr_project_count = 2, sr_projects = ''A, B''\<rparr>]"
  "get_shared_columns loads_example db_ABC =
     Inr [\<lparr>sr_name = ''Sales.Amount'', sr_project_count = 2, sr_projects = ''A, B''\<rparr>]"
  by code_simp+

theorem shared_reports_hold_shared_names_witness:
  "mcp_get_shared_tables loads_example db_ABC =
     Inr [\<lparr>sr_name = ''Sales'', sr_project_count = 2, sr_projects = ''A, B''\<rparr>] \<and>
   owning_projects loads_example blob_names (select_tables_data db_ABC) ''Sales'' = {''A'', ''B''} \<and>
   owning_projects loads_example blob_names (select_tables_data db_ABC) ''Dates'' = {''B''} \<and>
   owning_projects loads_example blob_names (select_tables_data db_ABC) ''Products'' = {''C''} \<and>
   (\<forall>k. k = ''Sales'' \<or>
        card (owning_projects loads_example blob_names (select_tables_data db_ABC) k) \<le> 1) \<and>
   sharing_rows (owning_projects loads_example blob_names (select_tables_data db_ABC))
     [\<lparr>sr_name = ''Sales'', sr_project_count = 2, sr_projects = ''A, B''\<rparr>] \<and>
   mcp_get_shared_measures loads_example db_ABC =
     Inr [\<lparr>sr_name = ''Total Revenue'', sr_project_count = 2, sr_projects = ''A, B''\<rparr>] \<and>
   get_shared_columns loads_example db_ABC =
     Inr [\<lparr>sr_name = ''Sales.Amount'', sr_project_count = 2, sr_projects = ''A, B''\<rparr>] \<and>
   sharing_rows (owning_projects loads_example blob_column_keys (select_tables_data db_ABC))
     [\<lparr>sr_name = ''Sales.Amount'', sr_project_count = 2, sr_projects = ''A, B''\<rparr>]"
proof -
  have o: "owning_projects loads_example blob_names (select_tables_data db_ABC) ''Sales'' = {''A'', ''B''}"
          "owning_projects loads_example blob_names (select_tables_data db_ABC) ''Dates'' = {''B''}"
          "owning_projects loads_example blob_names (select_tables_data db_ABC) ''Products'' = {''C''}"
    by (simp_all add: table_owners_ABC)
  have one: "\<forall>k. k = ''Sales'' \<or>
        card (owning_projects loads_example blob_names (select_tables_data db_ABC) k) \<le> 1"
    by (simp add: table_owners_ABC)
  from shared_reports_hold_shared_names
         [of loads_example db_ABC
             "[\<lparr>sr_name = ''Sales'', sr_project_count = 2, sr_projects = ''A, B''\<rparr>]"]
       reports_ABC(1)
  have 1: "sharing_rows (owning_projects loads_example blob_names (select_tables_data db_ABC))
     [\<lparr>sr_name = ''Sales'', sr_project_count = 2, sr_projects = ''A, B''\<rparr>]"
    by blast
  from shared_reports_hold_shared_names
         [of loads_example db_ABC
             "[\<lparr>sr_name = ''Sales.Amount'', sr_project_count = 2, sr_projects = ''A, B''\<rparr>]"]
       reports_ABC(3)
  have 2: "sharing_rows (owning_projects loads_example blob_column_keys (select_tables_data db_ABC))
     [\<lparr>sr_name = ''Sales.Amount'', sr_project_count = 2, sr_projects = ''A, B''\<rparr>]"
    by blast
  from o one 1 2 reports_ABC show ?thesis by blast
qed

section \<open>The marker in the output of the subprocess\<close>

lemma py_in_prefix: "prefix m s \<Longrightarrow> py_in m s"
  by (cases s) auto

lemma py_in_Cons: "py_in m s \<Longrightarrow> py_in m (c # s)"
  by simp

lemma py_in_append_left: "py_in m s \<Longrightarrow> py_in m (pre @ s)"
  by (induction pre) auto

lemma py_in_marker: "py_in m (pre @ m @ rest)"
  by (rule py_in_append_left) (simp add: py_in_prefix)

lemma py_find_first:
  "\<not> m = [] \<Longrightarrow> \<not> py_in m (pre @ butlast m) \<Longrightarrow> py_find m (pre @ m @ rest) = Some (length pre)"
proof (induction pre)
  case Nil
  then show ?case by (cases m) auto
next
  case (Cons c cs)
  from Cons.prems(2) have np: "\<not> prefix m ((c # cs) @ butlast m)" and ni: "\<not> py_in m (cs @ butlast m)"
    by auto
  have len: "length m \<le> length ((c # cs) @ butlast m)" using Cons.prems(1) by (cases m) auto
  have "\<not> prefix m ((c # cs) @ m @ rest)"
  proof
    assume "prefix m ((c # cs) @ m @ rest)"
    then have "take (length m) ((c # cs) @ m @ rest) = m" by (metis append_eq_conv_conj prefix_def)
    moreover have "take (length m) ((c # cs) @ m @ rest) = take (length m) ((c # cs) @ butlast m)"
    proof -
      have "(c # cs) @ m @ rest = ((c # cs) @ butlast m) @ (last m # rest)"
        using Cons.prems(1) by simp
      then show ?thesis using len by (metis append_Nil2 diff_is_0_eq take_0 take_append)
    qed
    ultimately have "take (length m) ((c # cs) @ butlast m) = m" by simp
    then have "prefix m ((c # cs) @ butlast m)" by (metis take_is_prefix)
    with np show False by simp
  qed
  then show ?case using Cons.IH[OF Cons.prems(1) ni] by simp
qed

lemma success_payload_after_diagnostics:
  assumes "\<not> py_in ''SUCCESS:'' (pre @ ''SUCCESS'')"
  shows "success_payload (pre @ ''SUCCESS:'' @ rest) = py_strip rest"
proof -
  have "py_find ''SUCCESS:'' (pre @ ''SUCCESS:'' @ rest) = Some (length pre)"
    using py_find_first[of "''SUCCESS:''" pre rest] assms by simp
  then show ?thesis by (simp add: success_payload_def)
qed

lemma mcp_new_row_iff:
  "(\<exists>row. mcp_new_row dumps path name env data = Inr row) \<longleftrightarrow>
   (\<exists>kvs tv mv msv rv. data = JObj kvs \<and> map_of kvs ''tables'' = Some tv \<and>
      map_of kvs ''metadata'' = Some mv \<and> map_of kvs ''measures'' = Some msv \<and>
      map_of kvs ''relationships'' = Some rv)"
  by (cases data) (auto simp add: mcp_new_row_def split: option.splits sum.splits)

lemma mcp_new_row_values:
  assumes "data = JObj kvs" "map_of kvs ''tables'' = Some tv" "map_of kvs ''metadata'' = Some mv"
    "map_of kvs ''measures'' = Some msv" "map_of kvs ''relationships'' = Some rv"
  shows "mcp_new_row dumps path name env data =
     Inr \<lparr>p_id = 0, p_name = name, p_file_path = path,
          p_file_hash = e_file_hash env, p_last_analyzed = e_now env,
          p_model_size = e_getsize env,
          p_tables_data = Some (dumps tv),
          p_metadata_data = Some (dumps mv),
          p_schema_data = Some (dumps (case map_of kvs ''schema'' of Some sv \<Rightarrow> sv | None \<Rightarrow> JArr [])),
          p_measures_data = Some (dumps msv),
          p_relationships_data = Some (dumps rv)\<rparr>"
  using assms by (simp add: mcp_new_row_def split: option.splits)

lemma mcp_existing_after_insert:
  "mcp_existing (snd (mcp_insert_or_replace row (mcp_delete_by_name (p_name row) db))) (p_name row)
     = Some (row\<lparr>p_id := next_rowid (mcp_seq db)
                     (map p_id (filter (\<lambda>x. \<not> p_name x = p_name row) (mcp_projects db)))\<rparr>)"
proof -
  have f: "find (\<lambda>r. p_name r = n) (filter (\<lambda>r. \<not> p_name r = n) xs @ [y]) =
             (if p_name y = n then Some y else None)" for n xs y
    by (induction xs) auto
  show ?thesis
    by (simp add: mcp_existing_def mcp_insert_or_replace_def mcp_delete_by_name_def Let_def f)
qed

section \<open>Analysis of a changed file: the project id\<close>

text \<open>
  The project row that a successful analysis stores, and the steps of the normalized
  analysis that follow the insertion of the project row: none of them touches the table
  \<open>projects\<close>.
\<close>

lemma mcp_new_row_name:
  "mcp_new_row dumps path name env data = Inr row \<Longrightarrow>
   p_name row = name \<and> p_file_hash row = e_file_hash env"
  by (auto simp add: mcp_new_row_def split: sum.splits)

lemma n_projects_clear: "n_projects (n_clear_project i db) = n_projects db"
  "n_projects_seq (n_clear_project i db) = n_projects_seq db"
  by (simp_all add: n_clear_project_def Let_def)

lemma n_projects_insert_column:
  "n_projects (fold (n_insert_column i) cs db) = n_projects db \<and>
   n_projects_seq (fold (n_insert_column i) cs db) = n_projects_seq db"
  by (induction cs arbitrary: db) (simp_all add: n_insert_column_def Let_def)

lemma n_projects_insert_measure:
  "n_projects (fold (n_insert_measure i tn) ms db) = n_projects db \<and>
   n_projects_seq (fold (n_insert_measure i tn) ms db) = n_projects_seq db"
  by (induction ms arbitrary: db) (simp_all add: n_insert_measure_def Let_def)

lemma n_projects_insert_table:
  "n_projects (fold (n_insert_table i) ts db) = n_projects db \<and>
   n_projects_seq (fold (n_insert_table i) ts db) = n_projects_seq db"
  by (induction ts arbitrary: db)
     (simp_all add: n_insert_table_def Let_def n_projects_insert_column n_projects_insert_measure)

lemma n_projects_insert_relationship:
  "n_projects (fold (n_insert_relationship i) rs db) = n_projects db \<and>
   n_projects_seq (fold (n_insert_relationship i) rs db) = n_projects_seq db"
  by (induction rs arbitrary: db) (simp_all add: n_insert_relationship_def Let_def)

lemma n_projects_insert_query:
  "n_projects (fold (n_insert_query i) qs db) = n_projects db \<and>
   n_projects_seq (fold (n_insert_query i) qs db) = n_projects_seq db"
  by (induction qs arbitrary: db) (simp_all add: n_insert_query_def Let_def)

lemma n_analyze_changed_store:
  assumes "\<not> (case n_existing db name of Some r \<Rightarrow> np_file_hash r = ne_file_hash env | None \<Rightarrow> False)"
    and "ne_pbixray_available env" and "ne_model env = Some m"
  shows "n_projects (snd (analyze_pbix_file db path name env)) =
           filter (\<lambda>x. \<not> np_name x = name) (n_projects db) @
             [\<lparr>np_id = next_rowid (n_projects_seq db) (map np_id (n_projects db)),
               np_name = name, np_file_path = path, np_file_hash = ne_file_hash env,
               np_last_analyzed = ne_now env, np_model_size = ne_getsize env,
               np_table_count = length (mdl_tables m),
               np_measure_count = length (concat (map tbl_measures (mdl_tables m)))\<rparr>] \<and>
         n_projects_seq (snd (analyze_pbix_file db path name env)) =
           next_rowid (n_projects_seq db) (map np_id (n_projects db))"
proof -
  have pos: "(next_rowid s ids = 0) = False" for s ids by (simp add: next_rowid_def)
  show ?thesis using assms
    by (simp add: analyze_pbix_file_def Let_def n_insert_or_replace_project_def pos
          n_projects_clear n_projects_insert_table n_projects_insert_relationship
          n_projects_insert_query split: prod.splits)
qed

lemma payload_ok: "success_payload stdout_ok = payload_blob"
  by (simp add: success_payload_def stdout_ok_def payload_blob_def py_strip_def py_isspace_def)

lemma loads_payload: "loads_example payload_blob = Some payload_json"
  by (simp add: loads_example_def payload_blob_def sales_blob_def sales_dates_blob_def
                products_blob_def revenue_blob_def)

lemma new_row_payload:
  "mcp_new_row dumps_example ''P.pbix'' ''P'' env_changed_ok payload_json =
     Inr \<lparr>p_id = 0, p_name = ''P'', p_file_path = ''P.pbix'', p_file_hash = ''h2'',
          p_last_analyzed = 20, p_model_size = 120,
          p_tables_data = Some ''[]'', p_metadata_data = Some ''{}'',
          p_schema_data = Some ''[]'', p_measures_data = Some ''[]'',
          p_relationships_data = Some ''[]''\<rparr>"
  by (simp add: mcp_new_row_def payload_json_def env_changed_ok_def dumps_example_def)

text \<open>
  Claim C10. When the name is stored with another digest, the analysis never returns
  the id the name had, and the row that was stored is no longer in the table. A
  successful analysis returns a rowid that is larger than the old id and that no row
  of the table held; the table then consists of the rows of the other names followed
  by the new row, which carries the returned id, the name and the values of this
  analysis, and which is the row found under the name; the sequence counter holds the
  returned id. In the denormalized variant the old row is deleted first and the new
  rowid comes from \<open>sqlite_sequence\<close>, so the store has to respect \<open>mcp_rowids_ok\<close>, as
  every SQLite table with \<open>AUTOINCREMENT\<close> does.
\<close>

theorem reanalyze_changed_file_gives_new_id:
  "(mcp_rowids_ok db \<and> mcp_existing db name = Some r \<and> \<not> p_file_hash r = e_file_hash env \<longrightarrow>
      \<not> fst (analyze_pbix_file_with_mcp loads dumps db path name env) = Some (p_id r) \<and>
      r \<notin> set (mcp_projects (snd (analyze_pbix_file_with_mcp loads dumps db path name env))) \<and>
      (e_run env = Completed 0 out err \<and> py_in ''SUCCESS:'' out \<and>
       loads (success_payload out) = Some data \<and>
       mcp_new_row dumps path name env data = Inr row \<longrightarrow>
         (\<exists>i. fst (analyze_pbix_file_with_mcp loads dumps db path name env) = Some i \<and>
              p_id r < i \<and> i \<notin> set (map p_id (mcp_projects db)) \<and>
              mcp_projects (snd (analyze_pbix_file_with_mcp loads dumps db path name env)) =
                filter (\<lambda>x. \<not> p_name x = name) (mcp_projects db) @ [row\<lparr>p_id := i\<rparr>] \<and>
              mcp_seq (snd (analyze_pbix_file_with_mcp loads dumps db path name env)) = i \<and>
              mcp_existing (snd (analyze_pbix_file_with_mcp loads dumps db path name env)) name =
                Some (row\<lparr>p_id := i\<rparr>) \<and>
              p_name row = name \<and> p_file_hash row = e_file_hash env))) \<and>
   (n_existing ndb name = Some nr \<and> \<not> np_file_hash nr = ne_file_hash nenv \<longrightarrow>
      \<not> fst (analyze_pbix_file ndb path name nenv) = Some (np_id nr) \<and>
      (ne_pbixray_available nenv \<and> ne_model nenv = Some m \<longrightarrow>
         (\<exists>i. fst (analyze_pbix_file ndb path name nenv) = Some i \<and>
              np_id nr < i \<and> i \<notin> set (map np_id (n_projects ndb)) \<and>
              n_projects (snd (analyze_pbix_file ndb path name nenv)) =
                filter (\<lambda>x. \<not> np_name x = name) (n_projects ndb) @
                  [\<lparr>np_id = i, np_name = name, np_file_path = path,
                    np_file_hash = ne_file_hash nenv, np_last_analyzed = ne_now nenv,
                    np_model_size = ne_getsize nenv,
                    np_table_count = length (mdl_tables m),
                    np_measure_count = length (concat (map tbl_measures (mdl_tables m)))\<rparr>] \<and>
              n_projects_seq (snd (analyze_pbix_file ndb path name nenv)) = i \<and>
              n_existing (snd (analyze_pbix_file ndb path name nenv)) name =
                Some \<lparr>np_id = i, np_name = name, np_file_path = path,
                      np_file_hash = ne_file_hash nenv, np_last_analyzed = ne_now nenv,
                      np_model_size = ne_getsize nenv,
                      np_table_count = length (mdl_tables m),
                      np_measure_count = length (concat (map tbl_measures (mdl_tables m)))\<rparr> \<and>
              nr \<notin> set (n_projects (snd (analyze_pbix_file ndb path name nenv))))))"
proof (intro conjI impI)
  assume a: "mcp_rowids_ok db \<and> mcp_existing db name = Some r \<and> \<not> p_file_hash r = e_file_hash env"
  then have pre: "\<not> (case mcp_existing db name of Some r \<Rightarrow> p_file_hash r = e_file_hash env
                       | None \<Rightarrow> False)"
    by simp
  let ?A = "analyze_pbix_file_with_mcp loads dumps db path name env"
  let ?kept = "filter (\<lambda>x. \<not> p_name x = name) (mcp_projects db)"
  let ?new = "next_rowid (mcp_seq db) (map p_id ?kept)"
  from a have mem: "r \<in> set (mcp_projects db)" and rn: "p_name r = name"
    using mcp_existing_SomeD by blast+
  have all: "j \<in> set (map p_id (mcp_projects db)) \<Longrightarrow> j < ?new" for j
  proof -
    assume "j \<in> set (map p_id (mcp_projects db))"
    then obtain x where "x \<in> set (mcp_projects db)" "j = p_id x" by auto
    then have "j \<le> mcp_seq db" using a mcp_rowids_okD by blast
    then show "j < ?new" using next_rowid_gt_seq[of "mcp_seq db"] by (meson le_less_trans)
  qed
  have lt: "p_id r < ?new" using all[of "p_id r"] mem by simp
  show "\<not> fst ?A = Some (p_id r)"
    using mcp_analyze_cases[OF pre, of loads dumps path] lt by auto
  have nk: "r \<notin> set ?kept" using rn by simp
  have ins: "mcp_projects (snd (mcp_insert_or_replace row' (mcp_delete_by_name name db))) =
               ?kept @ [row'\<lparr>p_id := ?new\<rparr>] \<and>
             mcp_seq (snd (mcp_insert_or_replace row' (mcp_delete_by_name name db))) = ?new"
    if "p_name row' = name" for row'
  proof -
    have "filter (\<lambda>x. \<not> p_name x = name) ?kept = ?kept" by simp
    then show ?thesis using that
      by (simp add: mcp_insert_or_replace_def mcp_delete_by_name_def Let_def)
  qed
  show "r \<notin> set (mcp_projects (snd ?A))"
  proof (cases "e_run env = RunRaised \<or>
         (\<exists>rc out err. e_run env = Completed rc out err \<and>
            (rc \<noteq> 0 \<or> \<not> py_in ''SUCCESS:'' out \<or> loads (success_payload out) = None \<or>
             (\<exists>data e. loads (success_payload out) = Some data \<and>
                       mcp_new_row dumps path name env data = Inl e)))")
    case True
    from mcp_analyze_failure[OF pre True] have "snd ?A = mcp_delete_by_name name db" by simp
    then show ?thesis using nk by (simp add: mcp_delete_by_name_def)
  next
    case nf: False
    then obtain out' err' where r': "e_run env = Completed 0 out' err'"
      by (cases "e_run env") auto
    from nf r' have m': "py_in ''SUCCESS:'' out'" by auto
    from nf r' obtain data' where d': "loads (success_payload out') = Some data'" by auto
    from nf r' d' obtain row' where n': "mcp_new_row dumps path name env data' = Inr row'"
      by (cases "mcp_new_row dumps path name env data'") auto
    from mcp_analyze_success[where loads = loads, OF pre r' m' d' n']
    have s: "snd ?A = snd (mcp_insert_or_replace row' (mcp_delete_by_name name db))" by simp
    have "p_name row' = name" using mcp_new_row_name[OF n'] by simp
    from ins[OF this] s have "mcp_projects (snd ?A) = ?kept @ [row'\<lparr>p_id := ?new\<rparr>]" by simp
    moreover have "\<not> r = row'\<lparr>p_id := ?new\<rparr>" using lt by auto
    ultimately show ?thesis using nk by simp
  qed
  {
    assume s: "e_run env = Completed 0 out err \<and> py_in ''SUCCESS:'' out \<and>
       loads (success_payload out) = Some data \<and> mcp_new_row dumps path name env data = Inr row"
    have A: "?A = (Some ?new, snd (mcp_insert_or_replace row (mcp_delete_by_name name db)))"
      using mcp_analyze_success[OF pre, of out err loads data dumps path row] s by simp
    have nm: "p_name row = name \<and> p_file_hash row = e_file_hash env"
      using mcp_new_row_name[of dumps path name env data row] s by simp
    have ex: "mcp_existing (snd ?A) name = Some (row\<lparr>p_id := ?new\<rparr>)"
      using mcp_existing_after_insert[of row db] nm A by simp
    have "?new \<notin> set (map p_id (mcp_projects db))" using all by blast
    then show "\<exists>i. fst ?A = Some i \<and> p_id r < i \<and> i \<notin> set (map p_id (mcp_projects db)) \<and>
              mcp_projects (snd ?A) = ?kept @ [row\<lparr>p_id := i\<rparr>] \<and>
              mcp_seq (snd ?A) = i \<and>
              mcp_existing (snd ?A) name = Some (row\<lparr>p_id := i\<rparr>) \<and>
              p_name row = name \<and> p_file_hash row = e_file_hash env"
      using lt A ins[of row] nm ex by simp
  }
next
  assume a: "n_existing ndb name = Some nr \<and> \<not> np_file_hash nr = ne_file_hash nenv"
  then have pre: "\<not> (case n_existing ndb name of Some r \<Rightarrow> np_file_hash r = ne_file_hash nenv
                       | None \<Rightarrow> False)"
    by simp
  let ?B = "analyze_pbix_file ndb path name nenv"
  let ?new = "next_rowid (n_projects_seq ndb) (map np_id (n_projects ndb))"
  from a have mem: "nr \<in> set (n_projects ndb)" and rn: "np_name nr = name"
    using n_existing_SomeD by blast+
  have all: "j \<in> set (map np_id (n_projects ndb)) \<Longrightarrow> j < ?new" for j
    by (rule next_rowid_gt_member)
  have lt: "np_id nr < ?new" using all[of "np_id nr"] mem by simp
  have pos: "(next_rowid s ids = 0) = False" for s ids by (simp add: next_rowid_def)
  have "fst ?B = None \<or> fst ?B = Some ?new"
    using pre
    by (simp add: analyze_pbix_file_def Let_def n_insert_or_replace_project_def pos
             split: prod.splits option.splits)
  then show "\<not> fst ?B = Some (np_id nr)"
    using lt by auto
  {
    assume s: "ne_pbixray_available nenv \<and> ne_model nenv = Some m"
    let ?row = "\<lparr>np_id = ?new, np_name = name, np_file_path = path,
                 np_file_hash = ne_file_hash nenv, np_last_analyzed = ne_now nenv,
                 np_model_size = ne_getsize nenv,
                 np_table_count = length (mdl_tables m),
                 np_measure_count = length (concat (map tbl_measures (mdl_tables m)))\<rparr>"
    have f: "fst ?B = Some ?new"
      using n_analyze_changed[OF pre, of m path] s by simp
    have st: "n_projects (snd ?B) = filter (\<lambda>x. \<not> np_name x = name) (n_projects ndb) @ [?row] \<and>
              n_projects_seq (snd ?B) = ?new"
      using n_analyze_changed_store[OF pre, of m path] s by simp
    have fnd: "find (\<lambda>r. np_name r = n) (filter (\<lambda>r. \<not> np_name r = n) xs @ [y]) =
                 (if np_name y = n then Some y else None)" for n xs y
      by (induction xs) auto
    have ex: "n_existing (snd ?B) name = Some ?row"
      using st by (simp add: n_existing_def fnd)
    have "\<not> nr = ?row"
    proof
      assume "nr = ?row"
      then have "np_id nr = np_id ?row" by (rule arg_cong)
      then show False using lt by simp
    qed
    moreover have "nr \<notin> set (filter (\<lambda>x. \<not> np_name x = name) (n_projects ndb))"
      using rn by simp
    ultimately have gone: "nr \<notin> set (n_projects (snd ?B))"
      using st by simp
    have "?new \<notin> set (map np_id (n_projects ndb))" using all by blast
    then show "\<exists>i. fst ?B = Some i \<and> np_id nr < i \<and> i \<notin> set (map np_id (n_projects ndb)) \<and>
              n_projects (snd ?B) = filter (\<lambda>x. \<not> np_name x = name) (n_projects ndb) @
                  [\<lparr>np_id = i, np_name = name, np_file_path = path,
                    np_file_hash = ne_file_hash nenv, np_last_analyzed = ne_now nenv,
                    np_model_size = ne_getsize nenv,
                    np_table_count = length (mdl_tables m),
                    np_measure_count = length (concat (map tbl_measures (mdl_tables m)))\<rparr>] \<and>
              n_projects_seq (snd ?B) = i \<and>
              n_existing (snd ?B) name =
                Some \<lparr>np_id = i, np_name = name, np_file_path = path,
                      np_file_hash = ne_file_hash nenv, np_last_analyzed = ne_now nenv,
                      np_model_size = ne_getsize nenv,
                      np_table_count = length (mdl_tables m),
                      np_measure_count = length (concat (map tbl_measures (mdl_tables m)))\<rparr> \<and>
              nr \<notin> set (n_projects (snd ?B))"
      using lt f st ex gone by simp
  }
qed


theorem reanalyze_changed_file_gives_new_id_witness:
  "mcp_rowids_ok db_P \<and> mcp_existing db_P ''P'' = Some row_P \<and>
   \<not> p_file_hash row_P = e_file_hash env_changed_ok \<and>
   e_run env_changed_ok = Completed 0 stdout_ok [] \<and> py_in ''SUCCESS:'' stdout_ok \<and>
   loads_example (success_payload stdout_ok) = Some payload_json \<and>
   p_id row_P = 1 \<and>
   fst (analyze_pbix_file_with_mcp loads_example dumps_example db_P ''P.pbix'' ''P'' env_changed_ok)
     = Some 2 \<and>
   mcp_projects (snd (analyze_pbix_file_with_mcp loads_example dumps_example db_P ''P.pbix'' ''P''
                        env_changed_ok)) =
     [\<lparr>p_id = 2, p_name = ''P'', p_file_path = ''P.pbix'', p_file_hash = ''h2'',
       p_last_analyzed = 20, p_model_size = 120,
       p_tables_data = Some ''[]'', p_metadata_data = Some ''{}'',
       p_schema_data = Some ''[]'', p_measures_data = Some ''[]'',
       p_relationships_data = Some ''[]''\<rparr>] \<and>
   mcp_seq (snd (analyze_pbix_file_with_mcp loads_example dumps_example db_P ''P.pbix'' ''P''
                   env_changed_ok)) = 2 \<and>
   n_existing ndb_P ''P'' = Some nrow_P \<and> \<not> np_file_hash nrow_P = ne_file_hash nenv_changed \<and>
   ne_pbixray_available nenv_changed \<and> ne_model nenv_changed = Some model_Orders \<and>
   np_id nrow_P = 1 \<and>
   fst (analyze_pbix_file ndb_P ''P.pbix'' ''P'' nenv_changed) = Some 2 \<and>
   n_projects (snd (analyze_pbix_file ndb_P ''P.pbix'' ''P'' nenv_changed)) =
     [\<lparr>np_id = 2, np_name = ''P'', np_file_path = ''P.pbix'', np_file_hash = ''h2'',
       np_last_analyzed = 20, np_model_size = 120, np_table_count = 1,
       np_measure_count = 0\<rparr>] \<and>
   n_projects_seq (snd (analyze_pbix_file ndb_P ''P.pbix'' ''P'' nenv_changed)) = 2"
proof -
  let ?A = "analyze_pbix_file_with_mcp loads_example dumps_example db_P ''P.pbix'' ''P'' env_changed_ok"
  let ?B = "analyze_pbix_file ndb_P ''P.pbix'' ''P'' nenv_changed"
  let ?row = "\<lparr>p_id = 0, p_name = ''P'', p_file_path = ''P.pbix'', p_file_hash = ''h2'',
          p_last_analyzed = 20, p_model_size = 120,
          p_tables_data = Some ''[]'', p_metadata_data = Some ''{}'',
          p_schema_data = Some ''[]'', p_measures_data = Some ''[]'',
          p_relationships_data = Some ''[]''\<rparr>"
  have a: "mcp_rowids_ok db_P \<and> mcp_existing db_P ''P'' = Some row_P \<and>
           \<not> p_file_hash row_P = e_file_hash env_changed_ok"
    by (simp add: mcp_rowids_ok_def mcp_existing_def db_P_def row_P_def env_changed_ok_def)
  have b: "e_run env_changed_ok = Completed 0 stdout_ok [] \<and> py_in ''SUCCESS:'' stdout_ok"
    by (simp add: env_changed_ok_def stdout_ok_def)
  have c: "loads_example (success_payload stdout_ok) = Some payload_json"
    by (simp add: payload_ok loads_payload)
  have d: "n_existing ndb_P ''P'' = Some nrow_P \<and> \<not> np_file_hash nrow_P = ne_file_hash nenv_changed \<and>
           ne_pbixray_available nenv_changed \<and> ne_model nenv_changed = Some model_Orders"
    by (simp add: n_existing_def ndb_P_def nrow_P_def nenv_changed_def)
  have i: "p_id row_P = 1" "np_id nrow_P = 1" by (simp_all add: row_P_def nrow_P_def)
  have v1: "fst ?A = Some 2"
    using a b c new_row_payload
    by (simp add: analyze_pbix_file_with_mcp_def Let_def mcp_insert_or_replace_def
          mcp_delete_by_name_def next_rowid_def db_P_def row_P_def split: prod.splits)
  have v2: "fst ?B = Some 2"
    using d
    by (simp add: analyze_pbix_file_def Let_def n_insert_or_replace_project_def next_rowid_def
           ndb_P_def nrow_P_def split: prod.splits)
  have k1: "filter (\<lambda>x. \<not> p_name x = ''P'') (mcp_projects db_P) = []"
    by (simp add: db_P_def row_P_def)
  have k2: "filter (\<lambda>x. \<not> np_name x = ''P'') (n_projects ndb_P) = []"
    by (simp add: ndb_P_def nrow_P_def)
  have e: "ne_file_hash nenv_changed = ''h2''" "ne_now nenv_changed = 20"
          "ne_getsize nenv_changed = 120" "length (mdl_tables model_Orders) = 1"
          "length (concat (map tbl_measures (mdl_tables model_Orders))) = 0"
    by (simp_all add: nenv_changed_def model_Orders_def)
  from reanalyze_changed_file_gives_new_id
         [of db_P "''P''" row_P env_changed_ok loads_example dumps_example "''P.pbix''"
             stdout_ok "[]" payload_json ?row ndb_P nrow_P nenv_changed model_Orders]
       a b c d new_row_payload
  have t: "(\<exists>i. fst ?A = Some i \<and>
               mcp_projects (snd ?A) =
                 filter (\<lambda>x. \<not> p_name x = ''P'') (mcp_projects db_P) @ [?row\<lparr>p_id := i\<rparr>] \<and>
               mcp_seq (snd ?A) = i) \<and>
           (\<exists>i. fst ?B = Some i \<and>
               n_projects (snd ?B) =
                 filter (\<lambda>x. \<not> np_name x = ''P'') (n_projects ndb_P) @
                  [\<lparr>np_id = i, np_name = ''P'', np_file_path = ''P.pbix'',
                    np_file_hash = ne_file_hash nenv_changed, np_last_analyzed = ne_now nenv_changed,
                    np_model_size = ne_getsize nenv_changed,
                    np_table_count = length (mdl_tables model_Orders),
                    np_measure_count = length (concat (map tbl_measures (mdl_tables model_Orders)))\<rparr>] \<and>
               n_projects_seq (snd ?B) = i)"
    by blast
  from t v1 v2 k1 k2 e have s:
    "mcp_projects (snd ?A) = [?row\<lparr>p_id := 2\<rparr>] \<and> mcp_seq (snd ?A) = 2 \<and>
     n_projects (snd ?B) =
       [\<lparr>np_id = 2, np_name = ''P'', np_file_path = ''P.pbix'', np_file_hash = ''h2'',
         np_last_analyzed = 20, np_model_size = 120, np_table_count = 1,
         np_measure_count = 0\<rparr>] \<and>
     n_projects_seq (snd ?B) = 2"
    by auto
  from a b c d i v1 v2 s show ?thesis by simp
qed

section \<open>What the analysis takes for a successful run\<close>

text \<open>
  Line 261 asks for the exit code 0 besides the marker, and line 281 reads \<open>schema\<close>
  with a default: a run that prints the marker and the full payload and ends with exit
  code 1 returns \<open>None\<close>, and a run with exit code 0 whose payload has no key \<open>schema\<close>
  returns a project id.
\<close>

lemma exit_code_and_schema_default:
  "py_in ''SUCCESS:'' stdout_ok \<and>
   loads_example (success_payload stdout_ok) = Some payload_json \<and>
   e_run env_exit_1 = Completed 1 stdout_ok [] \<and>
   fst (analyze_pbix_file_with_mcp loads_example dumps_example db_empty ''P.pbix'' ''P'' env_exit_1)
     = None \<and>
   e_run env_no_schema = Completed 0 stdout_no_schema [] \<and>
   loads_example (success_payload stdout_no_schema) = Some payload_no_schema_json \<and>
   py_getitem payload_no_schema_json ''schema'' = Inl KeyError \<and>
   fst (analyze_pbix_file_with_mcp loads_example dumps_example db_empty ''P.pbix'' ''P''
          env_no_schema) = Some 1"
  by code_simp

text \<open>
  When no row with the file's digest is stored under the name, the analysis returns a
  project id exactly when the subprocess ended with exit code 0, its standard output
  holds \<open>SUCCESS:\<close>, and \<open>success_payload\<close> of the output decodes to an object with the
  keys \<open>tables\<close>, \<open>metadata\<close>, \<open>measures\<close> and \<open>relationships\<close>; the row stored then
  holds the serialized values of these keys and of \<open>schema\<close>, or of the empty list
  without that key. When \<open>SUCCESS:\<close> does not occur in front of the marker,
  \<open>success_payload\<close> is the stripped text behind the marker.
\<close>

lemma analysis_succeeds_iff:
  "(\<not> (case mcp_existing db name of Some r \<Rightarrow> p_file_hash r = e_file_hash env | None \<Rightarrow> False) \<longrightarrow>
      ((\<exists>i. fst (analyze_pbix_file_with_mcp loads dumps db path name env) = Some i) =
       (\<exists>out err kvs tv mv msv rv.
          e_run env = Completed 0 out err \<and> py_in ''SUCCESS:'' out \<and>
          loads (success_payload out) = Some (JObj kvs) \<and>
          map_of kvs ''tables'' = Some tv \<and> map_of kvs ''metadata'' = Some mv \<and>
          map_of kvs ''measures'' = Some msv \<and> map_of kvs ''relationships'' = Some rv)) \<and>
      (e_run env = Completed 0 out err \<and> py_in ''SUCCESS:'' out \<and>
       loads (success_payload out) = Some (JObj kvs) \<and>
       map_of kvs ''tables'' = Some tv \<and> map_of kvs ''metadata'' = Some mv \<and>
       map_of kvs ''measures'' = Some msv \<and> map_of kvs ''relationships'' = Some rv \<longrightarrow>
         (\<exists>row. mcp_existing (snd (analyze_pbix_file_with_mcp loads dumps db path name env)) name
                  = Some row \<and>
                p_file_hash row = e_file_hash env \<and>
                p_tables_data row = Some (dumps tv) \<and>
                p_metadata_data row = Some (dumps mv) \<and>
                p_schema_data row =
                  Some (dumps (case map_of kvs ''schema'' of Some sv \<Rightarrow> sv | None \<Rightarrow> JArr [])) \<and>
                p_measures_data row = Some (dumps msv) \<and>
                p_relationships_data row = Some (dumps rv)))) \<and>
   (\<not> py_in ''SUCCESS:'' (pre @ ''SUCCESS'') \<longrightarrow>
      py_in ''SUCCESS:'' (pre @ ''SUCCESS:'' @ rest) \<and>
      success_payload (pre @ ''SUCCESS:'' @ rest) = py_strip rest)"
proof (intro conjI impI)
  assume pre: "\<not> (case mcp_existing db name of Some r \<Rightarrow> p_file_hash r = e_file_hash env
                    | None \<Rightarrow> False)"
  show "(\<exists>i. fst (analyze_pbix_file_with_mcp loads dumps db path name env) = Some i) =
       (\<exists>out err kvs tv mv msv rv.
          e_run env = Completed 0 out err \<and> py_in ''SUCCESS:'' out \<and>
          loads (success_payload out) = Some (JObj kvs) \<and>
          map_of kvs ''tables'' = Some tv \<and> map_of kvs ''metadata'' = Some mv \<and>
          map_of kvs ''measures'' = Some msv \<and> map_of kvs ''relationships'' = Some rv)"
    (is "?L = ?R")
  proof
    assume l: ?L
    have nf: "\<not> (e_run env = RunRaised \<or>
         (\<exists>rc out err. e_run env = Completed rc out err \<and>
            (rc \<noteq> 0 \<or> \<not> py_in ''SUCCESS:'' out \<or> loads (success_payload out) = None \<or>
             (\<exists>data e. loads (success_payload out) = Some data \<and>
                       mcp_new_row dumps path name env data = Inl e))))"
    proof
      assume "e_run env = RunRaised \<or>
         (\<exists>rc out err. e_run env = Completed rc out err \<and>
            (rc \<noteq> 0 \<or> \<not> py_in ''SUCCESS:'' out \<or> loads (success_payload out) = None \<or>
             (\<exists>data e. loads (success_payload out) = Some data \<and>
                       mcp_new_row dumps path name env data = Inl e)))"
      from mcp_analyze_failure[OF pre this] l show False by simp
    qed
    then obtain out err where r: "e_run env = Completed 0 out err"
      by (cases "e_run env") auto
    from nf r have m: "py_in ''SUCCESS:'' out" by auto
    from nf r obtain data where d: "loads (success_payload out) = Some data" by auto
    from nf r d obtain row where "mcp_new_row dumps path name env data = Inr row"
      by (cases "mcp_new_row dumps path name env data") auto
    then obtain kvs tv mv msv rv where "data = JObj kvs" "map_of kvs ''tables'' = Some tv"
      "map_of kvs ''metadata'' = Some mv" "map_of kvs ''measures'' = Some msv"
      "map_of kvs ''relationships'' = Some rv"
      using mcp_new_row_iff[of dumps path name env data] by blast
    with r m d show ?R by blast
  next
    assume ?R
    then obtain out err kvs tv mv msv rv where r: "e_run env = Completed 0 out err"
      and m: "py_in ''SUCCESS:'' out" and d: "loads (success_payload out) = Some (JObj kvs)"
      and k: "map_of kvs ''tables'' = Some tv" "map_of kvs ''metadata'' = Some mv"
             "map_of kvs ''measures'' = Some msv" "map_of kvs ''relationships'' = Some rv"
      by blast
    from mcp_analyze_success[where loads = loads, OF pre r m d
           mcp_new_row_values[where dumps = dumps and path = path and name = name and env = env,
                              OF refl k]]
    show ?L by simp
  qed
  {
    assume h: "e_run env = Completed 0 out err \<and> py_in ''SUCCESS:'' out \<and>
       loads (success_payload out) = Some (JObj kvs) \<and>
       map_of kvs ''tables'' = Some tv \<and> map_of kvs ''metadata'' = Some mv \<and>
       map_of kvs ''measures'' = Some msv \<and> map_of kvs ''relationships'' = Some rv"
    define row where "row =
        \<lparr>p_id = 0, p_name = name, p_file_path = path,
          p_file_hash = e_file_hash env, p_last_analyzed = e_now env,
          p_model_size = e_getsize env,
          p_tables_data = Some (dumps tv),
          p_metadata_data = Some (dumps mv),
          p_schema_data = Some (dumps (case map_of kvs ''schema'' of Some sv \<Rightarrow> sv | None \<Rightarrow> JArr [])),
          p_measures_data = Some (dumps msv),
          p_relationships_data = Some (dumps rv)\<rparr>"
    have nr: "mcp_new_row dumps path name env (JObj kvs) = Inr row"
      unfolding row_def using h by (intro mcp_new_row_values) simp_all
    have n: "p_name row = name" by (simp add: row_def)
    have "snd (analyze_pbix_file_with_mcp loads dumps db path name env) =
            snd (mcp_insert_or_replace row (mcp_delete_by_name name db))"
      using mcp_analyze_success[where loads = loads and out = out and err = err, OF pre _ _ _ nr] h
      by simp
    then have "mcp_existing (snd (analyze_pbix_file_with_mcp loads dumps db path name env)) name
          = Some (row\<lparr>p_id := next_rowid (mcp_seq db)
                     (map p_id (filter (\<lambda>x. \<not> p_name x = name) (mcp_projects db)))\<rparr>)"
      using mcp_existing_after_insert[of row db] n by simp
    then show "\<exists>row. mcp_existing (snd (analyze_pbix_file_with_mcp loads dumps db path name env)) name
                  = Some row \<and>
                p_file_hash row = e_file_hash env \<and>
                p_tables_data row = Some (dumps tv) \<and>
                p_metadata_data row = Some (dumps mv) \<and>
                p_schema_data row =
                  Some (dumps (case map_of kvs ''schema'' of Some sv \<Rightarrow> sv | None \<Rightarrow> JArr [])) \<and>
                p_measures_data row = Some (dumps msv) \<and>
                p_relationships_data row = Some (dumps rv)"
      by (simp add: row_def)
  }
next
  assume "\<not> py_in ''SUCCESS:'' (pre @ ''SUCCESS'')"
  then show "success_payload (pre @ ''SUCCESS:'' @ rest) = py_strip rest"
    by (rule success_payload_after_diagnostics)
next
  show "py_in ''SUCCESS:'' (pre @ ''SUCCESS:'' @ rest)" by (rule py_in_marker)
qed

text \<open>
  Claim C7. The parser is to ignore the diagnostic lines printed before the marker and
  to take the object after the marker as the payload. Line 263 looks for the marker
  with \<open>find\<close>, which gives the first place where the text \<open>SUCCESS:\<close> occurs, also
  inside a diagnostic line. The run \<open>env_marker_table\<close> ends with exit code 0 and prints
  the marker followed by an object with the five keys, which \<open>json.loads\<close> decodes; the
  line \<open>TABLE_0: SUCCESS:x\<close> in front of it holds the text of the marker, the code
  reads the payload from there, decoding fails, and the analysis returns \<open>None\<close> and
  stores nothing. The run \<open>env_changed_ok\<close>, whose diagnostic line does not hold that
  text, is a success on the same store.
\<close>

theorem diagnostic_line_with_marker_text_is_read_as_payload:
  "e_run env_marker_table = Completed 0 stdout_marker_table [] \<and>
   stdout_marker_table =
     ''TABLES_LIST_LENGTH: 1\<newline>TABLE_0: SUCCESS:x\<newline>'' @ ''SUCCESS:'' @ marker_table_blob @ ''\<newline>'' \<and>
   loads_marker_table marker_table_blob = Some marker_table_json \<and>
   map (\<lambda>k. py_getitem marker_table_json k = Inl KeyError)
       [''tables'', ''metadata'', ''schema'', ''measures'', ''relationships'']
     = [False, False, False, False, False] \<and>
   success_payload stdout_marker_table = ''x\<newline>SUCCESS:'' @ marker_table_blob \<and>
   loads_marker_table (success_payload stdout_marker_table) = None \<and>
   analyze_pbix_file_with_mcp loads_marker_table dumps_example db_empty ''P.pbix'' ''P''
       env_marker_table = (None, db_empty) \<and>
   e_run env_changed_ok = Completed 0 stdout_ok [] \<and>
   stdout_ok = ''TABLES_LIST_LENGTH: 0\<newline>'' @ ''SUCCESS:'' @ payload_blob @ ''\<newline>'' \<and>
   fst (analyze_pbix_file_with_mcp loads_example dumps_example db_empty ''P.pbix'' ''P''
          env_changed_ok) = Some 1"
  by code_simp

section \<open>Impact search: what is matched\<close>

text \<open>
  \<open>in\<close> on strings is containment as a contiguous block, and each loop of the search
  appends exactly the matches of its entries, in their order, when it ends without an
  exception.
\<close>

lemma py_in_sublist: "py_in a b = sublist a b"
  by (induction b) (simp_all add: sublist_Cons_right)

lemma entry_name_item: "str_item x ''name'' = Inr s \<Longrightarrow> entry_name x = s"
  by (simp add: entry_name_def)

lemma check_columns_hits:
  "check_columns (py_lower t) p tn cs res = Inr res' \<Longrightarrow>
     projects_using_column res' =
       projects_using_column res @
         map (\<lambda>c. (p, tn, entry_name c)) (filter (\<lambda>c. ci_contains t (entry_name c)) cs) \<and>
     projects_using_table res' = projects_using_table res \<and>
     projects_with_measure res' = projects_with_measure res \<and>
     measures_referencing_item res' = measures_referencing_item res"
proof (induction cs arbitrary: res)
  case Nil
  then show ?case by simp
next
  case (Cons c cs)
  from Cons.prems obtain n where n: "str_item c ''name'' = Inr n"
    by (cases "str_item c ''name''") auto
  have e: "entry_name c = n" using n by (rule entry_name_item)
  show ?case
  proof (cases "ci_contains t n")
    case True
    then have "check_columns (py_lower t) p tn cs
                 (res\<lparr>projects_using_column := projects_using_column res @ [(p, tn, n)]\<rparr>) = Inr res'"
      using Cons.prems n by (simp add: ci_contains_def py_in_sublist)
    from Cons.IH[OF this] True e show ?thesis by simp
  next
    case False
    then have "check_columns (py_lower t) p tn cs res = Inr res'"
      using Cons.prems n by (simp add: ci_contains_def py_in_sublist)
    from Cons.IH[OF this] False e show ?thesis by simp
  qed
qed

lemma check_tables_hits:
  "check_tables (py_lower t) p ts res = Inr res' \<Longrightarrow>
     projects_using_table res' = projects_using_table res @ table_hits t p ts \<and>
     projects_using_column res' = projects_using_column res @ column_hits t p ts \<and>
     projects_with_measure res' = projects_with_measure res \<and>
     measures_referencing_item res' = measures_referencing_item res"
proof (induction ts arbitrary: res)
  case Nil
  then show ?case by (simp add: table_hits_def column_hits_def)
next
  case (Cons x ts)
  from Cons.prems obtain n where n: "str_item x ''name'' = Inr n"
    by (cases "str_item x ''name''") auto
  from Cons.prems n obtain cv where cv: "py_get x ''columns'' (JArr []) = Inr cv"
    by (cases "py_get x ''columns'' (JArr [])") auto
  from Cons.prems n cv obtain cs where cs: "py_iter cv = Inr cs"
    by (cases "py_iter cv") auto
  have e: "entry_name x = n" using n by (rule entry_name_item)
  have ec: "entry_columns x = cs" using cv cs by (simp add: entry_columns_def)
  define res1 where "res1 =
     (if ci_contains t n
      then res\<lparr>projects_using_table := projects_using_table res @ [(p, n)]\<rparr> else res)"
  from Cons.prems n cv cs obtain res2 where
    c: "check_columns (py_lower t) p n cs res1 = Inr res2" and
    r: "check_tables (py_lower t) p ts res2 = Inr res'"
    unfolding res1_def
    by (cases "check_columns (py_lower t) p n cs
                 (if py_in (py_lower t) (py_lower n)
                  then res\<lparr>projects_using_table := projects_using_table res @ [(p, n)]\<rparr>
                  else res)")
       (auto simp add: ci_contains_def py_in_sublist)
  note a = check_columns_hits[OF c]
  note b = Cons.IH[OF r]
  have t1: "projects_using_table res1 =
              projects_using_table res @ (if ci_contains t n then [(p, n)] else [])"
    and t2: "projects_using_column res1 = projects_using_column res"
    and t3: "projects_with_measure res1 = projects_with_measure res"
    and t4: "measures_referencing_item res1 = measures_referencing_item res"
    by (simp_all add: res1_def)
  show ?case using a b t1 t2 t3 t4 e ec
    by (simp add: table_hits_def column_hits_def)
qed

lemma check_measures_hits:
  "check_measures (py_lower t) p ms res = Inr res' \<Longrightarrow>
     projects_with_measure res' = projects_with_measure res @ measure_hits t p ms \<and>
     measures_referencing_item res' = measures_referencing_item res @ expression_hits t p ms \<and>
     projects_using_table res' = projects_using_table res \<and>
     projects_using_column res' = projects_using_column res"
proof (induction ms arbitrary: res)
  case Nil
  then show ?case by (simp add: measure_hits_def expression_hits_def)
next
  case (Cons x ms)
  from Cons.prems obtain n where n: "str_item x ''name'' = Inr n"
    by (cases "str_item x ''name''") auto
  from Cons.prems n obtain tv where tv: "py_get x ''table_name'' (JStr ''Unknown'') = Inr tv"
    by (cases "py_get x ''table_name'' (JStr ''Unknown'')") auto
  from Cons.prems n tv obtain ev where ev: "py_get x ''expression'' (JStr []) = Inr ev"
    by (cases "py_get x ''expression'' (JStr [])") auto
  from Cons.prems n tv ev obtain el where el: "py_lower_of ev = Inr el"
    by (cases "py_lower_of ev") auto
  then obtain s where s: "ev = JStr s" and els: "el = py_lower s"
    by (cases ev) auto
  have e: "entry_name x = n" using n by (rule entry_name_item)
  have et: "entry_table x = tv" using tv by (simp add: entry_table_def)
  have ee: "entry_expression x = ev" using ev by (simp add: entry_expression_def)
  have ex: "expression_text x = s" using ee s by (simp add: expression_text_def)
  define res1 where "res1 =
     (if ci_contains t n
      then res\<lparr>projects_with_measure := projects_with_measure res @ [(p, tv, n, ev)]\<rparr> else res)"
  define res2 where "res2 =
     (if ci_contains t s
      then res1\<lparr>measures_referencing_item := measures_referencing_item res1 @ [(p, n, ev)]\<rparr>
      else res1)"
  have r: "check_measures (py_lower t) p ms res2 = Inr res'"
    using Cons.prems n tv ev el els
    by (auto simp add: res2_def res1_def Let_def ci_contains_def py_in_sublist split: if_splits)
  note b = Cons.IH[OF r]
  have t1: "projects_with_measure res2 =
              projects_with_measure res @ (if ci_contains t n then [(p, tv, n, ev)] else [])"
    and t2: "measures_referencing_item res2 =
              measures_referencing_item res @ (if ci_contains t s then [(p, n, ev)] else [])"
    and t3: "projects_using_table res2 = projects_using_table res"
    and t4: "projects_using_column res2 = projects_using_column res"
    by (simp_all add: res2_def res1_def)
  show ?case using b t1 t2 t3 t4 e et ee ex
    by (simp add: measure_hits_def expression_hits_def)
qed

lemma measures_part_hits:
  assumes a: "measures_part loads (py_lower t) ty p mb res = Inr res'"
  shows
    "projects_with_measure res' =
       projects_with_measure res @
         measure_hits t p (if in_scope mb ty ''all'' ''measure''
                           then blob_entries loads (the mb) else []) \<and>
     measures_referencing_item res' =
       measures_referencing_item res @
         expression_hits t p (if in_scope mb ty ''all'' ''measure''
                              then blob_entries loads (the mb) else []) \<and>
     projects_using_table res' = projects_using_table res \<and>
     projects_using_column res' = projects_using_column res"
proof (cases "in_scope mb ty ''all'' ''measure''")
  case False
  then show ?thesis using a
    by (auto simp add: measures_part_def measure_hits_def expression_hits_def)
next
  case sc: True
  show ?thesis
  proof (cases "loads (the mb)")
    case None
    then show ?thesis using a sc
      by (auto simp add: measures_part_def blob_entries_def measure_hits_def expression_hits_def)
  next
    case (Some v)
    from a sc Some obtain ms where ms: "py_iter v = Inr ms"
      by (cases "py_iter v") (auto simp add: measures_part_def)
    from a sc Some ms have c: "check_measures (py_lower t) p ms res = Inr res'"
      by (simp add: measures_part_def)
    have "blob_entries loads (the mb) = ms" using Some ms by (simp add: blob_entries_def)
    then show ?thesis using check_measures_hits[OF c] sc by simp
  qed
qed

lemma impact_project_hits:
  "impact_project loads (py_lower t) ty row res = Inr res' \<Longrightarrow>
     projects_using_table res' =
       projects_using_table res @ table_hits t (fst row) (searched_tables loads ty row) \<and>
     projects_using_column res' =
       projects_using_column res @ column_hits t (fst row) (searched_tables loads ty row) \<and>
     projects_with_measure res' =
       projects_with_measure res @ measure_hits t (fst row) (searched_measures loads ty row) \<and>
     measures_referencing_item res' =
       measures_referencing_item res @
         expression_hits t (fst row) (searched_measures loads ty row)"
proof -
  assume a: "impact_project loads (py_lower t) ty row res = Inr res'"
  obtain p tb mb where row: "row = (p, tb, mb)" by (cases row) auto
  have nil: "table_hits t p [] = []" "column_hits t p [] = []"
            "measure_hits t p [] = []" "expression_hits t p [] = []"
    by (simp_all add: table_hits_def column_hits_def measure_hits_def expression_hits_def)
  show ?thesis
  proof (cases "in_scope tb ty ''all'' ''table''")
    case False
    then have m: "measures_part loads (py_lower t) ty p mb res = Inr res'"
      using a row by (simp add: impact_project_def)
    from measures_part_hits[OF m] False row nil show ?thesis
      by (simp add: searched_tables_def searched_measures_def)
  next
    case sc: True
    show ?thesis
    proof (cases "loads (the tb)")
      case None
      then have "res' = res" using a row sc by (simp add: impact_project_def)
      then show ?thesis using None sc row nil
        by (simp add: searched_tables_def searched_measures_def blob_entries_def)
    next
      case (Some v)
      from a row sc Some obtain ts where ts: "py_iter v = Inr ts"
        by (cases "py_iter v") (auto simp add: impact_project_def)
      from a row sc Some ts obtain res1 where
        c: "check_tables (py_lower t) p ts res = Inr res1" and
        m: "measures_part loads (py_lower t) ty p mb res1 = Inr res'"
        by (cases "check_tables (py_lower t) p ts res") (auto simp add: impact_project_def)
      have be: "blob_entries loads (the tb) = ts" using Some ts by (simp add: blob_entries_def)
      from check_tables_hits[OF c] measures_part_hits[OF m] be sc Some row show ?thesis
        by (simp add: searched_tables_def searched_measures_def)
    qed
  qed
qed

lemma impact_loop_hits:
  "impact_loop loads (py_lower t) ty rows res = Inr res' \<Longrightarrow>
     projects_using_table res' =
       projects_using_table res @
         concat (map (\<lambda>row. table_hits t (fst row) (searched_tables loads ty row)) rows) \<and>
     projects_using_column res' =
       projects_using_column res @
         concat (map (\<lambda>row. column_hits t (fst row) (searched_tables loads ty row)) rows) \<and>
     projects_with_measure res' =
       projects_with_measure res @
         concat (map (\<lambda>row. measure_hits t (fst row) (searched_measures loads ty row)) rows) \<and>
     measures_referencing_item res' =
       measures_referencing_item res @
         concat (map (\<lambda>row. expression_hits t (fst row) (searched_measures loads ty row)) rows)"
proof (induction rows arbitrary: res)
  case Nil
  then show ?case by simp
next
  case (Cons row rows)
  from Cons.prems obtain res1 where
    p: "impact_project loads (py_lower t) ty row res = Inr res1" and
    l: "impact_loop loads (py_lower t) ty rows res1 = Inr res'"
    by (cases "impact_project loads (py_lower t) ty row res") auto
  from impact_project_hits[OF p] Cons.IH[OF l] show ?case by simp
qed

lemma search_holds_matches:
  "mcp_analyze_impact loads db t ty = Inr res \<Longrightarrow>
     impact_holds_matches loads t ty (select_impact_rows db) res"
  unfolding mcp_analyze_impact_def impact_holds_matches_def
  using impact_loop_hits[of loads t ty "select_impact_rows db" empty_impact res]
  by (simp add: empty_impact_def)

text \<open>
  \<open>LIKE\<close> with a pattern \<open>%x%\<close> whose \<open>x\<close> holds no wildcard is containment of \<open>x\<close> with
  the ASCII letters folded, and a pattern enters \<open>LIKE\<close> only through its folded form.
\<close>

lemma sql_like_percent: "sql_like ''%'' s"
  by (induction s) simp_all

lemma sql_like_prefix:
  "CHR ''%'' \<notin> set x \<Longrightarrow> CHR ''_'' \<notin> set x \<Longrightarrow>
   sql_like (x @ ''%'') s = prefix (map like_fold x) (map like_fold s)"
proof (induction x arbitrary: s)
  case Nil
  then show ?case by (simp add: sql_like_percent)
next
  case (Cons a x)
  then show ?case by (cases s) auto
qed

lemma sql_like_contains:
  assumes "CHR ''%'' \<notin> set x" and "CHR ''_'' \<notin> set x"
  shows "sql_like (''%'' @ x @ ''%'') s = sublist (map like_fold x) (map like_fold s)"
proof (induction s)
  case Nil
  have "sql_like (x @ ''%'') [] = (x = [])"
    using sql_like_prefix[OF assms, of "[]"] by simp
  then show ?case by simp
next
  case (Cons c cs)
  have "sql_like (''%'' @ x @ ''%'') (c # cs) =
          (sql_like (x @ ''%'') (c # cs) \<or> sql_like (''%'' @ x @ ''%'') cs)"
    by simp
  also have "\<dots> = (prefix (map like_fold x) (map like_fold (c # cs)) \<or>
                   sublist (map like_fold x) (map like_fold cs))"
    using sql_like_prefix[OF assms] Cons.IH by simp
  also have "\<dots> = sublist (map like_fold x) (map like_fold (c # cs))"
    by (simp add: sublist_Cons_right)
  finally show ?case .
qed

lemma like_fold_percent: "like_fold c = CHR ''%'' \<longleftrightarrow> c = CHR ''%''"
  by (auto simp add: like_fold_def split: if_splits)

lemma like_fold_underscore: "like_fold c = CHR ''_'' \<longleftrightarrow> c = CHR ''_''"
  by (auto simp add: like_fold_def split: if_splits)

lemma sql_like_fold:
  "map like_fold p = map like_fold p' \<Longrightarrow> sql_like p s = sql_like p' s"
proof (induction p s arbitrary: p' rule: sql_like.induct)
  case (1 s)
  then show ?case by simp
next
  case (2 p ps)
  then obtain q qs where p': "p' = q # qs" and h: "like_fold p = like_fold q"
    and t: "map like_fold ps = map like_fold qs" by (cases p') auto
  have "(p = CHR ''%'') = (q = CHR ''%'')" using h like_fold_percent by metis
  then show ?case using 2 p' t by auto
next
  case (3 p ps c cs)
  then obtain q qs where p': "p' = q # qs" and h: "like_fold p = like_fold q"
    and t: "map like_fold ps = map like_fold qs" by (cases p') auto
  have pc: "(p = CHR ''%'') = (q = CHR ''%'')" using h like_fold_percent by metis
  have us: "(p = CHR ''_'') = (q = CHR ''_'')" using h like_fold_underscore by metis
  show ?case
  proof (cases "p = CHR ''%''")
    case True
    then have q: "q = CHR ''%''" using pc by simp
    have a: "sql_like ps (c # cs) = sql_like qs (c # cs)" using "3.IH"(1)[OF True t] .
    have b: "sql_like (p # ps) cs = sql_like (q # qs) cs"
      using "3.IH"(2)[OF True, of "q # qs"] h t by simp
    show ?thesis using True q a b p' by simp
  next
    case False
    then have q: "\<not> q = CHR ''%''" using pc by simp
    have a: "sql_like ps cs = sql_like qs cs" using "3.IH"(3)[OF False t] .
    show ?thesis using False q a p' us h by simp
  qed
qed

lemma pbi_like_fold:
  assumes "map like_fold t = map like_fold t'"
  shows "map_sum id pi_measures_referencing_table (pbi_analyze_impact ndb (Some t) mn cn) =
         map_sum id pi_measures_referencing_table (pbi_analyze_impact ndb (Some t') mn cn)"
proof -
  from assms have e: "(t = []) = (t' = [])" by auto
  have l: "sql_like (''%'' @ t @ ''%'') s = sql_like (''%'' @ t' @ ''%'') s" for s
    using sql_like_fold[of "''%'' @ t @ ''%''" "''%'' @ t' @ ''%''" s] assms by simp
  show ?thesis using e l by (simp add: pbi_analyze_impact_def given_def Let_def)
qed

text \<open>
  The lookups of the normalized store without a column name: the lists are the
  selected rows of the joins, without duplicates.
\<close>

lemma join_select_set:
  "(\<Union>x\<in>A. f x ` {y \<in> B. P x y}) =
   (\<lambda>pt. f (fst pt) (snd pt)) ` {pt \<in> A \<times> B. P (fst pt) (snd pt)}"
  by force

lemma pbi_tables_exact:
  assumes "given tn" and "\<not> given cn"
  shows "\<exists>r xs. pbi_analyze_impact db tn mn cn = Inr r \<and>
           pi_projects_using_table r = Some xs \<and> distinct xs \<and>
           set xs = owns_table_named db (the tn)"
  using assms
  by (simp add: pbi_analyze_impact_def Let_def owns_table_named_def
        join_select_set[where f = "\<lambda>p t. np_name p"
          and P = "\<lambda>p t. np_id p = nt_project_id t \<and> nt_table_name t = the tn"])

lemma pbi_measures_exact:
  assumes "given mn" and "\<not> given cn"
  shows "\<exists>r xs. pbi_analyze_impact db tn mn cn = Inr r \<and>
           pi_projects_with_measure r = Some xs \<and> distinct xs \<and>
           set xs = measures_named db (the mn)"
  using assms
  by (simp add: pbi_analyze_impact_def Let_def measures_named_def
        join_select_set[where f = "\<lambda>p m. (np_name p, nm_table_name m, nm_dax_expression m)"
          and P = "\<lambda>p m. np_id p = nm_project_id m \<and> nm_measure_name m = the mn"])

lemma pbi_like_contains:
  assumes "given tn" and "\<not> given cn"
    and "CHR ''%'' \<notin> set (the tn)" and "CHR ''_'' \<notin> set (the tn)"
  shows "\<exists>r xs. pbi_analyze_impact db tn mn cn = Inr r \<and>
           pi_measures_referencing_table r = Some xs \<and> distinct xs \<and>
           set xs = measures_mentioning db (the tn)"
proof -
  have l: "sql_like (CHR ''%'' # the tn @ ''%'') s =
           sublist (map like_fold (the tn)) (map like_fold s)" for s
    using sql_like_contains[OF assms(3,4), of s] by simp
  show ?thesis using assms(1,2)
    by (simp add: pbi_analyze_impact_def Let_def measures_mentioning_def l
        join_select_set[where f = "\<lambda>p m. (np_name p, nm_measure_name m, nm_dax_expression m)"
          and P = "\<lambda>p m. np_id p = nm_project_id m \<and>
                     sublist (map like_fold (the tn)) (map like_fold (nm_dax_expression m))"])
qed

lemma pbi_not_given:
  assumes "\<not> given cn"
  shows "\<exists>r. pbi_analyze_impact db tn mn cn = Inr r \<and>
           (\<not> given tn \<longrightarrow> pi_projects_using_table r = None \<and>
                                pi_measures_referencing_table r = None) \<and>
           (\<not> given mn \<longrightarrow> pi_projects_with_measure r = None) \<and>
           pi_projects_using_column r = None"
  using assms by (simp add: pbi_analyze_impact_def Let_def)

text \<open>
  \<open>str.lower\<close> lowers the capital letters of Latin-1 also; \<open>LIKE\<close> folds the ASCII
  letters only.
\<close>

lemma lower_and_fold_beyond_ascii:
  "py_lower [CHR 0xC9, CHR ''A'', CHR 0xD7, CHR 0xDF] = [CHR 0xE9, CHR ''a'', CHR 0xD7, CHR 0xDF] \<and>
   map like_fold [CHR 0xC9, CHR ''A''] = [CHR 0xC9, CHR ''a'']"
  by code_simp

text \<open>
  Claim C6 says that a search term and a case variant of it give the same result
  lists. The normalized \<open>analyze_impact\<close> compares names with \<open>=\<close>: the table
  \<open>Sales\<close> of project \<open>P\<close> is found under \<open>Sales\<close> and not under \<open>SALES\<close>.
\<close>

theorem normalized_lookup_is_case_sensitive:
  "py_lower ''Sales'' = py_lower ''SALES'' \<and>
   pbi_analyze_impact ndb_P (Some ''Sales'') None None =
     Inr \<lparr>pi_projects_using_table = Some [''P''],
          pi_measures_referencing_table =
            Some [(''P'', ''Total Revenue'', ''SUM(Sales[Amount])'')],
          pi_projects_with_measure = None, pi_projects_using_column = None\<rparr> \<and>
   pbi_analyze_impact ndb_P (Some ''SALES'') None None =
     Inr \<lparr>pi_projects_using_table = Some [],
          pi_measures_referencing_table =
            Some [(''P'', ''Total Revenue'', ''SUM(Sales[Amount])'')],
          pi_projects_with_measure = None, pi_projects_using_column = None\<rparr>"
  by code_simp

text \<open>
  Claim C6 as amended. In the denormalized variant a search that returns under one of
  the scopes \<open>all\<close>, \<open>table\<close> and \<open>measure\<close> holds in each list exactly the tables,
  columns and measures of the projects it looks at whose name, or for the fourth list
  whose expression, contains the term once both are in lower case, in the order of
  the scan. Containment is that of a contiguous block, it depends on the lower-case
  forms of term and text alone, and two terms with the same lower-case form give the
  same result in every store and under every scope. In the normalized variant, called
  without a column name, the projects with a table and the measures of a given name
  are those whose name is equal to the argument, and the measures that mention a table
  are those whose expression contains the name with the ASCII letters folded, for a
  name without the wildcards of \<open>LIKE\<close>; two names with the same folded form give the
  same list of these measures.
\<close>

theorem search_matches_without_regard_to_case:
  "(\<not> ty = ''column'' \<and> mcp_analyze_impact loads db t ty = Inr res \<longrightarrow>
      impact_holds_matches loads t ty (select_impact_rows db) res) \<and>
   ci_contains t s = (\<exists>pre post. py_lower s = pre @ py_lower t @ post) \<and>
   (py_lower s = py_lower s' \<longrightarrow> ci_contains t s = ci_contains t s') \<and>
   (py_lower t = py_lower t' \<longrightarrow>
      ci_contains t s = ci_contains t' s \<and>
      mcp_analyze_impact loads db t ty = mcp_analyze_impact loads db t' ty) \<and>
   (\<not> given cn \<longrightarrow>
      (\<exists>r. pbi_analyze_impact ndb tn mn cn = Inr r \<and>
           map_option set (pi_projects_using_table r) =
             (if given tn then Some (owns_table_named ndb (the tn)) else None) \<and>
           map_option set (pi_projects_with_measure r) =
             (if given mn then Some (measures_named ndb (the mn)) else None) \<and>
           ((given tn \<longrightarrow> CHR ''%'' \<notin> set (the tn) \<and> CHR ''_'' \<notin> set (the tn)) \<longrightarrow>
              map_option set (pi_measures_referencing_table r) =
                (if given tn then Some (measures_mentioning ndb (the tn)) else None)))) \<and>
   (map like_fold t = map like_fold t' \<longrightarrow>
      map_sum id pi_measures_referencing_table (pbi_analyze_impact ndb (Some t) mn cn) =
      map_sum id pi_measures_referencing_table (pbi_analyze_impact ndb (Some t') mn cn))"
proof (intro conjI impI)
  assume "\<not> ty = ''column'' \<and> mcp_analyze_impact loads db t ty = Inr res"
  then have "mcp_analyze_impact loads db t ty = Inr res" ..
  then show "impact_holds_matches loads t ty (select_impact_rows db) res"
    by (rule search_holds_matches)
next
  show "ci_contains t s = (\<exists>pre post. py_lower s = pre @ py_lower t @ post)"
    by (simp add: ci_contains_def sublist_def)
next
  assume "py_lower s = py_lower s'"
  then show "ci_contains t s = ci_contains t s'" by (simp add: ci_contains_def)
next
  assume "py_lower t = py_lower t'"
  then show "ci_contains t s = ci_contains t' s" by (simp add: ci_contains_def)
next
  assume "py_lower t = py_lower t'"
  then show "mcp_analyze_impact loads db t ty = mcp_analyze_impact loads db t' ty"
    by (simp add: mcp_analyze_impact_def)
next
  assume c: "\<not> given cn"
  from pbi_not_given[OF c, of ndb tn mn] obtain r where
    r: "pbi_analyze_impact ndb tn mn cn = Inr r" and
    nt: "\<not> given tn \<longrightarrow> pi_projects_using_table r = None \<and>
                          pi_measures_referencing_table r = None" and
    nm: "\<not> given mn \<longrightarrow> pi_projects_with_measure r = None"
    by blast
  have 1: "map_option set (pi_projects_using_table r) =
             (if given tn then Some (owns_table_named ndb (the tn)) else None)"
  proof (cases "given tn")
    case True
    from pbi_tables_exact[OF True c, of ndb mn] r show ?thesis using True by auto
  next
    case False
    then show ?thesis using nt by simp
  qed
  have 2: "map_option set (pi_projects_with_measure r) =
             (if given mn then Some (measures_named ndb (the mn)) else None)"
  proof (cases "given mn")
    case True
    from pbi_measures_exact[OF True c, of ndb tn] r show ?thesis using True by auto
  next
    case False
    then show ?thesis using nm by simp
  qed
  have 3: "map_option set (pi_measures_referencing_table r) =
             (if given tn then Some (measures_mentioning ndb (the tn)) else None)"
    if w: "given tn \<longrightarrow> CHR ''%'' \<notin> set (the tn) \<and> CHR ''_'' \<notin> set (the tn)"
  proof (cases "given tn")
    case True
    with w have w1: "CHR ''%'' \<notin> set (the tn)" and w2: "CHR ''_'' \<notin> set (the tn)" by simp_all
    from pbi_like_contains[OF True c w1 w2, of ndb mn] r show ?thesis using True by auto
  next
    case False
    then show ?thesis using nt by simp
  qed
  from r 1 2 3 show "\<exists>r. pbi_analyze_impact ndb tn mn cn = Inr r \<and>
           map_option set (pi_projects_using_table r) =
             (if given tn then Some (owns_table_named ndb (the tn)) else None) \<and>
           map_option set (pi_projects_with_measure r) =
             (if given mn then Some (measures_named ndb (the mn)) else None) \<and>
           ((given tn \<longrightarrow> CHR ''%'' \<notin> set (the tn) \<and> CHR ''_'' \<notin> set (the tn)) \<longrightarrow>
              map_option set (pi_measures_referencing_table r) =
                (if given tn then Some (measures_mentioning ndb (the tn)) else None))"
    by blast
next
  assume "map like_fold t = map like_fold t'"
  then show "map_sum id pi_measures_referencing_table (pbi_analyze_impact ndb (Some t) mn cn) =
      map_sum id pi_measures_referencing_table (pbi_analyze_impact ndb (Some t') mn cn)"
    by (rule pbi_like_fold)
qed

theorem search_matches_without_regard_to_case_witness:
  "\<not> ''all'' = ''column'' \<and>
   mcp_analyze_impact loads_example db_P ''SALES'' ''all'' =
     Inr \<lparr>projects_using_table = [(''P'', ''Sales'')],
          measures_referencing_item = [(''P'', ''Total Revenue'', JStr ''SUM(Sales[Amount])'')],
          projects_with_measure = [], projects_using_column = []\<rparr> \<and>
   impact_holds_matches loads_example ''SALES'' ''all'' (select_impact_rows db_P)
     \<lparr>projects_using_table = [(''P'', ''Sales'')],
      measures_referencing_item = [(''P'', ''Total Revenue'', JStr ''SUM(Sales[Amount])'')],
      projects_with_measure = [], projects_using_column = []\<rparr> \<and>
   table_hits ''SALES'' ''P'' (searched_tables loads_example ''all''
       (''P'', p_tables_data row_P, p_measures_data row_P)) = [(''P'', ''Sales'')] \<and>
   py_lower ''Sales'' = py_lower ''sALES'' \<and>
   ci_contains ''SALES'' ''Sales'' \<and> ci_contains ''SALES'' ''sALES'' \<and>
   \<not> ci_contains ''SALES'' ''Amount'' \<and>
   py_lower ''SALES'' = py_lower ''sales'' \<and>
   mcp_analyze_impact loads_example db_P ''SALES'' ''all'' =
     mcp_analyze_impact loads_example db_P ''sales'' ''all'' \<and>
   \<not> given None \<and> given (Some ''Sales'') \<and> given (Some ''Total Revenue'') \<and>
   CHR ''%'' \<notin> set ''Sales'' \<and> CHR ''_'' \<notin> set ''Sales'' \<and>
   pbi_analyze_impact ndb_P (Some ''Sales'') (Some ''Total Revenue'') None =
     Inr \<lparr>pi_projects_using_table = Some [''P''],
          pi_measures_referencing_table =
            Some [(''P'', ''Total Revenue'', ''SUM(Sales[Amount])'')],
          pi_projects_with_measure = Some [(''P'', ''Sales'', ''SUM(Sales[Amount])'')],
          pi_projects_using_column = None\<rparr> \<and>
   owns_table_named ndb_P ''Sales'' = {''P''} \<and>
   measures_named ndb_P ''Total Revenue'' = {(''P'', ''Sales'', ''SUM(Sales[Amount])'')} \<and>
   measures_mentioning ndb_P ''Sales'' = {(''P'', ''Total Revenue'', ''SUM(Sales[Amount])'')} \<and>
   map like_fold ''SALES'' = map like_fold ''sales'' \<and>
   map_sum id pi_measures_referencing_table
       (pbi_analyze_impact ndb_P (Some ''SALES'') (Some ''Total Revenue'') None) =
     map_sum id pi_measures_referencing_table
       (pbi_analyze_impact ndb_P (Some ''sales'') (Some ''Total Revenue'') None)"
proof -
  let ?res = "\<lparr>projects_using_table = [(''P'', ''Sales'')],
          measures_referencing_item = [(''P'', ''Total Revenue'', JStr ''SUM(Sales[Amount])'')],
          projects_with_measure = [], projects_using_column = []\<rparr>"
  let ?r = "\<lparr>pi_projects_using_table = Some [''P''],
          pi_measures_referencing_table =
            Some [(''P'', ''Total Revenue'', ''SUM(Sales[Amount])'')],
          pi_projects_with_measure = Some [(''P'', ''Sales'', ''SUM(Sales[Amount])'')],
          pi_projects_using_column = None\<rparr>"
  have a: "mcp_analyze_impact loads_example db_P ''SALES'' ''all'' = Inr ?res"
    by code_simp
  have b: "table_hits ''SALES'' ''P'' (searched_tables loads_example ''all''
       (''P'', p_tables_data row_P, p_measures_data row_P)) = [(''P'', ''Sales'')]"
    by code_simp
  have c: "py_lower ''Sales'' = py_lower ''sALES''" "py_lower ''SALES'' = py_lower ''sales''"
    by code_simp+
  have d: "ci_contains ''SALES'' ''Sales''" "\<not> ci_contains ''SALES'' ''Amount''"
    by code_simp+
  have e: "\<not> given None" "given (Some ''Sales'')" "given (Some ''Total Revenue'')"
    by (simp_all add: given_def)
  have f: "pbi_analyze_impact ndb_P (Some ''Sales'') (Some ''Total Revenue'') None = Inr ?r"
    by code_simp
  have g: "map like_fold ''SALES'' = map like_fold ''sales''"
    by code_simp
  note t = search_matches_without_regard_to_case
         [where loads = loads_example and db = db_P and t = "''SALES''" and t' = "''sales''"
            and ty = "''all''" and res = ?res and s = "''Sales''" and s' = "''sALES''"
            and ndb = ndb_P and tn = "Some ''Sales''" and mn = "Some ''Total Revenue''"
            and cn = None]
  from t a have 1: "impact_holds_matches loads_example ''SALES'' ''all'' (select_impact_rows db_P) ?res"
    by simp
  from t c d have 2: "ci_contains ''SALES'' ''sALES''" by simp
  from t c have 3: "mcp_analyze_impact loads_example db_P ''SALES'' ''all'' =
     mcp_analyze_impact loads_example db_P ''sales'' ''all''" by simp
  from t e f have 4: "owns_table_named ndb_P ''Sales'' = {''P''} \<and>
      measures_named ndb_P ''Total Revenue'' = {(''P'', ''Sales'', ''SUM(Sales[Amount])'')} \<and>
      measures_mentioning ndb_P ''Sales'' = {(''P'', ''Total Revenue'', ''SUM(Sales[Amount])'')}"
    by simp
  from t g have 5: "map_sum id pi_measures_referencing_table
       (pbi_analyze_impact ndb_P (Some ''SALES'') (Some ''Total Revenue'') None) =
     map_sum id pi_measures_referencing_table
       (pbi_analyze_impact ndb_P (Some ''sales'') (Some ''Total Revenue'') None)" by simp
  from a b c d e f g 1 2 3 4 5 show ?thesis by simp
qed

end
